theory Spec2Isabelle
  imports Main "HOL-Library.Word"
begin

unbundle bit_operations_syntax

section \<open>Machine types\<close>

type_synonym u32 = "32 word"
type_synonym u64 = "64 word"

section \<open>Option override: the \<open>rdt=\<close> boot parameter\<close>

text \<open>
  The \<open>X86_FEATURE_*\<close> numbers come from a header that is not part of \<open>core.c\<close>. They are
  pairwise distinct feature-bit numbers; the datatype lists the ones \<open>core.c\<close> names.
  \<open>boot_cpu_has\<close> (the raw hardware capability bits) is a parameter of the model.
\<close>

datatype x86_feature =
    X86_FEATURE_CQM_LLC
  | X86_FEATURE_CQM_OCCUP_LLC
  | X86_FEATURE_CQM_MBM_TOTAL
  | X86_FEATURE_CQM_MBM_LOCAL
  | X86_FEATURE_CAT_L3
  | X86_FEATURE_CDP_L3
  | X86_FEATURE_CAT_L2
  | X86_FEATURE_CDP_L2
  | X86_FEATURE_MBA
  | X86_FEATURE_SMBA
  | X86_FEATURE_BMEC
  | X86_FEATURE_RDT_A
  | X86_FEATURE_PER_THREAD_MBA

text \<open>\<open>struct rdt_options\<close>: name, feature flag, and the two override booleans.\<close>

record rdt_options =
  name :: string
  flag :: x86_feature
  force_off :: bool
  force_on :: bool

text \<open>\<open>RDT_OPT(idx, n, f)\<close>: the booleans of a static entry start as false.\<close>

definition RDT_OPT :: "string \<Rightarrow> x86_feature \<Rightarrow> rdt_options" where
  "RDT_OPT n f = \<lparr> name = n, flag = f, force_off = False, force_on = False \<rparr>"

text \<open>The indices of the option table (the anonymous \<open>enum\<close> of \<open>RDT_FLAG_*\<close>).\<close>

definition RDT_FLAG_CMT :: nat where "RDT_FLAG_CMT = 0"
definition RDT_FLAG_MBM_TOTAL :: nat where "RDT_FLAG_MBM_TOTAL = 1"
definition RDT_FLAG_MBM_LOCAL :: nat where "RDT_FLAG_MBM_LOCAL = 2"
definition RDT_FLAG_L3_CAT :: nat where "RDT_FLAG_L3_CAT = 3"
definition RDT_FLAG_L3_CDP :: nat where "RDT_FLAG_L3_CDP = 4"
definition RDT_FLAG_L2_CAT :: nat where "RDT_FLAG_L2_CAT = 5"
definition RDT_FLAG_L2_CDP :: nat where "RDT_FLAG_L2_CDP = 6"
definition RDT_FLAG_MBA :: nat where "RDT_FLAG_MBA = 7"
definition RDT_FLAG_SMBA :: nat where "RDT_FLAG_SMBA = 8"
definition RDT_FLAG_BMEC :: nat where "RDT_FLAG_BMEC = 9"

text \<open>The static table \<open>rdt_options[]\<close> as it is before any boot parameter is parsed.\<close>

definition rdt_options_init :: "rdt_options list" where
  "rdt_options_init =
    [ RDT_OPT ''cmt'' X86_FEATURE_CQM_OCCUP_LLC,
      RDT_OPT ''mbmtotal'' X86_FEATURE_CQM_MBM_TOTAL,
      RDT_OPT ''mbmlocal'' X86_FEATURE_CQM_MBM_LOCAL,
      RDT_OPT ''l3cat'' X86_FEATURE_CAT_L3,
      RDT_OPT ''l3cdp'' X86_FEATURE_CDP_L3,
      RDT_OPT ''l2cat'' X86_FEATURE_CAT_L2,
      RDT_OPT ''l2cdp'' X86_FEATURE_CDP_L2,
      RDT_OPT ''mba'' X86_FEATURE_MBA,
      RDT_OPT ''smba'' X86_FEATURE_SMBA,
      RDT_OPT ''bmec'' X86_FEATURE_BMEC ]"

text \<open>
  \<open>strsep(&str, ",")\<close>: with \<open>str\<close> \<open>NULL\<close> there is no token; otherwise the token is the
  text before the first comma, and \<open>str\<close> becomes the text after that comma, or \<open>NULL\<close> when
  there is no comma. A \<open>string\<close> stands for the bytes before the terminating NUL.
\<close>

definition strsep :: "string option \<Rightarrow> (string \<times> string option) option" where
  "strsep str =
     (case str of
        None \<Rightarrow> None
      | Some s \<Rightarrow>
          (case dropWhile (\<lambda>c. c \<noteq> CHR '','') s of
             [] \<Rightarrow> Some (s, None)
           | _ # rest \<Rightarrow> Some (takeWhile (\<lambda>c. c \<noteq> CHR '','') s, Some rest)))"

text \<open>
  The inner \<open>for\<close> loop of \<open>set_rdt_options\<close>: the first entry whose name equals the token
  gets \<open>force_off\<close> or \<open>force_on\<close> set, and the loop breaks.
\<close>

fun set_rdt_option :: "bool \<Rightarrow> string \<Rightarrow> rdt_options list \<Rightarrow> rdt_options list" where
  "set_rdt_option is_off tok [] = []"
| "set_rdt_option is_off tok (opt # opts) =
     (if tok = name opt then
        (if is_off then opt\<lparr>force_off := True\<rparr> else opt\<lparr>force_on := True\<rparr>) # opts
      else opt # set_rdt_option is_off tok opts)"

text \<open>One pass of the \<open>while\<close> body: strip a leading \<open>!\<close>, then run the inner loop.\<close>

definition set_rdt_token :: "string \<Rightarrow> rdt_options list \<Rightarrow> rdt_options list" where
  "set_rdt_token tok opts =
     (case tok of
        c # tok' \<Rightarrow>
          (if c = CHR ''!'' then set_rdt_option True tok' opts
           else set_rdt_option False tok opts)
      | [] \<Rightarrow> set_rdt_option False tok opts)"

function set_rdt_options_loop :: "string option \<Rightarrow> rdt_options list \<Rightarrow> rdt_options list" where
  "set_rdt_options_loop str opts =
     (case strsep str of
        None \<Rightarrow> opts
      | Some (tok, str') \<Rightarrow> set_rdt_options_loop str' (set_rdt_token tok opts))"
  by pat_completeness auto
termination
proof (relation "measure (\<lambda>(str, opts). case str of None \<Rightarrow> 0 | Some s \<Rightarrow> Suc (length s))")
  show "wf (measure (\<lambda>(str, opts). case str of None \<Rightarrow> 0 | Some s \<Rightarrow> Suc (length s)))"
    by simp
next
  fix str :: "string option" and opts :: "rdt_options list" and x2 tok str'
  assume "strsep str = Some x2" and "(tok, str') = x2"
  then have a: "strsep str = Some (tok, str')"
    by simp
  show "((str', set_rdt_token tok opts), (str, opts))
          \<in> measure (\<lambda>(str, opts). case str of None \<Rightarrow> 0 | Some s \<Rightarrow> Suc (length s))"
  proof (cases str')
    case None
    with a show ?thesis
      by (cases str) (simp_all add: strsep_def)
  next
    case (Some rest)
    with a obtain s c where s: "str = Some s"
      and d: "dropWhile (\<lambda>c. c \<noteq> CHR '','') s = c # rest"
      by (cases str) (auto simp: strsep_def split: list.splits)
    have "length (dropWhile (\<lambda>c. c \<noteq> CHR '','') s) \<le> length s"
      by (rule length_dropWhile_le)
    with d have "length rest < length s"
      by simp
    with s Some show ?thesis
      by simp
  qed
qed

declare set_rdt_options_loop.simps [simp del]

text \<open>\<open>set_rdt_options\<close>: skip one leading \<open>=\<close>, then take the tokens one by one.\<close>

definition set_rdt_options :: "string \<Rightarrow> rdt_options list \<Rightarrow> rdt_options list" where
  "set_rdt_options str opts =
     (let str = (case str of c # s \<Rightarrow> if c = CHR ''='' then s else str | [] \<Rightarrow> str)
      in set_rdt_options_loop (Some str) opts)"

text \<open>
  The loop of \<open>rdt_cpu_has\<close> over the option table: at the first entry for the flag,
  \<open>force_off\<close> clears \<open>ret\<close>, then \<open>force_on\<close> sets it, and the loop breaks.
\<close>

fun rdt_cpu_has_loop :: "rdt_options list \<Rightarrow> x86_feature \<Rightarrow> bool \<Rightarrow> bool" where
  "rdt_cpu_has_loop [] fl ret = ret"
| "rdt_cpu_has_loop (opt # opts) fl ret =
     (if fl = flag opt then
        (let ret = (if force_off opt then False else ret);
             ret = (if force_on opt then True else ret)
         in ret)
      else rdt_cpu_has_loop opts fl ret)"

text \<open>\<open>rdt_cpu_has\<close>: a feature the hardware does not report is absent at once.\<close>

definition rdt_cpu_has :: "(x86_feature \<Rightarrow> bool) \<Rightarrow> rdt_options list \<Rightarrow> x86_feature \<Rightarrow> bool" where
  "rdt_cpu_has boot_cpu_has opts fl =
     (let ret = boot_cpu_has fl
      in if \<not> ret then ret else rdt_cpu_has_loop opts fl ret)"

section \<open>Resources and domains\<close>

datatype resctrl_scope =
    RESCTRL_L2_CACHE
  | RESCTRL_L3_CACHE
  | RESCTRL_L3_NODE
  | RESCTRL_SCOPE_UNSET \<comment> \<open>a scope field the static table leaves out; no enumerator\<close>

datatype resctrl_schema_fmt = RESCTRL_SCHEMA_BITMAP | RESCTRL_SCHEMA_RANGE

datatype resctrl_domain_type = RESCTRL_CTRL_DOMAIN | RESCTRL_MON_DOMAIN

datatype membw_throttle_mode =
    THREAD_THROTTLE_UNDEFINED
  | THREAD_THROTTLE_MAX
  | THREAD_THROTTLE_PER_THREAD

text \<open>The three register-programming strategies a resource's \<open>msr_update\<close> can point to.\<close>

datatype msr_update_fn = CAT_WRMSR | MBA_WRMSR_INTEL | MBA_WRMSR_AMD

text \<open>
  \<open>struct rdt_domain_hdr\<close>, and the two domain structures that embed it. The
  architecture-private wrappers (\<open>rdt_hw_ctrl_domain\<close>, \<open>rdt_hw_mon_domain\<close>) are folded
  into the records, so \<open>resctrl_to_arch_ctrl_dom\<close> and \<open>container_of\<close> are the identity.
  A \<open>NULL\<close> \<open>ctrl_val\<close> is the empty list; \<open>plr\<close> names the pseudo-lock region, if any.
\<close>

record rdt_domain_hdr =
  hdr_id :: int
  hdr_type :: resctrl_domain_type
  cpu_mask :: "nat set"

record rdt_ctrl_domain = rdt_domain_hdr +
  plr :: "nat option"
  ctrl_val :: "u32 list"

record rdt_mon_domain = rdt_domain_hdr +
  ci_id :: u32
  arch_mbm_total :: "(u64 \<times> u64) list option"
  arch_mbm_local :: "(u64 \<times> u64) list option"

record resctrl_cache =
  cbm_len :: u32
  min_cbm_bits :: u32
  shareable_bits :: u32
  arch_has_sparse_bitmasks :: bool
  arch_has_per_cpu_cfg :: bool

record resctrl_membw =
  min_bw :: u32
  max_bw :: u32
  bw_gran :: u32
  delay_linear :: bool
  arch_needs_linear :: bool
  throttle_mode :: membw_throttle_mode

text \<open>
  \<open>struct rdt_resource\<close> and, as its extension, \<open>struct rdt_hw_resource\<close>
  (so \<open>resctrl_to_arch_res\<close> is the identity). A \<open>NULL\<close> \<open>msr_update\<close> is \<open>None\<close>.
\<close>

record rdt_resource =
  rid :: nat
  alloc_capable :: bool
  mon_capable :: bool
  num_rmid :: u32
  ctrl_scope :: resctrl_scope
  mon_scope :: resctrl_scope
  cache :: resctrl_cache
  membw :: resctrl_membw
  ctrl_domains :: "rdt_ctrl_domain list"
  mon_domains :: "rdt_mon_domain list"
  name :: string
  schema_fmt :: resctrl_schema_fmt
  cdp_capable :: bool

record rdt_hw_resource = rdt_resource +
  num_closid :: u32
  msr_base :: u32
  msr_update :: "msr_update_fn option"
  cdp_enabled :: bool

text \<open>Register numbers and error numbers, from headers that are not part of \<open>core.c\<close>.\<close>

definition MSR_IA32_PQR_ASSOC :: u32 where "MSR_IA32_PQR_ASSOC = 0xc8f"
definition MSR_IA32_L3_CBM_BASE :: u32 where "MSR_IA32_L3_CBM_BASE = 0xc90"
definition MSR_IA32_L2_CBM_BASE :: u32 where "MSR_IA32_L2_CBM_BASE = 0xd10"
definition ENOMEM :: int where "ENOMEM = 12"
definition EINVAL :: int where "EINVAL = 22"

text \<open>The indices of the resource table (\<open>enum resctrl_res_level\<close>).\<close>

definition RDT_RESOURCE_L3 :: nat where "RDT_RESOURCE_L3 = 0"
definition RDT_RESOURCE_L2 :: nat where "RDT_RESOURCE_L2 = 1"
definition RDT_RESOURCE_MBA :: nat where "RDT_RESOURCE_MBA = 2"
definition RDT_RESOURCE_SMBA :: nat where "RDT_RESOURCE_SMBA = 3"
definition RDT_NUM_RESOURCES :: nat where "RDT_NUM_RESOURCES = 4"

text \<open>A table entry with every field zero, as static storage starts.\<close>

definition rdt_hw_resource_zero :: rdt_hw_resource where
  "rdt_hw_resource_zero =
    \<lparr> rid = 0, alloc_capable = False, mon_capable = False, num_rmid = 0,
      ctrl_scope = RESCTRL_SCOPE_UNSET, mon_scope = RESCTRL_SCOPE_UNSET,
      cache = \<lparr> cbm_len = 0, min_cbm_bits = 0, shareable_bits = 0,
                arch_has_sparse_bitmasks = False, arch_has_per_cpu_cfg = False \<rparr>,
      membw = \<lparr> min_bw = 0, max_bw = 0, bw_gran = 0, delay_linear = False,
                arch_needs_linear = False, throttle_mode = THREAD_THROTTLE_UNDEFINED \<rparr>,
      ctrl_domains = [], mon_domains = [], name = [],
      schema_fmt = RESCTRL_SCHEMA_BITMAP, cdp_capable = False,
      num_closid = 0, msr_base = 0, msr_update = None, cdp_enabled = False \<rparr>"

text \<open>The static table \<open>rdt_resources_all[RDT_NUM_RESOURCES]\<close>, in index order.\<close>

definition rdt_resources_all_init :: "rdt_hw_resource list" where
  "rdt_resources_all_init =
    [ rdt_hw_resource_zero
        \<lparr> name := ''L3'', ctrl_scope := RESCTRL_L3_CACHE, mon_scope := RESCTRL_L3_CACHE,
          schema_fmt := RESCTRL_SCHEMA_BITMAP,
          msr_base := MSR_IA32_L3_CBM_BASE, msr_update := Some CAT_WRMSR \<rparr>,
      rdt_hw_resource_zero
        \<lparr> name := ''L2'', ctrl_scope := RESCTRL_L2_CACHE,
          schema_fmt := RESCTRL_SCHEMA_BITMAP,
          msr_base := MSR_IA32_L2_CBM_BASE, msr_update := Some CAT_WRMSR \<rparr>,
      rdt_hw_resource_zero
        \<lparr> name := ''MB'', ctrl_scope := RESCTRL_L3_CACHE,
          schema_fmt := RESCTRL_SCHEMA_RANGE \<rparr>,
      rdt_hw_resource_zero
        \<lparr> name := ''SMBA'', ctrl_scope := RESCTRL_L3_CACHE,
          schema_fmt := RESCTRL_SCHEMA_RANGE \<rparr> ]"

text \<open>
  \<open>resctrl_arch_get_resource\<close>: the level is an enumeration without negative
  enumerators, so it is compared as an unsigned 32-bit number. \<open>NULL\<close> is \<open>None\<close>; the
  table is the one the system state holds at the time of the call.
\<close>

definition resctrl_arch_get_resource :: "rdt_hw_resource list \<Rightarrow> u32 \<Rightarrow> rdt_hw_resource option" where
  "resctrl_arch_get_resource rdt_resources_all l =
     (if unat l \<ge> RDT_NUM_RESOURCES then None
      else Some (rdt_resources_all ! unat l))"

section \<open>Effects: the trace of external actions, and the environment\<close>

text \<open>One name per call site of \<open>pr_warn_once\<close>, \<open>pr_warn\<close> and \<open>WARN_ON_ONCE\<close>.\<close>

datatype warn_site =
    WARN_DELAY_BW_MAP
  | WARN_ADD_CTRL_ID | WARN_ADD_CTRL_TYPE
  | WARN_ADD_MON_ID | WARN_ADD_MON_TYPE | WARN_ADD_MON_L3
  | WARN_REMOVE_CTRL_ID | WARN_REMOVE_CTRL_FIND | WARN_REMOVE_CTRL_TYPE
  | WARN_REMOVE_MON_ID | WARN_REMOVE_MON_FIND | WARN_REMOVE_MON_TYPE

text \<open>
  Everything the code does to the outside, in the order it does it: register writes and
  reads, log lines, the writer lock, list linking, the grace-period wait, freeing, and the
  calls into the file-system layer. Resources are named by \<open>rid\<close>, domains by their id.
\<close>

datatype event =
    WRMSRQ u32 u64
  | WRMSRQ_SAFE u32 u64 int
  | RDMSRQ u32 u64
  | WRMSR u32 u32 u32
  | PR_WARN warn_site
  | MUTEX_LOCK
  | MUTEX_UNLOCK
  | RDT_DOMAIN_RECONFIGURE_CDP nat
  | LIST_ADD_TAIL_RCU resctrl_domain_type nat int
  | LIST_DEL_RCU resctrl_domain_type nat int
  | SYNCHRONIZE_RCU
  | PLR_CLEAR_D nat
  | CTRL_DOMAIN_FREE nat int
  | MON_DOMAIN_FREE nat int
  | RESCTRL_ONLINE_CTRL_DOMAIN nat int
  | RESCTRL_OFFLINE_CTRL_DOMAIN nat int
  | ARCH_MON_DOMAIN_ONLINE nat int
  | RESCTRL_ONLINE_MON_DOMAIN nat int
  | RESCTRL_OFFLINE_MON_DOMAIN nat int
  | RESCTRL_ONLINE_CPU nat
  | RESCTRL_OFFLINE_CPU nat
  | INTEL_RDT_MBM_APPLY_QUIRK

text \<open>The trace so far, and which once-only warnings have already fired.\<close>

record kstate =
  trace :: "event list"
  warned :: "warn_site set"

text \<open>
  What the code asks of its surroundings, as parameters: the topology, which counters
  are enabled, whether each allocation succeeds (per resource \<open>rid\<close>), the bytes an
  uninitialised allocation holds, the values the online hooks return, and the core the
  code is running on.
\<close>

record env =
  get_cpu_cacheinfo_id :: "nat \<Rightarrow> resctrl_scope \<Rightarrow> int"
  cpu_to_node :: "nat \<Rightarrow> int"
  get_cpu_cacheinfo_level :: "nat \<Rightarrow> resctrl_scope \<Rightarrow> u32 option"
  resctrl_arch_is_mbm_total_enabled :: bool
  resctrl_arch_is_mbm_local_enabled :: bool
  kzalloc_ctrl_dom_ok :: "nat \<Rightarrow> bool"
  kmalloc_ctrl_val_ok :: "nat \<Rightarrow> bool"
  heap_junk :: "nat \<Rightarrow> u32"
  kzalloc_mon_dom_ok :: "nat \<Rightarrow> bool"
  kcalloc_mbm_total_ok :: "nat \<Rightarrow> bool"
  kcalloc_mbm_local_ok :: "nat \<Rightarrow> bool"
  resctrl_online_ctrl_domain :: "nat \<Rightarrow> int \<Rightarrow> int"
  resctrl_online_mon_domain :: "nat \<Rightarrow> int \<Rightarrow> int"
  this_cpu :: nat

definition emit :: "event \<Rightarrow> kstate \<Rightarrow> kstate" where
  "emit ev k = k\<lparr>trace := trace k @ [ev]\<rparr>"

definition wrmsrq :: "u32 \<Rightarrow> u64 \<Rightarrow> kstate \<Rightarrow> kstate" where
  "wrmsrq msr val k = emit (WRMSRQ msr val) k"

definition pr_warn :: "warn_site \<Rightarrow> kstate \<Rightarrow> kstate" where
  "pr_warn site k = emit (PR_WARN site) k"

text \<open>\<open>pr_warn_once\<close>: the line is printed the first time the call site is reached.\<close>

definition pr_warn_once :: "warn_site \<Rightarrow> kstate \<Rightarrow> kstate" where
  "pr_warn_once site k =
     (if site \<in> warned k then k
      else emit (PR_WARN site) (k\<lparr>warned := insert site (warned k)\<rparr>))"

text \<open>\<open>WARN_ON_ONCE(cond)\<close>: its value is the condition; it warns once when it holds.\<close>

definition WARN_ON_ONCE :: "warn_site \<Rightarrow> bool \<Rightarrow> kstate \<Rightarrow> bool \<times> kstate" where
  "WARN_ON_ONCE site cond k = (cond, if cond then pr_warn_once site k else k)"

text \<open>
  \<open>kmalloc_array(n, size, GFP_KERNEL)\<close>: \<open>NULL\<close>, or room for \<open>n\<close> elements holding
  whatever the heap held. \<open>kcalloc\<close>: \<open>NULL\<close>, or \<open>n\<close> zeroed elements.
\<close>

definition kmalloc_array :: "bool \<Rightarrow> (nat \<Rightarrow> 'a) \<Rightarrow> nat \<Rightarrow> 'a list option" where
  "kmalloc_array ok junk n = (if ok then Some (map junk [0..<n]) else None)"

definition kcalloc :: "bool \<Rightarrow> 'a \<Rightarrow> nat \<Rightarrow> 'a list option" where
  "kcalloc ok zero n = (if ok then Some (replicate n zero) else None)"

text \<open>\<open>cpumask_set_cpu\<close>, \<open>cpumask_clear_cpu\<close>, \<open>cpumask_empty\<close> on a set of core numbers.\<close>

definition cpumask_set_cpu :: "nat \<Rightarrow> nat set \<Rightarrow> nat set" where
  "cpumask_set_cpu cpu m = insert cpu m"

definition cpumask_clear_cpu :: "nat \<Rightarrow> nat set \<Rightarrow> nat set" where
  "cpumask_clear_cpu cpu m = m - {cpu}"

definition cpumask_empty :: "nat set \<Rightarrow> bool" where
  "cpumask_empty m = (m = {})"

section \<open>Register programmer\<close>

text \<open>
  Modelled from the spec: the constant \<open>MAX_MBA_BW\<close> is declared outside \<open>core.c\<close>; it
  is the maximum of the linear delay scale, on which requesting 100 percent maps to delay
  0 and requesting 10 percent maps to delay 90.
\<close>

definition MAX_MBA_BW :: u32 where "MAX_MBA_BW = 100"

text \<open>
  Modelled from the spec: \<open>resctrl_get_default_ctrl\<close> is declared outside \<open>core.c\<close>; the
  default "no restriction" value is, for a cache (bitmap schema), all bits set within the
  bitmask length, and for bandwidth (range schema), 100 percent of the maximum.
\<close>

definition resctrl_get_default_ctrl :: "rdt_hw_resource \<Rightarrow> u32" where
  "resctrl_get_default_ctrl r =
     (case schema_fmt r of
        RESCTRL_SCHEMA_BITMAP \<Rightarrow> mask (unat (cbm_len (cache r)))
      | RESCTRL_SCHEMA_RANGE \<Rightarrow> max_bw (membw r))"

text \<open>\<open>struct msr_param\<close>: resource, domain and the index range \<open>[low, high)\<close>.\<close>

record msr_param =
  res :: rdt_hw_resource
  dom :: rdt_ctrl_domain
  low :: u32
  high :: u32

text \<open>
  \<open>delay_bw_map\<close>: \<open>bw\<close> is an \<open>unsigned long\<close>, the difference is taken at that width
  and returned as a \<open>u32\<close>.
\<close>

definition delay_bw_map :: "u64 \<Rightarrow> rdt_hw_resource \<Rightarrow> kstate \<Rightarrow> u32 \<times> kstate" where
  "delay_bw_map bw r k =
     (if delay_linear (membw r) then (ucast ((ucast MAX_MBA_BW :: u64) - bw), k)
      else (MAX_MBA_BW, pr_warn_once WARN_DELAY_BW_MAP k))"

text \<open>
  The \<open>for (i = m->low; i < m->high; i++)\<close> loops of the three strategies, over the
  indices still to do. Reading \<open>ctrl_val[i]\<close> past the end of the array is a fault: \<open>None\<close>.
\<close>

fun cat_wrmsr_loop :: "rdt_hw_resource \<Rightarrow> rdt_ctrl_domain \<Rightarrow> nat list \<Rightarrow> kstate \<Rightarrow> kstate option" where
  "cat_wrmsr_loop r d [] k = Some k"
| "cat_wrmsr_loop r d (i # is) k =
     (if i < length (ctrl_val d)
      then cat_wrmsr_loop r d is (wrmsrq (msr_base r + of_nat i) (ucast (ctrl_val d ! i)) k)
      else None)"

definition cat_wrmsr :: "msr_param \<Rightarrow> kstate \<Rightarrow> kstate option" where
  "cat_wrmsr m k = cat_wrmsr_loop (res m) (dom m) [unat (low m)..<unat (high m)] k"

fun mba_wrmsr_amd_loop :: "rdt_hw_resource \<Rightarrow> rdt_ctrl_domain \<Rightarrow> nat list \<Rightarrow> kstate \<Rightarrow> kstate option" where
  "mba_wrmsr_amd_loop r d [] k = Some k"
| "mba_wrmsr_amd_loop r d (i # is) k =
     (if i < length (ctrl_val d)
      then mba_wrmsr_amd_loop r d is (wrmsrq (msr_base r + of_nat i) (ucast (ctrl_val d ! i)) k)
      else None)"

definition mba_wrmsr_amd :: "msr_param \<Rightarrow> kstate \<Rightarrow> kstate option" where
  "mba_wrmsr_amd m k = mba_wrmsr_amd_loop (res m) (dom m) [unat (low m)..<unat (high m)] k"

fun mba_wrmsr_intel_loop :: "rdt_hw_resource \<Rightarrow> rdt_ctrl_domain \<Rightarrow> nat list \<Rightarrow> kstate \<Rightarrow> kstate option" where
  "mba_wrmsr_intel_loop r d [] k = Some k"
| "mba_wrmsr_intel_loop r d (i # is) k =
     (if i < length (ctrl_val d)
      then (case delay_bw_map (ucast (ctrl_val d ! i)) r k of
              (delay, k') \<Rightarrow>
                mba_wrmsr_intel_loop r d is (wrmsrq (msr_base r + of_nat i) (ucast delay) k'))
      else None)"

definition mba_wrmsr_intel :: "msr_param \<Rightarrow> kstate \<Rightarrow> kstate option" where
  "mba_wrmsr_intel m k =
     mba_wrmsr_intel_loop (res m) (dom m) [unat (low m)..<unat (high m)] k"

text \<open>
  \<open>hw_res->msr_update(&m)\<close>: the call through the function pointer, which also is the
  body of \<open>rdt_ctrl_update\<close>. A call through \<open>NULL\<close> is a fault: \<open>None\<close>.
\<close>

definition call_msr_update :: "msr_update_fn option \<Rightarrow> msr_param \<Rightarrow> kstate \<Rightarrow> kstate option" where
  "call_msr_update f m k =
     (case f of
        None \<Rightarrow> None
      | Some CAT_WRMSR \<Rightarrow> cat_wrmsr m k
      | Some MBA_WRMSR_INTEL \<Rightarrow> mba_wrmsr_intel m k
      | Some MBA_WRMSR_AMD \<Rightarrow> mba_wrmsr_amd m k)"

definition rdt_ctrl_update :: "msr_param \<Rightarrow> kstate \<Rightarrow> kstate option" where
  "rdt_ctrl_update m k = call_msr_update (msr_update (res m)) m k"

definition resctrl_arch_get_num_closid :: "rdt_hw_resource \<Rightarrow> u32" where
  "resctrl_arch_get_num_closid r = num_closid r"

section \<open>Domain registry\<close>

text \<open>
  \<open>setup_default_ctrlval\<close>: entry \<open>i\<close> of the array gets the default, for every
  \<open>i\<close> below \<open>num_closid\<close>. Its one caller passes an array of that many entries.
\<close>

definition setup_default_ctrlval :: "rdt_hw_resource \<Rightarrow> u32 list \<Rightarrow> u32 list" where
  "setup_default_ctrlval r dc =
     fold (\<lambda>i dc. dc[i := resctrl_get_default_ctrl r]) [0..<unat (num_closid r)] dc"

definition ctrl_domain_free :: "nat \<Rightarrow> rdt_ctrl_domain \<Rightarrow> kstate \<Rightarrow> kstate" where
  "ctrl_domain_free rd d k = emit (CTRL_DOMAIN_FREE rd (hdr_id d)) k"

definition mon_domain_free :: "nat \<Rightarrow> rdt_mon_domain \<Rightarrow> kstate \<Rightarrow> kstate" where
  "mon_domain_free rd d k = emit (MON_DOMAIN_FREE rd (hdr_id d)) k"

text \<open>
  \<open>domain_setup_ctrlval\<close>: the result is the return value (0 or \<open>-ENOMEM\<close>), the domain
  with its quota array, and the effects; \<open>None\<close> when the register write faults.
\<close>

definition domain_setup_ctrlval ::
  "env \<Rightarrow> rdt_hw_resource \<Rightarrow> rdt_ctrl_domain \<Rightarrow> kstate \<Rightarrow> (int \<times> rdt_ctrl_domain \<times> kstate) option" where
  "domain_setup_ctrlval e r d k =
     (case kmalloc_array (kmalloc_ctrl_val_ok e (rid r)) (heap_junk e) (unat (num_closid r)) of
        None \<Rightarrow> Some (- ENOMEM, d, k)
      | Some dc \<Rightarrow>
          (let d' = d\<lparr>ctrl_val := setup_default_ctrlval r dc\<rparr>;
               m = \<lparr> res = r, dom = d', low = 0, high = num_closid r \<rparr>
           in case call_msr_update (msr_update r) m k of
                None \<Rightarrow> None
              | Some k' \<Rightarrow> Some (0, d', k')))"

text \<open>
  \<open>arch_domain_mbm_alloc\<close>: a counter array for each enabled counter kind; when the
  second allocation fails the first array is freed again.
\<close>

definition arch_domain_mbm_alloc ::
  "env \<Rightarrow> nat \<Rightarrow> u32 \<Rightarrow> rdt_mon_domain \<Rightarrow> int \<times> rdt_mon_domain" where
  "arch_domain_mbm_alloc e rd num_rmid_arg d =
     (case (if resctrl_arch_is_mbm_total_enabled e then
              (case kcalloc (kcalloc_mbm_total_ok e rd) (0, 0) (unat num_rmid_arg) of
                 None \<Rightarrow> Inl (d\<lparr>arch_mbm_total := None\<rparr>)
               | Some tot \<Rightarrow> Inr (d\<lparr>arch_mbm_total := Some tot\<rparr>))
            else Inr d) of
        Inl d0 \<Rightarrow> (- ENOMEM, d0)
      | Inr d1 \<Rightarrow>
          (if resctrl_arch_is_mbm_local_enabled e then
             (case kcalloc (kcalloc_mbm_local_ok e rd) (0, 0) (unat num_rmid_arg) of
                None \<Rightarrow> (- ENOMEM, d1\<lparr>arch_mbm_local := None, arch_mbm_total := None\<rparr>)
              | Some loc \<Rightarrow> (0, d1\<lparr>arch_mbm_local := Some loc\<rparr>))
           else (0, d1)))"

definition get_domain_id_from_scope :: "env \<Rightarrow> nat \<Rightarrow> resctrl_scope \<Rightarrow> int" where
  "get_domain_id_from_scope e cpu scope =
     (case scope of
        RESCTRL_L2_CACHE \<Rightarrow> get_cpu_cacheinfo_id e cpu scope
      | RESCTRL_L3_CACHE \<Rightarrow> get_cpu_cacheinfo_id e cpu scope
      | RESCTRL_L3_NODE \<Rightarrow> cpu_to_node e cpu
      | RESCTRL_SCOPE_UNSET \<Rightarrow> - EINVAL)"

text \<open>
  Modelled from the spec: \<open>resctrl_find_domain\<close> is defined outside \<open>core.c\<close>. It searches
  the domain list, which is kept in identity order, for a domain with the given id; when
  there is none it yields the position at which a new domain preserves that ordering
  (the first domain with a larger id, or the end of the list). The result is the index of
  the domain found, if any, and that position; the third argument is the index of the head
  of the list given.
\<close>

fun resctrl_find_domain :: "('a rdt_domain_hdr_scheme) list \<Rightarrow> int \<Rightarrow> nat \<Rightarrow> nat option \<times> nat" where
  "resctrl_find_domain [] i n = (None, n)"
| "resctrl_find_domain (d # ds) i n =
     (if i = hdr_id d then (Some n, n)
      else if i < hdr_id d then (None, n)
      else resctrl_find_domain ds i (Suc n))"

text \<open>
  \<open>list_add_tail_rcu(new, pos)\<close> links the new node just before position \<open>pos\<close>;
  \<open>list_del_rcu\<close> unlinks the node at a position.
\<close>

definition list_add_tail_rcu :: "'a \<Rightarrow> nat \<Rightarrow> 'a list \<Rightarrow> 'a list" where
  "list_add_tail_rcu d pos ds = take pos ds @ d # drop pos ds"

definition list_del_rcu :: "nat \<Rightarrow> 'a list \<Rightarrow> 'a list" where
  "list_del_rcu pos ds = take pos ds @ drop (Suc pos) ds"

text \<open>
  Modelled from the spec: \<open>rdt_domain_reconfigure_cdp\<close> is defined outside \<open>core.c\<close>. It
  reconciles the per-core configurable settings of the resource after a membership
  change; it is an action on the hardware and leaves the resource and its domains alone.
\<close>

definition rdt_domain_reconfigure_cdp :: "rdt_hw_resource \<Rightarrow> kstate \<Rightarrow> kstate" where
  "rdt_domain_reconfigure_cdp r k = emit (RDT_DOMAIN_RECONFIGURE_CDP (rid r)) k"

text \<open>
  \<open>domain_add_cpu_ctrl\<close>. The result is the resource with its control-domain list and
  the effects; \<open>None\<close> when programming the registers faults.
\<close>

definition domain_add_cpu_ctrl ::
  "env \<Rightarrow> nat \<Rightarrow> rdt_hw_resource \<Rightarrow> kstate \<Rightarrow> (rdt_hw_resource \<times> kstate) option" where
  "domain_add_cpu_ctrl e cpu r k =
     (let dom_id = get_domain_id_from_scope e cpu (ctrl_scope r)
      in if dom_id < 0 then Some (r, pr_warn_once WARN_ADD_CTRL_ID k)
         else
           (case resctrl_find_domain (ctrl_domains r) dom_id 0 of
              (Some i, add_pos) \<Rightarrow>
                (case WARN_ON_ONCE WARN_ADD_CTRL_TYPE
                        (hdr_type (ctrl_domains r ! i) \<noteq> RESCTRL_CTRL_DOMAIN) k of
                   (True, k') \<Rightarrow> Some (r, k')
                 | (False, k') \<Rightarrow>
                     (let d = ctrl_domains r ! i;
                          d' = d\<lparr>cpu_mask := cpumask_set_cpu cpu (cpu_mask d)\<rparr>;
                          r' = r\<lparr>ctrl_domains := (ctrl_domains r)[i := d']\<rparr>
                      in Some (r', if arch_has_per_cpu_cfg (cache r')
                                   then rdt_domain_reconfigure_cdp r' k' else k')))
            | (None, add_pos) \<Rightarrow>
                (if \<not> kzalloc_ctrl_dom_ok e (rid r) then Some (r, k)
                 else
                   (let d = \<lparr> hdr_id = dom_id, hdr_type = RESCTRL_CTRL_DOMAIN,
                              cpu_mask = cpumask_set_cpu cpu {}, plr = None, ctrl_val = [] \<rparr>;
                        k1 = rdt_domain_reconfigure_cdp r k
                    in case domain_setup_ctrlval e r d k1 of
                         None \<Rightarrow> None
                       | Some (ret, d', k2) \<Rightarrow>
                           (if ret \<noteq> 0 then Some (r, ctrl_domain_free (rid r) d' k2)
                            else
                              (let r1 = r\<lparr>ctrl_domains :=
                                            list_add_tail_rcu d' add_pos (ctrl_domains r)\<rparr>;
                                   k3 = emit (LIST_ADD_TAIL_RCU RESCTRL_CTRL_DOMAIN (rid r) dom_id) k2;
                                   err = resctrl_online_ctrl_domain e (rid r) dom_id;
                                   k4 = emit (RESCTRL_ONLINE_CTRL_DOMAIN (rid r) dom_id) k3
                               in if err \<noteq> 0 then
                                    Some (r1\<lparr>ctrl_domains := list_del_rcu add_pos (ctrl_domains r1)\<rparr>,
                                          ctrl_domain_free (rid r) d'
                                            (emit SYNCHRONIZE_RCU
                                              (emit (LIST_DEL_RCU RESCTRL_CTRL_DOMAIN (rid r) dom_id) k4)))
                                  else Some (r1, k4)))))))"

text \<open>\<open>domain_add_cpu_mon\<close>: it programs no quota register, so it cannot fault.\<close>

definition domain_add_cpu_mon ::
  "env \<Rightarrow> nat \<Rightarrow> rdt_hw_resource \<Rightarrow> kstate \<Rightarrow> rdt_hw_resource \<times> kstate" where
  "domain_add_cpu_mon e cpu r k =
     (let dom_id = get_domain_id_from_scope e cpu (mon_scope r)
      in if dom_id < 0 then (r, pr_warn_once WARN_ADD_MON_ID k)
         else
           (case resctrl_find_domain (mon_domains r) dom_id 0 of
              (Some i, add_pos) \<Rightarrow>
                (case WARN_ON_ONCE WARN_ADD_MON_TYPE
                        (hdr_type (mon_domains r ! i) \<noteq> RESCTRL_MON_DOMAIN) k of
                   (True, k') \<Rightarrow> (r, k')
                 | (False, k') \<Rightarrow>
                     (let d = mon_domains r ! i;
                          d' = d\<lparr>cpu_mask := cpumask_set_cpu cpu (cpu_mask d)\<rparr>
                      in (r\<lparr>mon_domains := (mon_domains r)[i := d']\<rparr>, k')))
            | (None, add_pos) \<Rightarrow>
                (if \<not> kzalloc_mon_dom_ok e (rid r) then (r, k)
                 else
                   (let d = \<lparr> hdr_id = dom_id, hdr_type = RESCTRL_MON_DOMAIN, cpu_mask = {},
                              ci_id = 0, arch_mbm_total = None, arch_mbm_local = None \<rparr>
                    in case get_cpu_cacheinfo_level e cpu RESCTRL_L3_CACHE of
                         None \<Rightarrow> (r, mon_domain_free (rid r) d (pr_warn_once WARN_ADD_MON_L3 k))
                       | Some ci \<Rightarrow>
                           (let d1 = d\<lparr>ci_id := ci\<rparr>;
                                d2 = d1\<lparr>cpu_mask := cpumask_set_cpu cpu (cpu_mask d1)\<rparr>;
                                k1 = emit (ARCH_MON_DOMAIN_ONLINE (rid r) dom_id) k
                            in case arch_domain_mbm_alloc e (rid r) (num_rmid r) d2 of
                                 (ret, d3) \<Rightarrow>
                                   (if ret \<noteq> 0 then (r, mon_domain_free (rid r) d3 k1)
                                    else
                                      (let r1 = r\<lparr>mon_domains :=
                                                    list_add_tail_rcu d3 add_pos (mon_domains r)\<rparr>;
                                           k2 = emit (LIST_ADD_TAIL_RCU RESCTRL_MON_DOMAIN (rid r) dom_id) k1;
                                           err = resctrl_online_mon_domain e (rid r) dom_id;
                                           k3 = emit (RESCTRL_ONLINE_MON_DOMAIN (rid r) dom_id) k2
                                       in if err \<noteq> 0 then
                                            (r1\<lparr>mon_domains := list_del_rcu add_pos (mon_domains r1)\<rparr>,
                                             mon_domain_free (rid r) d3
                                               (emit SYNCHRONIZE_RCU
                                                 (emit (LIST_DEL_RCU RESCTRL_MON_DOMAIN (rid r) dom_id) k3)))
                                          else (r1, k3))))))))"

definition domain_add_cpu ::
  "env \<Rightarrow> nat \<Rightarrow> rdt_hw_resource \<Rightarrow> kstate \<Rightarrow> (rdt_hw_resource \<times> kstate) option" where
  "domain_add_cpu e cpu r k =
     (case (if alloc_capable r then domain_add_cpu_ctrl e cpu r k else Some (r, k)) of
        None \<Rightarrow> None
      | Some (r1, k1) \<Rightarrow>
          Some (if mon_capable r1 then domain_add_cpu_mon e cpu r1 k1 else (r1, k1)))"

definition domain_remove_cpu_ctrl ::
  "env \<Rightarrow> nat \<Rightarrow> rdt_hw_resource \<Rightarrow> kstate \<Rightarrow> rdt_hw_resource \<times> kstate" where
  "domain_remove_cpu_ctrl e cpu r k =
     (let dom_id = get_domain_id_from_scope e cpu (ctrl_scope r)
      in if dom_id < 0 then (r, pr_warn_once WARN_REMOVE_CTRL_ID k)
         else
           (case fst (resctrl_find_domain (ctrl_domains r) dom_id 0) of
              None \<Rightarrow> (r, pr_warn WARN_REMOVE_CTRL_FIND k)
            | Some i \<Rightarrow>
                (case WARN_ON_ONCE WARN_REMOVE_CTRL_TYPE
                        (hdr_type (ctrl_domains r ! i) \<noteq> RESCTRL_CTRL_DOMAIN) k of
                   (True, k') \<Rightarrow> (r, k')
                 | (False, k') \<Rightarrow>
                     (let d = ctrl_domains r ! i;
                          d' = d\<lparr>cpu_mask := cpumask_clear_cpu cpu (cpu_mask d)\<rparr>;
                          r' = r\<lparr>ctrl_domains := (ctrl_domains r)[i := d']\<rparr>
                      in if cpumask_empty (cpu_mask d') then
                           (let k1 = emit (RESCTRL_OFFLINE_CTRL_DOMAIN (rid r) dom_id) k';
                                r2 = r'\<lparr>ctrl_domains := list_del_rcu i (ctrl_domains r')\<rparr>;
                                k2 = emit (LIST_DEL_RCU RESCTRL_CTRL_DOMAIN (rid r) dom_id) k1;
                                k3 = emit SYNCHRONIZE_RCU k2;
                                k4 = (case plr d' of None \<Rightarrow> k3
                                      | Some p \<Rightarrow> emit (PLR_CLEAR_D p) k3)
                            in (r2, ctrl_domain_free (rid r) d' k4))
                         else (r', k')))))"

definition domain_remove_cpu_mon ::
  "env \<Rightarrow> nat \<Rightarrow> rdt_hw_resource \<Rightarrow> kstate \<Rightarrow> rdt_hw_resource \<times> kstate" where
  "domain_remove_cpu_mon e cpu r k =
     (let dom_id = get_domain_id_from_scope e cpu (mon_scope r)
      in if dom_id < 0 then (r, pr_warn_once WARN_REMOVE_MON_ID k)
         else
           (case fst (resctrl_find_domain (mon_domains r) dom_id 0) of
              None \<Rightarrow> (r, pr_warn WARN_REMOVE_MON_FIND k)
            | Some i \<Rightarrow>
                (case WARN_ON_ONCE WARN_REMOVE_MON_TYPE
                        (hdr_type (mon_domains r ! i) \<noteq> RESCTRL_MON_DOMAIN) k of
                   (True, k') \<Rightarrow> (r, k')
                 | (False, k') \<Rightarrow>
                     (let d = mon_domains r ! i;
                          d' = d\<lparr>cpu_mask := cpumask_clear_cpu cpu (cpu_mask d)\<rparr>;
                          r' = r\<lparr>mon_domains := (mon_domains r)[i := d']\<rparr>
                      in if cpumask_empty (cpu_mask d') then
                           (let k1 = emit (RESCTRL_OFFLINE_MON_DOMAIN (rid r) dom_id) k';
                                r2 = r'\<lparr>mon_domains := list_del_rcu i (mon_domains r')\<rparr>;
                                k2 = emit (LIST_DEL_RCU RESCTRL_MON_DOMAIN (rid r) dom_id) k1;
                                k3 = emit SYNCHRONIZE_RCU k2
                            in (r2, mon_domain_free (rid r) d' k3))
                         else (r', k')))))"

definition domain_remove_cpu ::
  "env \<Rightarrow> nat \<Rightarrow> rdt_hw_resource \<Rightarrow> kstate \<Rightarrow> rdt_hw_resource \<times> kstate" where
  "domain_remove_cpu e cpu r k =
     (case (if alloc_capable r then domain_remove_cpu_ctrl e cpu r k else (r, k)) of
        (r1, k1) \<Rightarrow> (if mon_capable r1 then domain_remove_cpu_mon e cpu r1 k1 else (r1, k1)))"

section \<open>Hotplug coordinator\<close>

text \<open>\<open>struct resctrl_pqr_state\<close>, one per core.\<close>

record resctrl_pqr_state =
  cur_rmid :: u32
  cur_closid :: u32
  default_rmid :: u32
  default_closid :: u32

text \<open>The global variables of \<open>core.c\<close>.\<close>

record rdt_state =
  rdt_resources_all :: "rdt_hw_resource list"
  rdt_options :: "rdt_options list"
  rdt_alloc_capable :: bool
  pqr_state :: "nat \<Rightarrow> resctrl_pqr_state"

text \<open>
  Modelled from the spec: \<open>RESCTRL_RESERVED_CLOSID\<close> and \<open>RESCTRL_RESERVED_RMID\<close> are
  declared outside \<open>core.c\<close>; they are the reserved (default) allocation class and
  monitoring group.
\<close>

definition RESCTRL_RESERVED_CLOSID :: u32 where "RESCTRL_RESERVED_CLOSID = 0"
definition RESCTRL_RESERVED_RMID :: u32 where "RESCTRL_RESERVED_RMID = 0"

text \<open>
  \<open>clear_closid_rmid\<close>: it does not use its argument; \<open>this_cpu_ptr\<close> and \<open>wrmsr\<close> act on
  the core the code runs on.
\<close>

definition clear_closid_rmid :: "env \<Rightarrow> nat \<Rightarrow> rdt_state \<Rightarrow> kstate \<Rightarrow> rdt_state \<times> kstate" where
  "clear_closid_rmid e cpu st k =
     (let state = pqr_state st (this_cpu e);
          state' = state\<lparr> default_closid := RESCTRL_RESERVED_CLOSID,
                          default_rmid := RESCTRL_RESERVED_RMID,
                          cur_closid := RESCTRL_RESERVED_CLOSID,
                          cur_rmid := RESCTRL_RESERVED_RMID \<rparr>
      in (st\<lparr>pqr_state := (pqr_state st)(this_cpu e := state')\<rparr>,
          emit (WRMSR MSR_IA32_PQR_ASSOC RESCTRL_RESERVED_RMID RESCTRL_RESERVED_CLOSID) k))"

text \<open>
  Modelled from the spec: the macro \<open>for_each_capable_rdt_resource\<close> is declared outside
  \<open>core.c\<close>; it visits, in table order, every resource that is allocation-capable or
  monitoring-capable. The two functions below are that loop with the body of the online
  and of the offline handler.
\<close>

fun online_cpu_resources ::
  "env \<Rightarrow> nat \<Rightarrow> rdt_hw_resource list \<Rightarrow> kstate \<Rightarrow> (rdt_hw_resource list \<times> kstate) option" where
  "online_cpu_resources e cpu [] k = Some ([], k)"
| "online_cpu_resources e cpu (r # rs) k =
     (case (if alloc_capable r \<or> mon_capable r then domain_add_cpu e cpu r k else Some (r, k)) of
        None \<Rightarrow> None
      | Some (r', k') \<Rightarrow>
          (case online_cpu_resources e cpu rs k' of
             None \<Rightarrow> None
           | Some (rs', k'') \<Rightarrow> Some (r' # rs', k'')))"

fun offline_cpu_resources ::
  "env \<Rightarrow> nat \<Rightarrow> rdt_hw_resource list \<Rightarrow> kstate \<Rightarrow> rdt_hw_resource list \<times> kstate" where
  "offline_cpu_resources e cpu [] k = ([], k)"
| "offline_cpu_resources e cpu (r # rs) k =
     (case (if alloc_capable r \<or> mon_capable r then domain_remove_cpu e cpu r k else (r, k)) of
        (r', k') \<Rightarrow>
          (case offline_cpu_resources e cpu rs k' of
             (rs', k'') \<Rightarrow> (r' # rs', k'')))"

text \<open>
  \<open>resctrl_arch_online_cpu\<close> and \<open>resctrl_arch_offline_cpu\<close>: return value, new global
  state and effects. The online handler is \<open>None\<close> when a register write faults.
\<close>

definition resctrl_arch_online_cpu ::
  "env \<Rightarrow> nat \<Rightarrow> rdt_state \<Rightarrow> kstate \<Rightarrow> (int \<times> rdt_state \<times> kstate) option" where
  "resctrl_arch_online_cpu e cpu st k =
     (case online_cpu_resources e cpu (rdt_resources_all st) (emit MUTEX_LOCK k) of
        None \<Rightarrow> None
      | Some (rs, k1) \<Rightarrow>
          (case clear_closid_rmid e cpu (st\<lparr>rdt_resources_all := rs\<rparr>) (emit MUTEX_UNLOCK k1) of
             (st', k2) \<Rightarrow> Some (0, st', emit (RESCTRL_ONLINE_CPU cpu) k2)))"

definition resctrl_arch_offline_cpu ::
  "env \<Rightarrow> nat \<Rightarrow> rdt_state \<Rightarrow> kstate \<Rightarrow> int \<times> rdt_state \<times> kstate" where
  "resctrl_arch_offline_cpu e cpu st k =
     (case offline_cpu_resources e cpu (rdt_resources_all st)
             (emit MUTEX_LOCK (emit (RESCTRL_OFFLINE_CPU cpu) k)) of
        (rs, k1) \<Rightarrow>
          (case clear_closid_rmid e cpu (st\<lparr>rdt_resources_all := rs\<rparr>) (emit MUTEX_UNLOCK k1) of
             (st', k2) \<Rightarrow> (0, st', k2)))"

section \<open>Capability probe: the Haswell server quirk\<close>

text \<open>\<open>BIT_ULL_MASK(nr)\<close>, a macro from a header: bit \<open>nr mod 64\<close> of a 64-bit word.\<close>

definition BIT_ULL_MASK :: "nat \<Rightarrow> u64" where
  "BIT_ULL_MASK nr = push_bit (nr mod 64) 1"

text \<open>
  \<open>cache_alloc_hsw_probe\<close>. What the hardware answers is a parameter: the return value
  of \<open>wrmsrq_safe\<close> (non-zero when the write faults) and the value \<open>rdmsrq\<close> reads back.
\<close>

definition cache_alloc_hsw_probe :: "int \<Rightarrow> u64 \<Rightarrow> rdt_state \<Rightarrow> kstate \<Rightarrow> rdt_state \<times> kstate" where
  "cache_alloc_hsw_probe wrmsrq_safe_ret rdmsrq_val st k =
     (let max_cbm = BIT_ULL_MASK 20 - 1;
          k1 = emit (WRMSRQ_SAFE MSR_IA32_L3_CBM_BASE max_cbm wrmsrq_safe_ret) k
      in if wrmsrq_safe_ret \<noteq> 0 then (st, k1)
         else
           (let l3_cbm_0 = rdmsrq_val;
                k2 = emit (RDMSRQ MSR_IA32_L3_CBM_BASE l3_cbm_0) k1
            in if l3_cbm_0 \<noteq> max_cbm then (st, k2)
               else
                 (let hw_res = rdt_resources_all st ! RDT_RESOURCE_L3;
                      hw_res' = hw_res
                        \<lparr> num_closid := 4,
                          cache := (cache hw_res)
                            \<lparr> cbm_len := 20, shareable_bits := 0xc0000, min_cbm_bits := 2,
                              arch_has_sparse_bitmasks := False \<rparr>,
                          alloc_capable := True \<rparr>
                  in (st\<lparr> rdt_resources_all := (rdt_resources_all st)[RDT_RESOURCE_L3 := hw_res'],
                          rdt_alloc_capable := True \<rparr>, k2))))"

datatype x86_vfm = INTEL_HASWELL_X | INTEL_SKYLAKE_X | INTEL_BROADWELL_X | X86_VFM_OTHER

text \<open>
  \<open>__check_quirks_intel\<close> (an identifier here cannot start with an underscore). The
  Skylake case falls through into the Broadwell case.
\<close>

definition check_quirks_intel ::
  "x86_vfm \<Rightarrow> 8 word \<Rightarrow> int \<Rightarrow> u64 \<Rightarrow> rdt_state \<Rightarrow> kstate \<Rightarrow> rdt_state \<times> kstate" where
  "check_quirks_intel x86_vfm x86_stepping wrmsrq_safe_ret rdmsrq_val st k =
     (case x86_vfm of
        INTEL_HASWELL_X \<Rightarrow>
          (if \<not> force_off (rdt_options st ! RDT_FLAG_L3_CAT)
           then cache_alloc_hsw_probe wrmsrq_safe_ret rdmsrq_val st k
           else (st, k))
      | INTEL_SKYLAKE_X \<Rightarrow>
          ((if x86_stepping \<le> 4
            then st\<lparr>rdt_options :=
                      set_rdt_options ''!cmt,!mbmtotal,!mbmlocal,!l3cat'' (rdt_options st)\<rparr>
            else st\<lparr>rdt_options := set_rdt_options ''!l3cat'' (rdt_options st)\<rparr>),
           emit INTEL_RDT_MBM_APPLY_QUIRK k)
      | INTEL_BROADWELL_X \<Rightarrow> (st, emit INTEL_RDT_MBM_APPLY_QUIRK k)
      | X86_VFM_OTHER \<Rightarrow> (st, k))"

section \<open>Late initialisation: numbering the table\<close>

text \<open>
  The first loop of \<open>resctrl_arch_late_init\<close>: every entry of the table gets its index
  as \<open>rid\<close>. It runs before anything is probed and before the hotplug handlers are
  registered, so the handlers only ever see a table numbered this way.
\<close>

definition resctrl_arch_late_init_rids :: "rdt_hw_resource list \<Rightarrow> rdt_hw_resource list" where
  "resctrl_arch_late_init_rids tbl =
     fold (\<lambda>i t. t[i := (t ! i)\<lparr>rid := i\<rparr>]) [0..<RDT_NUM_RESOURCES] tbl"

section \<open>Vocabulary of the properties\<close>

text \<open>
  The events of the domain registry and the register programmer, as opposed to those of
  the hotplug handlers themselves (the writer lock, the write of the association
  register, the per-core hooks) and of the boot-time probe.
\<close>

fun domain_event :: "event \<Rightarrow> bool" where
  "domain_event MUTEX_LOCK = False"
| "domain_event MUTEX_UNLOCK = False"
| "domain_event (WRMSR msr lo hi) = False"
| "domain_event (WRMSRQ_SAFE msr val ret) = False"
| "domain_event (RDMSRQ msr val) = False"
| "domain_event (RESCTRL_ONLINE_CPU cpu) = False"
| "domain_event (RESCTRL_OFFLINE_CPU cpu) = False"
| "domain_event INTEL_RDT_MBM_APPLY_QUIRK = False"
| "domain_event ev = True"

text \<open>The second trace continues the first, and what it adds satisfies \<open>P\<close>.\<close>

definition extends_with :: "(event \<Rightarrow> bool) \<Rightarrow> kstate \<Rightarrow> kstate \<Rightarrow> bool" where
  "extends_with P k k' =
     (take (length (trace k)) (trace k') = trace k \<and>
      list_all P (drop (length (trace k)) (trace k')))"


text \<open>A domain list is in strictly increasing identity order.\<close>

definition id_ordered :: "('a rdt_domain_hdr_scheme) list \<Rightarrow> bool" where
  "id_ordered ds = sorted_wrt (<) (map hdr_id ds)"

text \<open>
  A domain list holds a domain with the given identity that has the core among its
  members.
\<close>

definition member_of :: "nat \<Rightarrow> int \<Rightarrow> ('a rdt_domain_hdr_scheme) list \<Rightarrow> bool" where
  "member_of cpu i ds = list_ex (\<lambda>d. hdr_id d = i \<and> cpu \<in> cpu_mask d) ds"

text \<open>
  Nothing stands in the way of the core joining its control domain: the topology names
  the domain; if the list holds it, it has the type of a control domain; if not, the two
  allocations succeed and the online hook of the file-system layer reports success. The
  same for its monitor domain, where the cache instance of the core must be known and
  the counter array of each enabled counter kind must be allocated.
\<close>

definition ctrl_join_succeeds :: "env \<Rightarrow> nat \<Rightarrow> rdt_hw_resource \<Rightarrow> bool" where
  "ctrl_join_succeeds e cpu r =
     (0 \<le> get_domain_id_from_scope e cpu (ctrl_scope r) \<and>
      (case resctrl_find_domain (ctrl_domains r) (get_domain_id_from_scope e cpu (ctrl_scope r)) 0 of
         (Some i, p) \<Rightarrow> hdr_type (ctrl_domains r ! i) = RESCTRL_CTRL_DOMAIN
       | (None, p) \<Rightarrow>
           kzalloc_ctrl_dom_ok e (rid r) \<and> kmalloc_ctrl_val_ok e (rid r) \<and>
           resctrl_online_ctrl_domain e (rid r)
             (get_domain_id_from_scope e cpu (ctrl_scope r)) = 0))"

definition mon_join_succeeds :: "env \<Rightarrow> nat \<Rightarrow> rdt_hw_resource \<Rightarrow> bool" where
  "mon_join_succeeds e cpu r =
     (0 \<le> get_domain_id_from_scope e cpu (mon_scope r) \<and>
      (case resctrl_find_domain (mon_domains r) (get_domain_id_from_scope e cpu (mon_scope r)) 0 of
         (Some i, p) \<Rightarrow> hdr_type (mon_domains r ! i) = RESCTRL_MON_DOMAIN
       | (None, p) \<Rightarrow>
           kzalloc_mon_dom_ok e (rid r) \<and>
           get_cpu_cacheinfo_level e cpu RESCTRL_L3_CACHE \<noteq> None \<and>
           (resctrl_arch_is_mbm_total_enabled e \<longrightarrow> kcalloc_mbm_total_ok e (rid r)) \<and>
           (resctrl_arch_is_mbm_local_enabled e \<longrightarrow> kcalloc_mbm_local_ok e (rid r)) \<and>
           resctrl_online_mon_domain e (rid r)
             (get_domain_id_from_scope e cpu (mon_scope r)) = 0))"

text \<open>
  What a pass of the online handler over one entry \<open>r\<close> of the table leaves, given the
  control-domain list \<open>ds'\<close> of the entry afterwards and the events \<open>evs\<close> of the pass.
  When the entry is allocation capable and the core can join, the core is a member of
  its control domain in the list, and if that domain was not in the list before, linking
  it and the online hook for it are among the events. In every other case the list is as
  it was. The same for the monitor-domain list of a monitoring-capable entry.
\<close>

definition ctrl_joined ::
  "env \<Rightarrow> nat \<Rightarrow> rdt_hw_resource \<Rightarrow> rdt_ctrl_domain list \<Rightarrow> event list \<Rightarrow> bool" where
  "ctrl_joined e cpu r ds' evs =
     (let ci = get_domain_id_from_scope e cpu (ctrl_scope r)
      in if alloc_capable r \<and> ctrl_join_succeeds e cpu r then
           member_of cpu ci ds' \<and>
           (fst (resctrl_find_domain (ctrl_domains r) ci 0) = None \<longrightarrow>
              LIST_ADD_TAIL_RCU RESCTRL_CTRL_DOMAIN (rid r) ci \<in> set evs \<and>
              RESCTRL_ONLINE_CTRL_DOMAIN (rid r) ci \<in> set evs)
         else ds' = ctrl_domains r)"

definition mon_joined ::
  "env \<Rightarrow> nat \<Rightarrow> rdt_hw_resource \<Rightarrow> rdt_mon_domain list \<Rightarrow> event list \<Rightarrow> bool" where
  "mon_joined e cpu r ds' evs =
     (let mi = get_domain_id_from_scope e cpu (mon_scope r)
      in if mon_capable r \<and> mon_join_succeeds e cpu r then
           member_of cpu mi ds' \<and>
           (fst (resctrl_find_domain (mon_domains r) mi 0) = None \<longrightarrow>
              LIST_ADD_TAIL_RCU RESCTRL_MON_DOMAIN (rid r) mi \<in> set evs \<and>
              RESCTRL_ONLINE_MON_DOMAIN (rid r) mi \<in> set evs)
         else ds' = mon_domains r)"

text \<open>
  What a pass of the offline handler over one entry leaves. When the entry is allocation
  capable and its list holds the control domain of the core: the core is taken out of the
  member set, and if it was the last member the domain is no longer in the list and the
  offline hook, the unlinking and the freeing are among the events. In every other case
  (the entry is not capable, the topology does not name a domain, the domain is not in
  the list or has the wrong type) the list is as it was. The same for the monitor-domain
  list of a monitoring-capable entry.
\<close>

definition ctrl_left ::
  "env \<Rightarrow> nat \<Rightarrow> rdt_hw_resource \<Rightarrow> rdt_ctrl_domain list \<Rightarrow> event list \<Rightarrow> bool" where
  "ctrl_left e cpu r ds' evs =
     (let ci = get_domain_id_from_scope e cpu (ctrl_scope r);
          ds = ctrl_domains r
      in if alloc_capable r \<and> 0 \<le> ci then
           (case resctrl_find_domain ds ci 0 of
              (None, p) \<Rightarrow> ds' = ds
            | (Some i, p) \<Rightarrow>
                if hdr_type (ds ! i) \<noteq> RESCTRL_CTRL_DOMAIN then ds' = ds
                else if cpu_mask (ds ! i) - {cpu} = {} then
                  ds' = list_del_rcu i ds \<and>
                  RESCTRL_OFFLINE_CTRL_DOMAIN (rid r) ci \<in> set evs \<and>
                  LIST_DEL_RCU RESCTRL_CTRL_DOMAIN (rid r) ci \<in> set evs \<and>
                  CTRL_DOMAIN_FREE (rid r) ci \<in> set evs
                else ds' = ds[i := (ds ! i)\<lparr>cpu_mask := cpu_mask (ds ! i) - {cpu}\<rparr>])
         else ds' = ds)"

definition mon_left ::
  "env \<Rightarrow> nat \<Rightarrow> rdt_hw_resource \<Rightarrow> rdt_mon_domain list \<Rightarrow> event list \<Rightarrow> bool" where
  "mon_left e cpu r ds' evs =
     (let mi = get_domain_id_from_scope e cpu (mon_scope r);
          ds = mon_domains r
      in if mon_capable r \<and> 0 \<le> mi then
           (case resctrl_find_domain ds mi 0 of
              (None, p) \<Rightarrow> ds' = ds
            | (Some i, p) \<Rightarrow>
                if hdr_type (ds ! i) \<noteq> RESCTRL_MON_DOMAIN then ds' = ds
                else if cpu_mask (ds ! i) - {cpu} = {} then
                  ds' = list_del_rcu i ds \<and>
                  RESCTRL_OFFLINE_MON_DOMAIN (rid r) mi \<in> set evs \<and>
                  LIST_DEL_RCU RESCTRL_MON_DOMAIN (rid r) mi \<in> set evs \<and>
                  MON_DOMAIN_FREE (rid r) mi \<in> set evs
                else ds' = ds[i := (ds ! i)\<lparr>cpu_mask := cpu_mask (ds ! i) - {cpu}\<rparr>])
         else ds' = ds)"

text \<open>
  The entry \<open>r'\<close> that a pass over the entry \<open>r\<close> leaves differs from \<open>r\<close> in its two domain
  lists only; the lists are as described above; and a pass over an entry that is not
  capable adds no event.
\<close>

definition online_post ::
  "env \<Rightarrow> nat \<Rightarrow> rdt_hw_resource \<Rightarrow> rdt_hw_resource \<Rightarrow> event list \<Rightarrow> bool" where
  "online_post e cpu r r' evs =
     (r' = r\<lparr>ctrl_domains := ctrl_domains r', mon_domains := mon_domains r'\<rparr> \<and>
      ctrl_joined e cpu r (ctrl_domains r') evs \<and>
      mon_joined e cpu r (mon_domains r') evs \<and>
      (\<not> alloc_capable r \<and> \<not> mon_capable r \<longrightarrow> evs = []))"

definition offline_post ::
  "env \<Rightarrow> nat \<Rightarrow> rdt_hw_resource \<Rightarrow> rdt_hw_resource \<Rightarrow> event list \<Rightarrow> bool" where
  "offline_post e cpu r r' evs =
     (r' = r\<lparr>ctrl_domains := ctrl_domains r', mon_domains := mon_domains r'\<rparr> \<and>
      ctrl_left e cpu r (ctrl_domains r') evs \<and>
      mon_left e cpu r (mon_domains r') evs \<and>
      (\<not> alloc_capable r \<and> \<not> mon_capable r \<longrightarrow> evs = []))"

section \<open>Inputs used in the examples\<close>

text \<open>Hardware that reports no feature at all, and hardware that reports every feature.\<close>

definition hw_reports_nothing :: "x86_feature \<Rightarrow> bool" where
  "hw_reports_nothing fl = False"

definition hw_reports_all :: "x86_feature \<Rightarrow> bool" where
  "hw_reports_all fl = True"

text \<open>Nothing logged yet and no once-only warning fired.\<close>

definition kstate_empty :: kstate where
  "kstate_empty = \<lparr> trace = [], warned = {} \<rparr>"

text \<open>
  The bandwidth resource as \<open>__get_mem_config_intel\<close> leaves it on hardware with a linear
  delay scale whose largest delay is 90: minimum bandwidth 10, granularity 10.
\<close>

definition mba_linear_example :: rdt_hw_resource where
  "mba_linear_example =
     (rdt_resources_all_init ! RDT_RESOURCE_MBA)
       \<lparr> rid := RDT_RESOURCE_MBA, alloc_capable := True,
         membw := \<lparr> min_bw = 10, max_bw = 100, bw_gran = 10, delay_linear = True,
                    arch_needs_linear = True, throttle_mode = THREAD_THROTTLE_MAX \<rparr>,
         num_closid := 8, msr_base := 0xd50, msr_update := Some MBA_WRMSR_INTEL \<rparr>"

text \<open>The global state at boot: the static tables, nothing probed yet.\<close>

definition rdt_state_boot :: rdt_state where
  "rdt_state_boot =
     \<lparr> rdt_resources_all = rdt_resources_all_init,
       rdt_options = rdt_options_init,
       rdt_alloc_capable = False,
       pqr_state = (\<lambda>cpu. \<lparr> cur_rmid = 0, cur_closid = 0, default_rmid = 0,
                                default_closid = 0 \<rparr>) \<rparr>"

text \<open>
  A machine on which cores \<open>2n\<close> and \<open>2n + 1\<close> share cache instance \<open>n\<close>, every
  allocation succeeds and every hook reports success.
\<close>

definition env_example :: env where
  "env_example =
     \<lparr> get_cpu_cacheinfo_id = (\<lambda>cpu scope. int (cpu div 2)),
       cpu_to_node = (\<lambda>cpu. 0),
       get_cpu_cacheinfo_level = (\<lambda>cpu scope. Some (of_nat (cpu div 2))),
       resctrl_arch_is_mbm_total_enabled = True,
       resctrl_arch_is_mbm_local_enabled = True,
       kzalloc_ctrl_dom_ok = (\<lambda>rd. True),
       kmalloc_ctrl_val_ok = (\<lambda>rd. True),
       heap_junk = (\<lambda>i. 0xdeadbeef),
       kzalloc_mon_dom_ok = (\<lambda>rd. True),
       kcalloc_mbm_total_ok = (\<lambda>rd. True),
       kcalloc_mbm_local_ok = (\<lambda>rd. True),
       resctrl_online_ctrl_domain = (\<lambda>rd i. 0),
       resctrl_online_mon_domain = (\<lambda>rd i. 0),
       this_cpu = 0 \<rparr>"

text \<open>
  The L3 entry with 4 allocation classes and bitmask length 20, allocation capable, and
  no domain yet.
\<close>

definition l3_example :: rdt_hw_resource where
  "l3_example =
     (rdt_resources_all_init ! RDT_RESOURCE_L3)
       \<lparr> alloc_capable := True,
         cache := \<lparr> cbm_len = 20, min_cbm_bits = 2, shareable_bits = 0xc0000,
                    arch_has_sparse_bitmasks = False, arch_has_per_cpu_cfg = False \<rparr>,
         num_closid := 4 \<rparr>"

text \<open>
  The same resource once core 0 has joined (one control domain, of cache instance 0), and
  once core 1 has joined as well.
\<close>

definition l3_one_core :: rdt_hw_resource where
  "l3_one_core =
     l3_example
       \<lparr>ctrl_domains :=
          [\<lparr> hdr_id = 0, hdr_type = RESCTRL_CTRL_DOMAIN, cpu_mask = {0}, plr = None,
             ctrl_val = [0xFFFFF, 0xFFFFF, 0xFFFFF, 0xFFFFF] \<rparr>]\<rparr>"


text \<open>
  The same machine when the online hooks of the file-system layer report \<open>-ENOMEM\<close>, and
  when the quota array and the local counter array cannot be allocated.
\<close>

definition env_hook_fails :: env where
  "env_hook_fails =
     env_example\<lparr> resctrl_online_ctrl_domain := (\<lambda>rd i. - 12),
                  resctrl_online_mon_domain := (\<lambda>rd i. - 12) \<rparr>"

definition env_nomem :: env where
  "env_nomem =
     env_example\<lparr> kmalloc_ctrl_val_ok := (\<lambda>rd. False),
                  kcalloc_mbm_local_ok := (\<lambda>rd. False) \<rparr>"

text \<open>
  The global state once late initialisation has numbered the table and the L3 resource
  has been found allocation capable; and the same state once core 0 is online.
\<close>

definition rdt_state_example :: rdt_state where
  "rdt_state_example =
     rdt_state_boot
       \<lparr> rdt_resources_all :=
           (resctrl_arch_late_init_rids rdt_resources_all_init)[RDT_RESOURCE_L3 := l3_example],
         rdt_alloc_capable := True \<rparr>"

definition rdt_state_one_core :: rdt_state where
  "rdt_state_one_core =
     rdt_state_example
       \<lparr> rdt_resources_all := (rdt_resources_all rdt_state_example)[RDT_RESOURCE_L3 := l3_one_core] \<rparr>"

section \<open>Verified properties\<close>

subsection \<open>Resource lookup\<close>

text \<open>
  C10. For every level \<open>l\<close>, \<open>resctrl_arch_get_resource\<close> returns \<open>NULL\<close> when \<open>l\<close> is
  greater than or equal to the number of resources, and otherwise the record at exactly
  index \<open>l\<close> of the table; the index it reads is inside the table, and whatever it
  returns is an entry of the table.
\<close>

theorem resctrl_arch_get_resource_in_table:
  assumes "length tbl = RDT_NUM_RESOURCES"
  shows "(unat l \<ge> RDT_NUM_RESOURCES \<longrightarrow> resctrl_arch_get_resource tbl l = None) \<and>
         (unat l < RDT_NUM_RESOURCES \<longrightarrow>
            resctrl_arch_get_resource tbl l = Some (tbl ! unat l) \<and> unat l < length tbl) \<and>
         (\<forall>r. resctrl_arch_get_resource tbl l = Some r \<longrightarrow> r \<in> set tbl)"
  using assms by (auto simp: resctrl_arch_get_resource_def)

theorem resctrl_arch_get_resource_in_table_witness:
  "length rdt_resources_all_init = RDT_NUM_RESOURCES \<and>
   resctrl_arch_get_resource rdt_resources_all_init 4 = None \<and>
   resctrl_arch_get_resource rdt_resources_all_init 0xFFFFFFFF = None \<and>
   resctrl_arch_get_resource rdt_resources_all_init 2 = Some (rdt_resources_all_init ! 2) \<and>
   rdt_resource.name (rdt_resources_all_init ! 2) = ''MB''"
proof -
  have len: "length rdt_resources_all_init = RDT_NUM_RESOURCES"
    by (simp add: rdt_resources_all_init_def RDT_NUM_RESOURCES_def)
  have "rdt_resource.name (rdt_resources_all_init ! 2) = ''MB''"
    by (simp add: rdt_resources_all_init_def rdt_hw_resource_zero_def)
  with len resctrl_arch_get_resource_in_table [OF len, of 4]
    resctrl_arch_get_resource_in_table [OF len, of "0xFFFFFFFF"]
    resctrl_arch_get_resource_in_table [OF len, of 2]
  show ?thesis
    by (simp add: RDT_NUM_RESOURCES_def)
qed

subsection \<open>Option override\<close>

lemma rdt_cpu_has_loop_find:
  "rdt_cpu_has_loop opts fl ret =
     (case find (\<lambda>opt. flag opt = fl) opts of
        None \<Rightarrow> ret
      | Some opt \<Rightarrow> (if force_on opt then True else if force_off opt then False else ret))"
  by (induction opts) auto

text \<open>
  C1, as the code has it. A feature the hardware does not report is absent whatever the
  option table says: force-on does not override the hardware. For a feature the hardware
  reports, the first table entry for the flag decides: with force-on the result is true
  (also when force-off is set as well), with force-off alone it is false, and with neither
  override, or with no entry for the flag, it is the raw hardware bit.
\<close>

theorem rdt_cpu_has_effective:
  "rdt_cpu_has boot_cpu_has opts fl =
     (case find (\<lambda>opt. flag opt = fl) opts of
        None \<Rightarrow> boot_cpu_has fl
      | Some opt \<Rightarrow> boot_cpu_has fl \<and> (force_on opt \<or> \<not> force_off opt))"
  by (auto simp: rdt_cpu_has_def rdt_cpu_has_loop_find Let_def split: option.splits)

theorem rdt_cpu_has_effective_witness:
  "rdt_cpu_has hw_reports_all (set_rdt_options ''mba,!mba,!l3cat'' rdt_options_init) X86_FEATURE_MBA \<and>
   \<not> rdt_cpu_has hw_reports_all (set_rdt_options ''mba,!mba,!l3cat'' rdt_options_init) X86_FEATURE_CAT_L3 \<and>
   rdt_cpu_has hw_reports_all (set_rdt_options ''mba,!mba,!l3cat'' rdt_options_init) X86_FEATURE_CAT_L2 \<and>
   rdt_cpu_has hw_reports_all (set_rdt_options ''mba,!mba,!l3cat'' rdt_options_init) X86_FEATURE_RDT_A \<and>
   \<not> rdt_cpu_has hw_reports_nothing (set_rdt_options ''mba,!mba,!l3cat'' rdt_options_init) X86_FEATURE_MBA"
proof -
  have t: "set_rdt_options ''mba,!mba,!l3cat'' rdt_options_init =
           rdt_options_init[3 := (rdt_options_init ! 3)\<lparr>force_off := True\<rparr>,
                            7 := (rdt_options_init ! 7)\<lparr>force_off := True, force_on := True\<rparr>]"
    by (simp add: set_rdt_options_def set_rdt_options_loop.simps strsep_def
        set_rdt_token_def rdt_options_init_def RDT_OPT_def Let_def)
  show ?thesis
    using rdt_cpu_has_effective [of hw_reports_all
        "set_rdt_options ''mba,!mba,!l3cat'' rdt_options_init" X86_FEATURE_MBA]
      rdt_cpu_has_effective [of hw_reports_all
        "set_rdt_options ''mba,!mba,!l3cat'' rdt_options_init" X86_FEATURE_CAT_L3]
      rdt_cpu_has_effective [of hw_reports_all
        "set_rdt_options ''mba,!mba,!l3cat'' rdt_options_init" X86_FEATURE_CAT_L2]
      rdt_cpu_has_effective [of hw_reports_all
        "set_rdt_options ''mba,!mba,!l3cat'' rdt_options_init" X86_FEATURE_RDT_A]
      rdt_cpu_has_effective [of hw_reports_nothing
        "set_rdt_options ''mba,!mba,!l3cat'' rdt_options_init" X86_FEATURE_MBA]
    unfolding t
    by (simp add: rdt_options_init_def RDT_OPT_def hw_reports_all_def hw_reports_nothing_def)
qed

text \<open>
  The claim C1 as it is written fails: after \<open>rdt=mba\<close> the table marks \<open>mba\<close> force-on,
  and on hardware that does not report the feature \<open>rdt_cpu_has\<close> still answers false.
\<close>

theorem rdt_cpu_has_force_on_counterexample:
  "force_on (set_rdt_options ''mba'' rdt_options_init ! RDT_FLAG_MBA) \<and>
   flag (set_rdt_options ''mba'' rdt_options_init ! RDT_FLAG_MBA) = X86_FEATURE_MBA \<and>
   rdt_cpu_has hw_reports_nothing (set_rdt_options ''mba'' rdt_options_init) X86_FEATURE_MBA = False"
  by (simp add: set_rdt_options_def set_rdt_options_loop.simps strsep_def set_rdt_token_def
      rdt_options_init_def RDT_OPT_def RDT_FLAG_MBA_def rdt_cpu_has_def hw_reports_nothing_def
      Let_def)

lemma set_rdt_option_unrecognized:
  "tok \<notin> rdt_options.name ` set opts \<Longrightarrow> set_rdt_option is_off tok opts = opts"
  by (induction opts) auto

lemma set_rdt_token_unrecognized:
  assumes "(case tok of c # t \<Rightarrow> if c = CHR ''!'' then t else tok | [] \<Rightarrow> tok)
             \<notin> rdt_options.name ` set opts"
  shows "set_rdt_token tok opts = opts"
  using assms
  by (cases tok) (auto simp: set_rdt_token_def set_rdt_option_unrecognized split: if_splits)

lemma strsep_last:
  assumes "CHR '','' \<notin> set tok"
  shows "strsep (Some tok) = Some (tok, None)"
proof -
  from assms have "dropWhile (\<lambda>c. c \<noteq> CHR '','') tok = []"
    by auto
  then show ?thesis
    by (simp only: strsep_def option.case list.case)
qed

lemma strsep_comma:
  assumes "CHR '','' \<notin> set tok"
  shows "strsep (Some (tok @ CHR '','' # rest)) = Some (tok, Some rest)"
proof -
  from assms have ne: "\<And>x. x \<in> set tok \<Longrightarrow> x \<noteq> CHR '',''"
    by auto
  have d: "dropWhile (\<lambda>c. c \<noteq> CHR '','') (tok @ CHR '','' # rest) = CHR '','' # rest"
    using dropWhile_append2 [of tok "\<lambda>c. c \<noteq> CHR '',''" "CHR '','' # rest"] ne
    by simp
  have t: "takeWhile (\<lambda>c. c \<noteq> CHR '','') (tok @ CHR '','' # rest) = tok"
    using takeWhile_append2 [of tok "\<lambda>c. c \<noteq> CHR '',''" "CHR '','' # rest"] ne
    by simp
  show ?thesis
    by (simp only: strsep_def option.case d t list.case)
qed

lemma loop_comma:
  "CHR '','' \<notin> set tok \<Longrightarrow>
   set_rdt_options_loop (Some (tok @ CHR '','' # rest)) opts =
   set_rdt_options_loop (Some rest) (set_rdt_token tok opts)"
  by (subst set_rdt_options_loop.simps) (simp add: strsep_comma)

lemma loop_last:
  "CHR '','' \<notin> set tok \<Longrightarrow> set_rdt_options_loop (Some tok) opts = set_rdt_token tok opts"
  apply (subst set_rdt_options_loop.simps)
  apply (simp add: strsep_last)
  apply (subst set_rdt_options_loop.simps)
  apply (simp add: strsep_def)
  done

text \<open>
  C9. Parsing \<open>"!l3cat,mba"\<close> records force-off for \<open>l3cat\<close> and force-on for \<open>mba\<close>
  and changes no other entry; on hardware that reports both features the effective
  capability of \<open>l3cat\<close> is then false and that of \<open>mba\<close> true. A token whose name (after
  an optional leading \<open>!\<close>) is no name of the table changes nothing, alone or in front of
  any further tokens.
\<close>

theorem set_rdt_options_scenario:
  "set_rdt_options ''!l3cat,mba'' rdt_options_init =
     rdt_options_init
       [RDT_FLAG_L3_CAT := (rdt_options_init ! RDT_FLAG_L3_CAT)\<lparr>force_off := True\<rparr>,
        RDT_FLAG_MBA := (rdt_options_init ! RDT_FLAG_MBA)\<lparr>force_on := True\<rparr>] \<and>
   (boot_cpu_has X86_FEATURE_CAT_L3 \<and> boot_cpu_has X86_FEATURE_MBA \<longrightarrow>
      rdt_cpu_has boot_cpu_has (set_rdt_options ''!l3cat,mba'' rdt_options_init)
        X86_FEATURE_CAT_L3 = False \<and>
      rdt_cpu_has boot_cpu_has (set_rdt_options ''!l3cat,mba'' rdt_options_init)
        X86_FEATURE_MBA = True) \<and>
   (CHR '','' \<notin> set tok \<and>
    (case tok of c # t \<Rightarrow> if c = CHR ''!'' then t else tok | [] \<Rightarrow> tok)
       \<notin> rdt_options.name ` set opts \<longrightarrow>
      set_rdt_token tok opts = opts \<and>
      set_rdt_options_loop (Some tok) opts = opts \<and>
      set_rdt_options_loop (Some (tok @ CHR '','' # rest)) opts =
        set_rdt_options_loop (Some rest) opts)"
proof -
  have t: "set_rdt_options ''!l3cat,mba'' rdt_options_init =
     rdt_options_init
       [RDT_FLAG_L3_CAT := (rdt_options_init ! RDT_FLAG_L3_CAT)\<lparr>force_off := True\<rparr>,
        RDT_FLAG_MBA := (rdt_options_init ! RDT_FLAG_MBA)\<lparr>force_on := True\<rparr>]"
    by (simp add: set_rdt_options_def set_rdt_options_loop.simps strsep_def set_rdt_token_def
        rdt_options_init_def RDT_OPT_def Let_def RDT_FLAG_L3_CAT_def RDT_FLAG_MBA_def)
  have c: "boot_cpu_has X86_FEATURE_CAT_L3 \<and> boot_cpu_has X86_FEATURE_MBA \<longrightarrow>
      rdt_cpu_has boot_cpu_has (set_rdt_options ''!l3cat,mba'' rdt_options_init)
        X86_FEATURE_CAT_L3 = False \<and>
      rdt_cpu_has boot_cpu_has (set_rdt_options ''!l3cat,mba'' rdt_options_init)
        X86_FEATURE_MBA = True"
    unfolding t
    by (simp add: rdt_cpu_has_def rdt_options_init_def RDT_OPT_def RDT_FLAG_L3_CAT_def
        RDT_FLAG_MBA_def)
  have u: "CHR '','' \<notin> set tok \<and>
    (case tok of c # t \<Rightarrow> if c = CHR ''!'' then t else tok | [] \<Rightarrow> tok)
       \<notin> rdt_options.name ` set opts \<longrightarrow>
      set_rdt_token tok opts = opts \<and>
      set_rdt_options_loop (Some tok) opts = opts \<and>
      set_rdt_options_loop (Some (tok @ CHR '','' # rest)) opts =
        set_rdt_options_loop (Some rest) opts"
    by (simp add: set_rdt_token_unrecognized loop_comma loop_last)
  from t c u show ?thesis
    by blast
qed

theorem set_rdt_options_scenario_witness:
  "hw_reports_all X86_FEATURE_CAT_L3 \<and> hw_reports_all X86_FEATURE_MBA \<and>
   rdt_cpu_has hw_reports_all (set_rdt_options ''!l3cat,mba'' rdt_options_init)
     X86_FEATURE_CAT_L3 = False \<and>
   rdt_cpu_has hw_reports_all (set_rdt_options ''!l3cat,mba'' rdt_options_init)
     X86_FEATURE_MBA = True \<and>
   set_rdt_token ''!l4cat'' rdt_options_init = rdt_options_init \<and>
   set_rdt_options_loop (Some ''!l4cat,mba'') rdt_options_init =
     set_rdt_options_loop (Some ''mba'') rdt_options_init"
proof -
  have h: "hw_reports_all X86_FEATURE_CAT_L3 \<and> hw_reports_all X86_FEATURE_MBA"
    by (simp add: hw_reports_all_def)
  have n: "CHR '','' \<notin> set ''!l4cat'' \<and>
    (case ''!l4cat'' of c # t \<Rightarrow> if c = CHR ''!'' then t else ''!l4cat'' | [] \<Rightarrow> ''!l4cat'')
       \<notin> rdt_options.name ` set rdt_options_init"
    by (simp add: rdt_options_init_def RDT_OPT_def)
  have e: "''!l4cat'' @ CHR '','' # ''mba'' = ''!l4cat,mba''"
    by simp
  from h n set_rdt_options_scenario [of hw_reports_all "''!l4cat''" rdt_options_init "''mba''"]
  show ?thesis
    unfolding e by blast
qed

subsection \<open>Bandwidth delay translation\<close>

lemma delay_bw_map_linear_unat:
  assumes "bw \<le> (ucast MAX_MBA_BW :: u64)"
  shows "unat (ucast ((ucast MAX_MBA_BW :: u64) - bw) :: u32) = unat MAX_MBA_BW - unat bw"
proof -
  from assms have d: "unat ((ucast MAX_MBA_BW :: u64) - bw) = 100 - unat bw"
    by (simp add: MAX_MBA_BW_def unat_sub)
  have "unat (ucast ((ucast MAX_MBA_BW :: u64) - bw) :: u32)
          = take_bit 32 (unat ((ucast MAX_MBA_BW :: u64) - bw))"
    by (simp add: unsigned_ucast_eq)
  also have "\<dots> = 100 - unat bw"
    unfolding d by (rule take_bit_nat_eq_self) simp
  finally show ?thesis
    by (simp add: MAX_MBA_BW_def)
qed

text \<open>
  C4. With a linear delay encoding \<open>delay_bw_map\<close> returns \<open>MAX_MBA_BW - bw\<close> (computed
  on machine words; for a percentage \<open>bw\<close> up to the maximum this is the plain
  difference), so 100 percent maps to delay 0 and 10 percent to delay 90, and nothing is
  logged. With a non-linear encoding it returns \<open>MAX_MBA_BW\<close>, and the warning is
  printed the first time only.
\<close>

theorem delay_bw_map_translation:
  "(delay_linear (membw r) \<longrightarrow>
      delay_bw_map bw r k = (ucast ((ucast MAX_MBA_BW :: u64) - bw), k) \<and>
      (bw \<le> ucast MAX_MBA_BW \<longrightarrow>
         unat (fst (delay_bw_map bw r k)) = unat MAX_MBA_BW - unat bw) \<and>
      fst (delay_bw_map 100 r k) = 0 \<and>
      fst (delay_bw_map 10 r k) = 90) \<and>
   (\<not> delay_linear (membw r) \<longrightarrow>
      fst (delay_bw_map bw r k) = MAX_MBA_BW \<and>
      (WARN_DELAY_BW_MAP \<notin> warned k \<longrightarrow>
         trace (snd (delay_bw_map bw r k)) = trace k @ [PR_WARN WARN_DELAY_BW_MAP]) \<and>
      (WARN_DELAY_BW_MAP \<in> warned k \<longrightarrow> snd (delay_bw_map bw r k) = k) \<and>
      snd (delay_bw_map bw' r (snd (delay_bw_map bw r k))) = snd (delay_bw_map bw r k))"
proof -
  have lin: "delay_linear (membw r) \<longrightarrow>
      delay_bw_map bw r k = (ucast ((ucast MAX_MBA_BW :: u64) - bw), k) \<and>
      (bw \<le> ucast MAX_MBA_BW \<longrightarrow>
         unat (fst (delay_bw_map bw r k)) = unat MAX_MBA_BW - unat bw) \<and>
      fst (delay_bw_map 100 r k) = 0 \<and>
      fst (delay_bw_map 10 r k) = 90"
    by (simp add: delay_bw_map_def delay_bw_map_linear_unat) (simp add: MAX_MBA_BW_def)
  have non: "\<not> delay_linear (membw r) \<longrightarrow>
      fst (delay_bw_map bw r k) = MAX_MBA_BW \<and>
      (WARN_DELAY_BW_MAP \<notin> warned k \<longrightarrow>
         trace (snd (delay_bw_map bw r k)) = trace k @ [PR_WARN WARN_DELAY_BW_MAP]) \<and>
      (WARN_DELAY_BW_MAP \<in> warned k \<longrightarrow> snd (delay_bw_map bw r k) = k) \<and>
      snd (delay_bw_map bw' r (snd (delay_bw_map bw r k))) = snd (delay_bw_map bw r k)"
    by (simp add: delay_bw_map_def pr_warn_once_def emit_def)
  from lin non show ?thesis
    by blast
qed

theorem delay_bw_map_translation_witness:
  "delay_bw_map 100 (mba_linear_example) kstate_empty = (0, kstate_empty) \<and>
   delay_bw_map 10 (mba_linear_example) kstate_empty = (90, kstate_empty) \<and>
   unat (fst (delay_bw_map 30 (mba_linear_example) kstate_empty)) = 70 \<and>
   fst (delay_bw_map 30 (mba_linear_example\<lparr>membw := (membw mba_linear_example)\<lparr>delay_linear := False\<rparr>\<rparr>) kstate_empty) = 100 \<and>
   trace (snd (delay_bw_map 30 (mba_linear_example\<lparr>membw := (membw mba_linear_example)\<lparr>delay_linear := False\<rparr>\<rparr>) kstate_empty))
      = [PR_WARN WARN_DELAY_BW_MAP]"
proof -
  have l: "delay_linear (membw mba_linear_example)"
    by (simp add: mba_linear_example_def)
  have n: "\<not> delay_linear (membw (mba_linear_example\<lparr>membw := (membw mba_linear_example)\<lparr>delay_linear := False\<rparr>\<rparr>))"
    by simp
  have b: "(30 :: u64) \<le> ucast MAX_MBA_BW"
    by (simp add: MAX_MBA_BW_def)
  have w: "WARN_DELAY_BW_MAP \<notin> warned kstate_empty" "trace kstate_empty = []"
    by (simp_all add: kstate_empty_def)
  show ?thesis
    using l b w delay_bw_map_translation [of mba_linear_example 100 kstate_empty 0]
      delay_bw_map_translation [of mba_linear_example 10 kstate_empty 0]
      delay_bw_map_translation [of mba_linear_example 30 kstate_empty 0]
      delay_bw_map_translation [of "mba_linear_example\<lparr>membw := (membw mba_linear_example)\<lparr>delay_linear := False\<rparr>\<rparr>" 30 kstate_empty 0]
    by (simp add: MAX_MBA_BW_def)
qed

subsection \<open>The Haswell server probe\<close>

lemma max_cbm_value: "BIT_ULL_MASK 20 - 1 = (0xFFFFF :: u64)"
  by (simp add: BIT_ULL_MASK_def)

lemma cache_alloc_hsw_probe_fault:
  "wr \<noteq> 0 \<Longrightarrow>
   cache_alloc_hsw_probe wr rd st k =
     (st, k\<lparr>trace := trace k @ [WRMSRQ_SAFE MSR_IA32_L3_CBM_BASE 0xFFFFF wr]\<rparr>)"
  by (simp add: cache_alloc_hsw_probe_def max_cbm_value emit_def Let_def)

lemma cache_alloc_hsw_probe_differs:
  "rd \<noteq> 0xFFFFF \<Longrightarrow>
   cache_alloc_hsw_probe 0 rd st k =
     (st, k\<lparr>trace := trace k @ [WRMSRQ_SAFE MSR_IA32_L3_CBM_BASE 0xFFFFF 0,
                                 RDMSRQ MSR_IA32_L3_CBM_BASE rd]\<rparr>)"
  by (simp add: cache_alloc_hsw_probe_def max_cbm_value emit_def Let_def)

lemma cache_alloc_hsw_probe_sticks:
  "cache_alloc_hsw_probe 0 0xFFFFF st k =
     (st\<lparr> rdt_resources_all := (rdt_resources_all st)
            [RDT_RESOURCE_L3 := (rdt_resources_all st ! RDT_RESOURCE_L3)
               \<lparr> num_closid := 4,
                 cache := (cache (rdt_resources_all st ! RDT_RESOURCE_L3))
                   \<lparr> cbm_len := 20, shareable_bits := 0xc0000, min_cbm_bits := 2,
                     arch_has_sparse_bitmasks := False \<rparr>,
                 alloc_capable := True \<rparr>],
          rdt_alloc_capable := True \<rparr>,
      k\<lparr>trace := trace k @ [WRMSRQ_SAFE MSR_IA32_L3_CBM_BASE 0xFFFFF 0,
                                 RDMSRQ MSR_IA32_L3_CBM_BASE 0xFFFFF]\<rparr>)"
  by (simp add: cache_alloc_hsw_probe_def max_cbm_value emit_def Let_def)

text \<open>
  C8. \<open>cache_alloc_hsw_probe\<close> always writes the all-ones 20-bit pattern \<open>0xFFFFF\<close> to the
  first L3 cache-mask register. When that write faults nothing else happens; otherwise
  the register is read back. Exactly when the write did not fault and the value read
  equals the pattern, the L3 entry becomes allocation capable with 4 allocation classes,
  bitmask length 20 and minimum contiguous bits 2 (and no other table entry changes); in
  the two other cases the global state stays as it was. \<open>__check_quirks_intel\<close> runs
  the probe on the Haswell server model unless \<open>l3cat\<close> is forced off.
\<close>

theorem cache_alloc_hsw_probe_round_trip:
  assumes "RDT_RESOURCE_L3 < length (rdt_resources_all st)"
  shows
    "BIT_ULL_MASK 20 - 1 = (mask 20 :: u64) \<and>
     (wr \<noteq> 0 \<longrightarrow>
        cache_alloc_hsw_probe wr rd st k =
          (st, k\<lparr>trace := trace k @ [WRMSRQ_SAFE MSR_IA32_L3_CBM_BASE 0xFFFFF wr]\<rparr>)) \<and>
     (wr = 0 \<and> rd \<noteq> 0xFFFFF \<longrightarrow>
        cache_alloc_hsw_probe wr rd st k =
          (st, k\<lparr>trace := trace k @ [WRMSRQ_SAFE MSR_IA32_L3_CBM_BASE 0xFFFFF wr,
                                      RDMSRQ MSR_IA32_L3_CBM_BASE rd]\<rparr>)) \<and>
     (wr = 0 \<and> rd = 0xFFFFF \<longrightarrow>
        trace (snd (cache_alloc_hsw_probe wr rd st k)) =
          trace k @ [WRMSRQ_SAFE MSR_IA32_L3_CBM_BASE 0xFFFFF wr,
                     RDMSRQ MSR_IA32_L3_CBM_BASE rd] \<and>
        alloc_capable (rdt_resources_all (fst (cache_alloc_hsw_probe wr rd st k)) ! RDT_RESOURCE_L3) \<and>
        num_closid (rdt_resources_all (fst (cache_alloc_hsw_probe wr rd st k)) ! RDT_RESOURCE_L3) = 4 \<and>
        cbm_len (cache (rdt_resources_all (fst (cache_alloc_hsw_probe wr rd st k))
                          ! RDT_RESOURCE_L3)) = 20 \<and>
        min_cbm_bits (cache (rdt_resources_all (fst (cache_alloc_hsw_probe wr rd st k))
                               ! RDT_RESOURCE_L3)) = 2 \<and>
        shareable_bits (cache (rdt_resources_all (fst (cache_alloc_hsw_probe wr rd st k))
                                 ! RDT_RESOURCE_L3)) = 0xc0000 \<and>
        \<not> arch_has_sparse_bitmasks
             (cache (rdt_resources_all (fst (cache_alloc_hsw_probe wr rd st k)) ! RDT_RESOURCE_L3)) \<and>
        rdt_alloc_capable (fst (cache_alloc_hsw_probe wr rd st k)) \<and>
        length (rdt_resources_all (fst (cache_alloc_hsw_probe wr rd st k)))
          = length (rdt_resources_all st) \<and>
        (\<forall>j. j \<noteq> RDT_RESOURCE_L3 \<longrightarrow>
             rdt_resources_all (fst (cache_alloc_hsw_probe wr rd st k)) ! j
               = rdt_resources_all st ! j) \<and>
        rdt_options (fst (cache_alloc_hsw_probe wr rd st k)) = rdt_options st \<and>
        pqr_state (fst (cache_alloc_hsw_probe wr rd st k)) = pqr_state st) \<and>
     (fst (cache_alloc_hsw_probe wr rd st k) \<noteq> st \<longrightarrow> wr = 0 \<and> rd = 0xFFFFF) \<and>
     check_quirks_intel INTEL_HASWELL_X stepping wr rd st k =
       (if force_off (rdt_options st ! RDT_FLAG_L3_CAT) then (st, k)
        else cache_alloc_hsw_probe wr rd st k)"
proof -
  have m: "BIT_ULL_MASK 20 - 1 = (mask 20 :: u64)"
    unfolding max_cbm_value by (simp add: mask_eq_exp_minus_1)
  have f: "wr \<noteq> 0 \<longrightarrow>
        cache_alloc_hsw_probe wr rd st k =
          (st, k\<lparr>trace := trace k @ [WRMSRQ_SAFE MSR_IA32_L3_CBM_BASE 0xFFFFF wr]\<rparr>)"
    by (simp add: cache_alloc_hsw_probe_fault)
  have d: "wr = 0 \<and> rd \<noteq> 0xFFFFF \<longrightarrow>
        cache_alloc_hsw_probe wr rd st k =
          (st, k\<lparr>trace := trace k @ [WRMSRQ_SAFE MSR_IA32_L3_CBM_BASE 0xFFFFF wr,
                                      RDMSRQ MSR_IA32_L3_CBM_BASE rd]\<rparr>)"
    by (simp add: cache_alloc_hsw_probe_differs)
  have s: "wr = 0 \<and> rd = 0xFFFFF \<longrightarrow>
        trace (snd (cache_alloc_hsw_probe wr rd st k)) =
          trace k @ [WRMSRQ_SAFE MSR_IA32_L3_CBM_BASE 0xFFFFF wr,
                     RDMSRQ MSR_IA32_L3_CBM_BASE rd] \<and>
        alloc_capable (rdt_resources_all (fst (cache_alloc_hsw_probe wr rd st k)) ! RDT_RESOURCE_L3) \<and>
        num_closid (rdt_resources_all (fst (cache_alloc_hsw_probe wr rd st k)) ! RDT_RESOURCE_L3) = 4 \<and>
        cbm_len (cache (rdt_resources_all (fst (cache_alloc_hsw_probe wr rd st k))
                          ! RDT_RESOURCE_L3)) = 20 \<and>
        min_cbm_bits (cache (rdt_resources_all (fst (cache_alloc_hsw_probe wr rd st k))
                               ! RDT_RESOURCE_L3)) = 2 \<and>
        shareable_bits (cache (rdt_resources_all (fst (cache_alloc_hsw_probe wr rd st k))
                                 ! RDT_RESOURCE_L3)) = 0xc0000 \<and>
        \<not> arch_has_sparse_bitmasks
             (cache (rdt_resources_all (fst (cache_alloc_hsw_probe wr rd st k)) ! RDT_RESOURCE_L3)) \<and>
        rdt_alloc_capable (fst (cache_alloc_hsw_probe wr rd st k)) \<and>
        length (rdt_resources_all (fst (cache_alloc_hsw_probe wr rd st k)))
          = length (rdt_resources_all st) \<and>
        (\<forall>j. j \<noteq> RDT_RESOURCE_L3 \<longrightarrow>
             rdt_resources_all (fst (cache_alloc_hsw_probe wr rd st k)) ! j
               = rdt_resources_all st ! j) \<and>
        rdt_options (fst (cache_alloc_hsw_probe wr rd st k)) = rdt_options st \<and>
        pqr_state (fst (cache_alloc_hsw_probe wr rd st k)) = pqr_state st"
    using assms by (auto simp: cache_alloc_hsw_probe_sticks)
  have o: "fst (cache_alloc_hsw_probe wr rd st k) \<noteq> st \<longrightarrow> wr = 0 \<and> rd = 0xFFFFF"
  proof (cases "wr = 0")
    case True
    show ?thesis
    proof (cases "rd = 0xFFFFF")
      case False
      with True show ?thesis by (simp add: cache_alloc_hsw_probe_differs)
    qed (simp add: True)
  next
    case False
    then show ?thesis by (simp add: cache_alloc_hsw_probe_fault)
  qed
  have q: "check_quirks_intel INTEL_HASWELL_X stepping wr rd st k =
       (if force_off (rdt_options st ! RDT_FLAG_L3_CAT) then (st, k)
        else cache_alloc_hsw_probe wr rd st k)"
    by (simp add: check_quirks_intel_def)
  from m f d s o q show ?thesis
    by blast
qed

theorem cache_alloc_hsw_probe_round_trip_witness:
  "RDT_RESOURCE_L3 < length (rdt_resources_all rdt_state_boot) \<and>
   (- 5 :: int) \<noteq> 0 \<and> (0xFFF :: u64) \<noteq> 0xFFFFF \<and>
   cache_alloc_hsw_probe (- 5) 0 rdt_state_boot kstate_empty =
     (rdt_state_boot,
      kstate_empty\<lparr>trace := trace kstate_empty @
                      [WRMSRQ_SAFE MSR_IA32_L3_CBM_BASE 0xFFFFF (- 5)]\<rparr>) \<and>
   cache_alloc_hsw_probe 0 0xFFF rdt_state_boot kstate_empty =
     (rdt_state_boot,
      kstate_empty\<lparr>trace := trace kstate_empty @
                      [WRMSRQ_SAFE MSR_IA32_L3_CBM_BASE 0xFFFFF 0,
                       RDMSRQ MSR_IA32_L3_CBM_BASE 0xFFF]\<rparr>) \<and>
   alloc_capable (rdt_resources_all (fst (cache_alloc_hsw_probe 0 0xFFFFF rdt_state_boot kstate_empty))
                    ! RDT_RESOURCE_L3) \<and>
   num_closid (rdt_resources_all (fst (cache_alloc_hsw_probe 0 0xFFFFF rdt_state_boot kstate_empty))
                 ! RDT_RESOURCE_L3) = 4 \<and>
   \<not> alloc_capable (rdt_resources_all rdt_state_boot ! RDT_RESOURCE_L3)"
proof -
  have l: "RDT_RESOURCE_L3 < length (rdt_resources_all rdt_state_boot)"
    by (simp add: rdt_state_boot_def rdt_resources_all_init_def RDT_RESOURCE_L3_def)
  have n: "\<not> alloc_capable (rdt_resources_all rdt_state_boot ! RDT_RESOURCE_L3)"
    by (simp add: rdt_state_boot_def rdt_resources_all_init_def RDT_RESOURCE_L3_def
        rdt_hw_resource_zero_def)
  have w: "(- 5 :: int) \<noteq> 0" "(0xFFF :: u64) \<noteq> 0xFFFFF" "(0 :: int) = 0"
    "(0xFFFFF :: u64) = 0xFFFFF"
    by simp_all
  from l n w
    cache_alloc_hsw_probe_round_trip [OF l, of "- 5" 0 kstate_empty 0]
    cache_alloc_hsw_probe_round_trip [OF l, of 0 "0xFFF" kstate_empty 0]
    cache_alloc_hsw_probe_round_trip [OF l, of 0 "0xFFFFF" kstate_empty 0]
  show ?thesis
    by blast
qed

subsection \<open>Default quota values of a new control domain\<close>

lemma fold_update_prefix:
  "m \<le> length dc \<Longrightarrow>
   fold (\<lambda>i dc. dc[i := v]) [0..<m] dc = replicate m v @ drop m dc"
proof (induction m)
  case 0
  then show ?case by simp
next
  case (Suc m)
  then have m: "m < length dc" by simp
  have "fold (\<lambda>i dc. dc[i := v]) [0..<Suc m] dc = (replicate m v @ drop m dc)[m := v]"
    using Suc by simp
  also have "\<dots> = replicate m v @ (drop m dc)[0 := v]"
    by (simp add: list_update_append)
  also have "(drop m dc)[0 := v] = v # drop (Suc m) dc"
    using m by (simp add: Cons_nth_drop_Suc [symmetric])
  finally show ?case
    by (simp add: replicate_append_same)
qed

lemma setup_default_ctrlval_fills:
  "length dc = unat (num_closid r) \<Longrightarrow>
   setup_default_ctrlval r dc = replicate (unat (num_closid r)) (resctrl_get_default_ctrl r)"
  by (simp add: setup_default_ctrlval_def fold_update_prefix)

lemma cat_wrmsr_loop_trace:
  "\<forall>i \<in> set is. i < length (ctrl_val d) \<Longrightarrow>
   cat_wrmsr_loop r d is k =
     Some (k\<lparr>trace := trace k @
             map (\<lambda>i. WRMSRQ (msr_base r + of_nat i) (ucast (ctrl_val d ! i))) is\<rparr>)"
  by (induction "is" arbitrary: k) (simp_all add: wrmsrq_def emit_def)

lemma mba_wrmsr_amd_loop_trace:
  "\<forall>i \<in> set is. i < length (ctrl_val d) \<Longrightarrow>
   mba_wrmsr_amd_loop r d is k =
     Some (k\<lparr>trace := trace k @
             map (\<lambda>i. WRMSRQ (msr_base r + of_nat i) (ucast (ctrl_val d ! i))) is\<rparr>)"
  by (induction "is" arbitrary: k) (simp_all add: wrmsrq_def emit_def)

lemma mba_wrmsr_intel_loop_returns:
  "\<forall>i \<in> set is. i < length (ctrl_val d) \<Longrightarrow> \<exists>k'. mba_wrmsr_intel_loop r d is k = Some k'"
  by (induction "is" arbitrary: k) (auto split: prod.splits)

lemma call_msr_update_returns:
  assumes "unat (high m) \<le> length (ctrl_val (dom m))"
  shows "\<exists>k'. call_msr_update (Some f) m k = Some k'"
proof -
  have r: "\<forall>i \<in> set [unat (low m)..<unat (high m)]. i < length (ctrl_val (dom m))"
    using assms by auto
  show ?thesis
  proof (cases f)
    case CAT_WRMSR
    then show ?thesis
      using cat_wrmsr_loop_trace [OF r] by (simp add: call_msr_update_def cat_wrmsr_def)
  next
    case MBA_WRMSR_INTEL
    then show ?thesis
      using mba_wrmsr_intel_loop_returns [OF r]
      by (simp add: call_msr_update_def mba_wrmsr_intel_def)
  next
    case MBA_WRMSR_AMD
    then show ?thesis
      using mba_wrmsr_amd_loop_trace [OF r] by (simp add: call_msr_update_def mba_wrmsr_amd_def)
  qed
qed

lemma cat_wrmsr_defaults:
  assumes "ctrl_val (dom m) = replicate (unat (high m)) v" and "low m = 0"
  shows "call_msr_update (Some CAT_WRMSR) m k =
   Some (k\<lparr>trace := trace k @
           map (\<lambda>i. WRMSRQ (msr_base (res m) + of_nat i) (ucast v)) [0..<unat (high m)]\<rparr>)"
proof -
  have "cat_wrmsr_loop (res m) (dom m) [0..<unat (high m)] k =
     Some (k\<lparr>trace := trace k @
             map (\<lambda>i. WRMSRQ (msr_base (res m) + of_nat i) (ucast (ctrl_val (dom m) ! i)))
               [0..<unat (high m)]\<rparr>)"
    by (rule cat_wrmsr_loop_trace) (simp add: assms)
  moreover have "map (\<lambda>i. WRMSRQ (msr_base (res m) + of_nat i) (ucast (ctrl_val (dom m) ! i)))
                   [0..<unat (high m)]
     = map (\<lambda>i. WRMSRQ (msr_base (res m) + of_nat i) (ucast v)) [0..<unat (high m)]"
    by (rule map_cong) (simp_all add: assms)
  ultimately show ?thesis
    by (simp add: call_msr_update_def cat_wrmsr_def assms)
qed

lemma domain_setup_ctrlval_ok:
  assumes "kmalloc_ctrl_val_ok e (rid r)"
  shows "domain_setup_ctrlval e r d k =
     (case call_msr_update (msr_update r)
             \<lparr> res = r,
               dom = d\<lparr>ctrl_val := replicate (unat (num_closid r)) (resctrl_get_default_ctrl r)\<rparr>,
               low = 0, high = num_closid r \<rparr> k of
        None \<Rightarrow> None
      | Some k' \<Rightarrow>
          Some (0, d\<lparr>ctrl_val := replicate (unat (num_closid r)) (resctrl_get_default_ctrl r)\<rparr>, k'))"
  using assms
  by (simp add: domain_setup_ctrlval_def kmalloc_array_def setup_default_ctrlval_fills Let_def)

lemma domain_setup_ctrlval_nomem:
  "\<not> kmalloc_ctrl_val_ok e (rid r) \<Longrightarrow> domain_setup_ctrlval e r d k = Some (- ENOMEM, d, k)"
  by (simp add: domain_setup_ctrlval_def kmalloc_array_def)

lemma domain_add_cpu_ctrl_new:
  assumes id: "0 \<le> get_domain_id_from_scope e cpu (ctrl_scope r)"
    and nf: "resctrl_find_domain (ctrl_domains r) (get_domain_id_from_scope e cpu (ctrl_scope r)) 0
               = (None, pos)"
    and az: "kzalloc_ctrl_dom_ok e (rid r)"
    and am: "kmalloc_ctrl_val_ok e (rid r)"
  shows "domain_add_cpu_ctrl e cpu r k =
    (case call_msr_update (msr_update r)
            \<lparr> res = r,
              dom = \<lparr> hdr_id = get_domain_id_from_scope e cpu (ctrl_scope r),
                      hdr_type = RESCTRL_CTRL_DOMAIN, cpu_mask = {cpu}, plr = None,
                      ctrl_val = replicate (unat (num_closid r)) (resctrl_get_default_ctrl r) \<rparr>,
              low = 0, high = num_closid r \<rparr>
            (rdt_domain_reconfigure_cdp r k) of
       None \<Rightarrow> None
     | Some k2 \<Rightarrow>
         (let dom_id = get_domain_id_from_scope e cpu (ctrl_scope r);
              d' = \<lparr> hdr_id = dom_id,
                      hdr_type = RESCTRL_CTRL_DOMAIN, cpu_mask = {cpu}, plr = None,
                      ctrl_val = replicate (unat (num_closid r)) (resctrl_get_default_ctrl r) \<rparr>;
              k4 = emit (RESCTRL_ONLINE_CTRL_DOMAIN (rid r) dom_id)
                     (emit (LIST_ADD_TAIL_RCU RESCTRL_CTRL_DOMAIN (rid r) dom_id) k2)
          in if resctrl_online_ctrl_domain e (rid r) dom_id \<noteq> 0 then
               Some (r\<lparr>ctrl_domains :=
                        list_del_rcu pos (list_add_tail_rcu d' pos (ctrl_domains r))\<rparr>,
                     ctrl_domain_free (rid r) d'
                       (emit SYNCHRONIZE_RCU
                         (emit (LIST_DEL_RCU RESCTRL_CTRL_DOMAIN (rid r) dom_id) k4)))
             else Some (r\<lparr>ctrl_domains := list_add_tail_rcu d' pos (ctrl_domains r)\<rparr>, k4)))"
proof -
  have neg: "\<not> get_domain_id_from_scope e cpu (ctrl_scope r) < 0"
    using id by simp
  show ?thesis
    unfolding domain_add_cpu_ctrl_def Let_def
    by (simp only: neg if_False nf prod.case option.case az not_True_eq_False
        domain_setup_ctrlval_ok [OF am] cpumask_set_cpu_def)
      (simp split: option.splits)
qed

text \<open>
  C3. When the first core joins a control domain that is not yet in the list (the
  allocations succeed and the online hook reports success), the domain that is linked
  has a quota array of exactly \<open>num_closid\<close> entries, each the resource's default value;
  for a bitmap resource of bitmask length 20 that value is \<open>0xFFFFF\<close>. The register
  programmer of the resource is called once, for the index range from 0 to \<open>num_closid\<close>,
  and returns; with the cache strategy it writes the default to register
  \<open>msr_base + i\<close> for each index \<open>i\<close> of that range, in order.
\<close>

theorem domain_add_cpu_ctrl_first_core:
  assumes id: "0 \<le> get_domain_id_from_scope e cpu (ctrl_scope r)"
    and nf: "resctrl_find_domain (ctrl_domains r) (get_domain_id_from_scope e cpu (ctrl_scope r)) 0
               = (None, pos)"
    and az: "kzalloc_ctrl_dom_ok e (rid r)"
    and am: "kmalloc_ctrl_val_ok e (rid r)"
    and upd: "msr_update r = Some f"
    and hook: "resctrl_online_ctrl_domain e (rid r) (get_domain_id_from_scope e cpu (ctrl_scope r)) = 0"
  shows "\<exists>k2.
    call_msr_update (Some f)
      \<lparr> res = r,
        dom = \<lparr> hdr_id = get_domain_id_from_scope e cpu (ctrl_scope r),
                hdr_type = RESCTRL_CTRL_DOMAIN, cpu_mask = {cpu}, plr = None,
                ctrl_val = replicate (unat (num_closid r)) (resctrl_get_default_ctrl r) \<rparr>,
        low = 0, high = num_closid r \<rparr>
      (rdt_domain_reconfigure_cdp r k) = Some k2 \<and>
    domain_add_cpu_ctrl e cpu r k =
      Some (r\<lparr>ctrl_domains :=
               list_add_tail_rcu
                 \<lparr> hdr_id = get_domain_id_from_scope e cpu (ctrl_scope r),
                   hdr_type = RESCTRL_CTRL_DOMAIN, cpu_mask = {cpu}, plr = None,
                   ctrl_val = replicate (unat (num_closid r)) (resctrl_get_default_ctrl r) \<rparr>
                 pos (ctrl_domains r)\<rparr>,
            emit (RESCTRL_ONLINE_CTRL_DOMAIN (rid r) (get_domain_id_from_scope e cpu (ctrl_scope r)))
              (emit (LIST_ADD_TAIL_RCU RESCTRL_CTRL_DOMAIN (rid r)
                       (get_domain_id_from_scope e cpu (ctrl_scope r))) k2)) \<and>
    length (replicate (unat (num_closid r)) (resctrl_get_default_ctrl r)) = unat (num_closid r) \<and>
    (\<forall>v \<in> set (replicate (unat (num_closid r)) (resctrl_get_default_ctrl r)).
        v = resctrl_get_default_ctrl r) \<and>
    (f = CAT_WRMSR \<longrightarrow>
       k2 = k\<lparr>trace := trace k @
                 RDT_DOMAIN_RECONFIGURE_CDP (rid r) #
                 map (\<lambda>i. WRMSRQ (msr_base r + of_nat i) (ucast (resctrl_get_default_ctrl r)))
                   [0..<unat (num_closid r)]\<rparr>) \<and>
    (schema_fmt r = RESCTRL_SCHEMA_BITMAP \<and> cbm_len (cache r) = 20 \<longrightarrow>
       resctrl_get_default_ctrl r = 0xFFFFF)"
proof -
  let ?d = "\<lparr> hdr_id = get_domain_id_from_scope e cpu (ctrl_scope r),
                hdr_type = RESCTRL_CTRL_DOMAIN, cpu_mask = {cpu}, plr = None,
                ctrl_val = replicate (unat (num_closid r)) (resctrl_get_default_ctrl r) \<rparr>"
  let ?m = "\<lparr> res = r, dom = ?d, low = 0, high = num_closid r \<rparr>"
  have "unat (high ?m) \<le> length (ctrl_val (dom ?m))"
    by simp
  from call_msr_update_returns [OF this, of f "rdt_domain_reconfigure_cdp r k"]
  obtain k2 where k2: "call_msr_update (Some f) ?m (rdt_domain_reconfigure_cdp r k) = Some k2"
    by blast
  have add: "domain_add_cpu_ctrl e cpu r k =
      Some (r\<lparr>ctrl_domains := list_add_tail_rcu ?d pos (ctrl_domains r)\<rparr>,
            emit (RESCTRL_ONLINE_CTRL_DOMAIN (rid r) (get_domain_id_from_scope e cpu (ctrl_scope r)))
              (emit (LIST_ADD_TAIL_RCU RESCTRL_CTRL_DOMAIN (rid r)
                       (get_domain_id_from_scope e cpu (ctrl_scope r))) k2))"
    unfolding domain_add_cpu_ctrl_new [OF id nf az am] upd k2
    by (simp add: hook Let_def)
  have cat: "f = CAT_WRMSR \<longrightarrow>
       k2 = k\<lparr>trace := trace k @
                 RDT_DOMAIN_RECONFIGURE_CDP (rid r) #
                 map (\<lambda>i. WRMSRQ (msr_base r + of_nat i) (ucast (resctrl_get_default_ctrl r)))
                   [0..<unat (num_closid r)]\<rparr>"
  proof
    assume "f = CAT_WRMSR"
    with k2 have "Some k2 = call_msr_update (Some CAT_WRMSR) ?m (rdt_domain_reconfigure_cdp r k)"
      by simp
    also have "\<dots> = Some ((rdt_domain_reconfigure_cdp r k)
        \<lparr>trace := trace (rdt_domain_reconfigure_cdp r k) @
           map (\<lambda>i. WRMSRQ (msr_base r + of_nat i) (ucast (resctrl_get_default_ctrl r)))
             [0..<unat (num_closid r)]\<rparr>)"
      using cat_wrmsr_defaults [of ?m "resctrl_get_default_ctrl r" "rdt_domain_reconfigure_cdp r k"]
      by simp
    finally show "k2 = k\<lparr>trace := trace k @
                 RDT_DOMAIN_RECONFIGURE_CDP (rid r) #
                 map (\<lambda>i. WRMSRQ (msr_base r + of_nat i) (ucast (resctrl_get_default_ctrl r)))
                   [0..<unat (num_closid r)]\<rparr>"
      by (simp add: rdt_domain_reconfigure_cdp_def emit_def)
  qed
  have dflt: "schema_fmt r = RESCTRL_SCHEMA_BITMAP \<and> cbm_len (cache r) = 20 \<longrightarrow>
       resctrl_get_default_ctrl r = 0xFFFFF"
    by (simp add: resctrl_get_default_ctrl_def mask_eq_exp_minus_1)
  have len: "length (replicate (unat (num_closid r)) (resctrl_get_default_ctrl r)) = unat (num_closid r)"
    by simp
  have vals: "\<forall>v \<in> set (replicate (unat (num_closid r)) (resctrl_get_default_ctrl r)).
        v = resctrl_get_default_ctrl r"
    by simp
  from k2 add cat dflt len vals show ?thesis
    by blast
qed

theorem domain_add_cpu_ctrl_first_core_witness:
  "domain_add_cpu_ctrl env_example 0 l3_example kstate_empty =
     Some (l3_example
             \<lparr>ctrl_domains :=
                [\<lparr> hdr_id = 0, hdr_type = RESCTRL_CTRL_DOMAIN, cpu_mask = {0}, plr = None,
                   ctrl_val = [0xFFFFF, 0xFFFFF, 0xFFFFF, 0xFFFFF] \<rparr>]\<rparr>,
           \<lparr> trace = [RDT_DOMAIN_RECONFIGURE_CDP 0,
                      WRMSRQ 0xc90 0xFFFFF, WRMSRQ 0xc91 0xFFFFF,
                      WRMSRQ 0xc92 0xFFFFF, WRMSRQ 0xc93 0xFFFFF,
                      LIST_ADD_TAIL_RCU RESCTRL_CTRL_DOMAIN 0 0,
                      RESCTRL_ONLINE_CTRL_DOMAIN 0 0],
             warned = {} \<rparr>)"
proof -
  have sc: "ctrl_scope l3_example = RESCTRL_L3_CACHE" "rid l3_example = 0"
    "ctrl_domains l3_example = []" "msr_update l3_example = Some CAT_WRMSR"
    "num_closid l3_example = 4" "msr_base l3_example = 0xc90"
    "schema_fmt l3_example = RESCTRL_SCHEMA_BITMAP" "cbm_len (cache l3_example) = 20"
    by (simp_all add: l3_example_def rdt_resources_all_init_def RDT_RESOURCE_L3_def
        rdt_hw_resource_zero_def MSR_IA32_L3_CBM_BASE_def)
  have gid: "get_domain_id_from_scope env_example 0 (ctrl_scope l3_example) = 0"
    by (simp add: sc get_domain_id_from_scope_def env_example_def)
  have id: "0 \<le> get_domain_id_from_scope env_example 0 (ctrl_scope l3_example)"
    by (simp add: gid)
  have nf: "resctrl_find_domain (ctrl_domains l3_example)
              (get_domain_id_from_scope env_example 0 (ctrl_scope l3_example)) 0 = (None, 0)"
    by (simp add: sc)
  have az: "kzalloc_ctrl_dom_ok env_example (rid l3_example)"
    and am: "kmalloc_ctrl_val_ok env_example (rid l3_example)"
    by (simp_all add: env_example_def)
  have hook: "resctrl_online_ctrl_domain env_example (rid l3_example)
                (get_domain_id_from_scope env_example 0 (ctrl_scope l3_example)) = 0"
    by (simp add: env_example_def)
  have dflt: "resctrl_get_default_ctrl l3_example = 0xFFFFF"
    using domain_add_cpu_ctrl_first_core [OF id nf az am sc(4) hook, of kstate_empty] sc(7,8)
    by blast
  have "[0..<(4 :: nat)] = [0, 1, 2, 3]"
    by code_simp
  then have u: "[0..<unat (4 :: u32)] = [0, 1, 2, 3]"
    by simp
  from domain_add_cpu_ctrl_first_core [OF id nf az am sc(4) hook, of kstate_empty]
  obtain k2 where
    a: "domain_add_cpu_ctrl env_example 0 l3_example kstate_empty =
      Some (l3_example\<lparr>ctrl_domains :=
               list_add_tail_rcu
                 \<lparr> hdr_id = get_domain_id_from_scope env_example 0 (ctrl_scope l3_example),
                   hdr_type = RESCTRL_CTRL_DOMAIN, cpu_mask = {0}, plr = None,
                   ctrl_val = replicate (unat (num_closid l3_example))
                                (resctrl_get_default_ctrl l3_example) \<rparr>
                 0 (ctrl_domains l3_example)\<rparr>,
            emit (RESCTRL_ONLINE_CTRL_DOMAIN (rid l3_example)
                    (get_domain_id_from_scope env_example 0 (ctrl_scope l3_example)))
              (emit (LIST_ADD_TAIL_RCU RESCTRL_CTRL_DOMAIN (rid l3_example)
                       (get_domain_id_from_scope env_example 0 (ctrl_scope l3_example))) k2))"
    and b: "k2 = kstate_empty\<lparr>trace := trace kstate_empty @
                 RDT_DOMAIN_RECONFIGURE_CDP (rid l3_example) #
                 map (\<lambda>i. WRMSRQ (msr_base l3_example + of_nat i)
                        (ucast (resctrl_get_default_ctrl l3_example)))
                   [0..<unat (num_closid l3_example)]\<rparr>"
    by blast
  have u4: "unat (4 :: u32) = 4"
    by simp
  have "\<And>x :: u32. replicate (4 :: nat) x = [x, x, x, x]"
    by (simp add: numeral_eq_Suc)
  then have rp: "\<And>x :: u32. replicate (unat (4 :: u32)) x = [x, x, x, x]"
    unfolding u4 .
  show ?thesis
    unfolding a b gid sc dflt u rp
    by (simp add: list_add_tail_rcu_def emit_def kstate_empty_def gid [unfolded sc])
qed

subsection \<open>Searching the domain list\<close>

lemma resctrl_find_domain_Some:
  "resctrl_find_domain ds i n = (Some j, p) \<Longrightarrow>
   n \<le> j \<and> j - n < length ds \<and> hdr_id (ds ! (j - n)) = i \<and> p = j"
proof (induction ds arbitrary: n)
  case Nil
  then show ?case by simp
next
  case (Cons d ds)
  show ?case
  proof (cases "i = hdr_id d")
    case True
    with Cons.prems show ?thesis by simp
  next
    case False
    show ?thesis
    proof (cases "i < hdr_id d")
      case True
      with False Cons.prems show ?thesis by simp
    next
      case ge: False
      with False Cons.prems have "resctrl_find_domain ds i (Suc n) = (Some j, p)"
        by simp
      from Cons.IH [OF this]
      have "Suc n \<le> j" "j - Suc n < length ds" "hdr_id (ds ! (j - Suc n)) = i" "p = j"
        by simp_all
      moreover from \<open>Suc n \<le> j\<close> have "j - n = Suc (j - Suc n)"
        by simp
      ultimately show ?thesis
        by simp
    qed
  qed
qed

lemma resctrl_find_domain_Some0:
  "resctrl_find_domain ds i 0 = (Some j, p) \<Longrightarrow> j < length ds \<and> hdr_id (ds ! j) = i \<and> p = j"
  using resctrl_find_domain_Some [of ds i 0 j p] by simp

lemma resctrl_find_domain_None:
  "resctrl_find_domain ds i n = (None, p) \<Longrightarrow> n \<le> p \<and> p - n \<le> length ds"
proof (induction ds arbitrary: n)
  case Nil
  then show ?case by simp
next
  case (Cons d ds)
  show ?case
  proof (cases "i = hdr_id d \<or> i < hdr_id d")
    case True
    with Cons.prems show ?thesis by (auto split: if_splits)
  next
    case False
    with Cons.prems have "resctrl_find_domain ds i (Suc n) = (None, p)"
      by simp
    from Cons.IH [OF this] show ?thesis
      by auto
  qed
qed

lemma resctrl_find_domain_None0:
  "resctrl_find_domain ds i 0 = (None, p) \<Longrightarrow> p \<le> length ds"
  using resctrl_find_domain_None [of ds i 0 p] by simp

lemma resctrl_find_domain_None_ordered:
  "id_ordered ds \<Longrightarrow> resctrl_find_domain ds i n = (None, p) \<Longrightarrow>
   (\<forall>d \<in> set (take (p - n) ds). hdr_id d < i) \<and> (\<forall>d \<in> set (drop (p - n) ds). i < hdr_id d)"
proof (induction ds arbitrary: n)
  case Nil
  then show ?case by simp
next
  case (Cons d ds)
  from Cons.prems(1) have ord: "id_ordered ds" and lt: "\<forall>x \<in> set ds. hdr_id d < hdr_id x"
    by (simp_all add: id_ordered_def)
  show ?case
  proof (cases "i < hdr_id d")
    case True
    with Cons.prems(2) have "p = n"
      by (simp split: if_splits)
    with True lt show ?thesis
      by auto
  next
    case False
    with Cons.prems(2) have ne: "i \<noteq> hdr_id d"
      and rec: "resctrl_find_domain ds i (Suc n) = (None, p)"
      by (simp_all split: if_splits)
    from resctrl_find_domain_None [OF rec] have "Suc n \<le> p"
      by simp
    then have e: "p - n = Suc (p - Suc n)"
      by simp
    from Cons.IH [OF ord rec] False ne show ?thesis
      unfolding e by auto
  qed
qed

lemma resctrl_find_domain_None_absent:
  assumes "id_ordered ds" and "resctrl_find_domain ds i 0 = (None, p)"
  shows "i \<notin> hdr_id ` set ds"
proof
  assume "i \<in> hdr_id ` set ds"
  then obtain d where d: "d \<in> set ds" "hdr_id d = i"
    by auto
  from d(1) have "d \<in> set (take p ds) \<union> set (drop p ds)"
    by (metis append_take_drop_id set_append)
  with resctrl_find_domain_None_ordered [OF assms] d(2) show False
    by auto
qed

lemma resctrl_find_domain_present:
  assumes "id_ordered ds" and "i \<in> hdr_id ` set ds"
  shows "\<exists>j. resctrl_find_domain ds i 0 = (Some j, j)"
proof (cases "resctrl_find_domain ds i 0")
  case (Pair a p)
  show ?thesis
  proof (cases a)
    case None
    with Pair resctrl_find_domain_None_absent [OF assms(1)] assms(2) show ?thesis
      by simp
  next
    case (Some j)
    with Pair resctrl_find_domain_Some0 [of ds i j p] show ?thesis
      by simp
  qed
qed

lemma list_del_add_same:
  "pos \<le> length ds \<Longrightarrow> list_del_rcu pos (list_add_tail_rcu d pos ds) = ds"
  by (simp add: list_del_rcu_def list_add_tail_rcu_def min_absorb2)

lemma id_ordered_insert:
  assumes "id_ordered ds" and "resctrl_find_domain ds (hdr_id d) 0 = (None, p)"
  shows "id_ordered (list_add_tail_rcu d p ds)"
proof -
  from resctrl_find_domain_None_ordered [OF assms]
  have a: "\<forall>x \<in> set (take p ds). hdr_id x < hdr_id d"
    and b: "\<forall>x \<in> set (drop p ds). hdr_id d < hdr_id x"
    by simp_all
  from assms(1) have "sorted_wrt (<) (map hdr_id (take p ds @ drop p ds))"
    by (simp add: id_ordered_def)
  then have "sorted_wrt (<) (map hdr_id (take p ds) @ hdr_id d # map hdr_id (drop p ds))"
    using a b by (auto simp: sorted_wrt_append simp del: append_take_drop_id)
  then show ?thesis
    by (simp add: id_ordered_def list_add_tail_rcu_def)
qed

subsection \<open>A core joins a control domain that exists\<close>

lemma domain_add_cpu_ctrl_found:
  assumes id: "0 \<le> get_domain_id_from_scope e cpu (ctrl_scope r)"
    and f: "resctrl_find_domain (ctrl_domains r) (get_domain_id_from_scope e cpu (ctrl_scope r)) 0
              = (Some i, p)"
  shows "domain_add_cpu_ctrl e cpu r k =
    (if hdr_type (ctrl_domains r ! i) \<noteq> RESCTRL_CTRL_DOMAIN
     then Some (r, pr_warn_once WARN_ADD_CTRL_TYPE k)
     else Some (r\<lparr>ctrl_domains := (ctrl_domains r)
                   [i := (ctrl_domains r ! i)
                      \<lparr>cpu_mask := insert cpu (cpu_mask (ctrl_domains r ! i))\<rparr>]\<rparr>,
                if arch_has_per_cpu_cfg (cache r)
                then emit (RDT_DOMAIN_RECONFIGURE_CDP (rid r)) k else k))"
proof -
  have neg: "\<not> get_domain_id_from_scope e cpu (ctrl_scope r) < 0"
    using id by simp
  show ?thesis
    unfolding domain_add_cpu_ctrl_def Let_def
    by (simp only: neg if_False f prod.case option.case)
      (simp add: WARN_ON_ONCE_def cpumask_set_cpu_def rdt_domain_reconfigure_cdp_def)
qed

text \<open>
  C7. When the domain identity of the core already has a domain in the (identity-ordered)
  control-domain list, \<open>domain_add_cpu_ctrl\<close> returns, the list keeps its length, and the
  identities, the quota arrays, the types and the pseudo-lock references of all its
  domains are what they were: the one change is that the core is put into the member set
  of the domain with that identity. When the core is a member already the list is
  unchanged; nothing else of the resource changes in either case.
\<close>

theorem domain_add_cpu_ctrl_existing:
  assumes id: "0 \<le> get_domain_id_from_scope e cpu (ctrl_scope r)"
    and ord: "id_ordered (ctrl_domains r)"
    and ex: "get_domain_id_from_scope e cpu (ctrl_scope r) \<in> hdr_id ` set (ctrl_domains r)"
  shows "\<exists>r' k' i.
    domain_add_cpu_ctrl e cpu r k = Some (r', k') \<and>
    r' = r\<lparr>ctrl_domains := ctrl_domains r'\<rparr> \<and>
    i < length (ctrl_domains r) \<and>
    hdr_id (ctrl_domains r ! i) = get_domain_id_from_scope e cpu (ctrl_scope r) \<and>
    ctrl_domains r' =
      (if hdr_type (ctrl_domains r ! i) = RESCTRL_CTRL_DOMAIN
       then (ctrl_domains r)
              [i := (ctrl_domains r ! i)\<lparr>cpu_mask := insert cpu (cpu_mask (ctrl_domains r ! i))\<rparr>]
       else ctrl_domains r) \<and>
    length (ctrl_domains r') = length (ctrl_domains r) \<and>
    map hdr_id (ctrl_domains r') = map hdr_id (ctrl_domains r) \<and>
    map ctrl_val (ctrl_domains r') = map ctrl_val (ctrl_domains r) \<and>
    map hdr_type (ctrl_domains r') = map hdr_type (ctrl_domains r) \<and>
    map plr (ctrl_domains r') = map plr (ctrl_domains r) \<and>
    (cpu \<in> cpu_mask (ctrl_domains r ! i) \<longrightarrow> ctrl_domains r' = ctrl_domains r)"
proof -
  let ?ds = "ctrl_domains r"
  from resctrl_find_domain_present [OF ord ex]
  obtain i where f: "resctrl_find_domain ?ds (get_domain_id_from_scope e cpu (ctrl_scope r)) 0
                       = (Some i, i)"
    by blast
  from resctrl_find_domain_Some0 [OF f]
  have i: "i < length ?ds" and hid: "hdr_id (?ds ! i) = get_domain_id_from_scope e cpu (ctrl_scope r)"
    by simp_all
  let ?d' = "(?ds ! i)\<lparr>cpu_mask := insert cpu (cpu_mask (?ds ! i))\<rparr>"
  let ?ds' = "if hdr_type (?ds ! i) = RESCTRL_CTRL_DOMAIN then ?ds[i := ?d'] else ?ds"
  from domain_add_cpu_ctrl_found [OF id f, of k]
  obtain k' where res: "domain_add_cpu_ctrl e cpu r k = Some (r\<lparr>ctrl_domains := ?ds'\<rparr>, k')"
    by (cases "hdr_type (?ds ! i) = RESCTRL_CTRL_DOMAIN") simp_all
  have frame: "r\<lparr>ctrl_domains := ?ds'\<rparr> = r\<lparr>ctrl_domains := ?ds'\<rparr>\<lparr>ctrl_domains :=
                 ctrl_domains (r\<lparr>ctrl_domains := ?ds'\<rparr>)\<rparr>"
    by simp
  have sel: "ctrl_domains (r\<lparr>ctrl_domains := ?ds'\<rparr>) = ?ds'"
    by simp
  have len: "length ?ds' = length ?ds"
    by simp
  have ids: "map hdr_id ?ds' = map hdr_id ?ds"
    by (simp add: map_update list_update_same_conv i)
  have vals: "map ctrl_val ?ds' = map ctrl_val ?ds"
    by (simp add: map_update list_update_same_conv i)
  have tys: "map hdr_type ?ds' = map hdr_type ?ds"
    by (simp add: map_update list_update_same_conv i)
  have plrs: "map plr ?ds' = map plr ?ds"
    by (simp add: map_update list_update_same_conv i)
  have mem: "cpu \<in> cpu_mask (?ds ! i) \<longrightarrow> ?ds' = ?ds"
    by (simp add: insert_absorb)
  have "domain_add_cpu_ctrl e cpu r k = Some (r\<lparr>ctrl_domains := ?ds'\<rparr>, k') \<and>
    r\<lparr>ctrl_domains := ?ds'\<rparr>
      = r\<lparr>ctrl_domains := ctrl_domains (r\<lparr>ctrl_domains := ?ds'\<rparr>)\<rparr> \<and>
    i < length ?ds \<and>
    hdr_id (?ds ! i) = get_domain_id_from_scope e cpu (ctrl_scope r) \<and>
    ctrl_domains (r\<lparr>ctrl_domains := ?ds'\<rparr>) = ?ds' \<and>
    length (ctrl_domains (r\<lparr>ctrl_domains := ?ds'\<rparr>)) = length ?ds \<and>
    map hdr_id (ctrl_domains (r\<lparr>ctrl_domains := ?ds'\<rparr>)) = map hdr_id ?ds \<and>
    map ctrl_val (ctrl_domains (r\<lparr>ctrl_domains := ?ds'\<rparr>)) = map ctrl_val ?ds \<and>
    map hdr_type (ctrl_domains (r\<lparr>ctrl_domains := ?ds'\<rparr>)) = map hdr_type ?ds \<and>
    map plr (ctrl_domains (r\<lparr>ctrl_domains := ?ds'\<rparr>)) = map plr ?ds \<and>
    (cpu \<in> cpu_mask (?ds ! i) \<longrightarrow> ctrl_domains (r\<lparr>ctrl_domains := ?ds'\<rparr>) = ?ds)"
    unfolding sel using res i hid len ids vals tys plrs mem by simp
  then show ?thesis
    by blast
qed

theorem domain_add_cpu_ctrl_existing_witness:
  "0 \<le> get_domain_id_from_scope env_example 1 (ctrl_scope l3_one_core) \<and>
   id_ordered (ctrl_domains l3_one_core) \<and>
   get_domain_id_from_scope env_example 1 (ctrl_scope l3_one_core)
     \<in> hdr_id ` set (ctrl_domains l3_one_core) \<and>
   (\<exists>r' k'. domain_add_cpu_ctrl env_example 1 l3_one_core kstate_empty = Some (r', k') \<and>
      map hdr_id (ctrl_domains r') = [0] \<and>
      map ctrl_val (ctrl_domains r') = [[0xFFFFF, 0xFFFFF, 0xFFFFF, 0xFFFFF]])"
proof -
  have ds: "ctrl_domains l3_one_core =
          [\<lparr> hdr_id = 0, hdr_type = RESCTRL_CTRL_DOMAIN, cpu_mask = {0}, plr = None,
             ctrl_val = [0xFFFFF, 0xFFFFF, 0xFFFFF, 0xFFFFF] \<rparr>]"
    by (simp add: l3_one_core_def)
  have sc: "ctrl_scope l3_one_core = RESCTRL_L3_CACHE"
    by (simp add: l3_one_core_def l3_example_def rdt_resources_all_init_def RDT_RESOURCE_L3_def
        rdt_hw_resource_zero_def)
  have gid: "get_domain_id_from_scope env_example 1 (ctrl_scope l3_one_core) = 0"
    by (simp add: sc get_domain_id_from_scope_def env_example_def)
  have id: "0 \<le> get_domain_id_from_scope env_example 1 (ctrl_scope l3_one_core)"
    unfolding gid by simp
  have ord: "id_ordered (ctrl_domains l3_one_core)"
    by (simp add: ds id_ordered_def)
  have ex: "get_domain_id_from_scope env_example 1 (ctrl_scope l3_one_core)
              \<in> hdr_id ` set (ctrl_domains l3_one_core)"
    unfolding gid ds by simp
  have m1: "map hdr_id (ctrl_domains l3_one_core) = [0]"
    and m2: "map ctrl_val (ctrl_domains l3_one_core) = [[0xFFFFF, 0xFFFFF, 0xFFFFF, 0xFFFFF]]"
    by (simp_all add: ds)
  from domain_add_cpu_ctrl_existing [OF id ord ex, of kstate_empty]
  obtain r' k' where
    a: "domain_add_cpu_ctrl env_example 1 l3_one_core kstate_empty = Some (r', k')"
    and b: "map hdr_id (ctrl_domains r') = map hdr_id (ctrl_domains l3_one_core)"
    and c: "map ctrl_val (ctrl_domains r') = map ctrl_val (ctrl_domains l3_one_core)"
    by blast
  have "\<exists>r' k'. domain_add_cpu_ctrl env_example 1 l3_one_core kstate_empty = Some (r', k') \<and>
      map hdr_id (ctrl_domains r') = [0] \<and>
      map ctrl_val (ctrl_domains r') = [[0xFFFFF, 0xFFFFF, 0xFFFFF, 0xFFFFF]]"
    by (intro exI conjI) (rule a, rule b [unfolded m1], rule c [unfolded m2])
  with id ord ex show ?thesis
    by blast
qed

subsection \<open>Failure while a domain is created\<close>

lemma domain_add_cpu_ctrl_nomem:
  assumes id: "0 \<le> get_domain_id_from_scope e cpu (ctrl_scope r)"
    and nf: "resctrl_find_domain (ctrl_domains r) (get_domain_id_from_scope e cpu (ctrl_scope r)) 0
               = (None, pos)"
    and az: "kzalloc_ctrl_dom_ok e (rid r)"
    and am: "\<not> kmalloc_ctrl_val_ok e (rid r)"
  shows "domain_add_cpu_ctrl e cpu r k =
    Some (r, k\<lparr>trace := trace k @
                 [RDT_DOMAIN_RECONFIGURE_CDP (rid r),
                  CTRL_DOMAIN_FREE (rid r) (get_domain_id_from_scope e cpu (ctrl_scope r))]\<rparr>)"
proof -
  have neg: "\<not> get_domain_id_from_scope e cpu (ctrl_scope r) < 0"
    using id by simp
  show ?thesis
    unfolding domain_add_cpu_ctrl_def Let_def
    by (simp only: neg if_False nf prod.case option.case az not_True_eq_False
        domain_setup_ctrlval_nomem [OF am])
      (simp add: ENOMEM_def ctrl_domain_free_def rdt_domain_reconfigure_cdp_def emit_def)
qed

lemma domain_add_cpu_ctrl_no_dom:
  assumes id: "0 \<le> get_domain_id_from_scope e cpu (ctrl_scope r)"
    and nf: "resctrl_find_domain (ctrl_domains r) (get_domain_id_from_scope e cpu (ctrl_scope r)) 0
               = (None, pos)"
    and az: "\<not> kzalloc_ctrl_dom_ok e (rid r)"
  shows "domain_add_cpu_ctrl e cpu r k = Some (r, k)"
proof -
  have neg: "\<not> get_domain_id_from_scope e cpu (ctrl_scope r) < 0"
    using id by simp
  show ?thesis
    unfolding domain_add_cpu_ctrl_def Let_def
    by (simp only: neg if_False nf prod.case option.case az not_False_eq_True if_True)
qed

lemma arch_domain_mbm_alloc_result:
  "arch_domain_mbm_alloc e rd n d = (ret, d') \<Longrightarrow>
   hdr_id d' = hdr_id d \<and> hdr_type d' = hdr_type d \<and> cpu_mask d' = cpu_mask d \<and>
   ret = (if (resctrl_arch_is_mbm_total_enabled e \<and> \<not> kcalloc_mbm_total_ok e rd) \<or>
             (resctrl_arch_is_mbm_local_enabled e \<and> \<not> kcalloc_mbm_local_ok e rd)
          then - ENOMEM else 0)"
  by (auto simp: arch_domain_mbm_alloc_def kcalloc_def split: if_splits)

lemma domain_add_cpu_mon_new:
  assumes id: "0 \<le> get_domain_id_from_scope e cpu (mon_scope r)"
    and nf: "resctrl_find_domain (mon_domains r) (get_domain_id_from_scope e cpu (mon_scope r)) 0
               = (None, pos)"
    and az: "kzalloc_mon_dom_ok e (rid r)"
    and ci: "get_cpu_cacheinfo_level e cpu RESCTRL_L3_CACHE = Some c"
    and al: "arch_domain_mbm_alloc e (rid r) (num_rmid r)
               \<lparr> hdr_id = get_domain_id_from_scope e cpu (mon_scope r),
                 hdr_type = RESCTRL_MON_DOMAIN, cpu_mask = {cpu}, ci_id = c,
                 arch_mbm_total = None, arch_mbm_local = None \<rparr> = (ret, d3)"
  shows "domain_add_cpu_mon e cpu r k =
    (let dom_id = get_domain_id_from_scope e cpu (mon_scope r);
         k1 = emit (ARCH_MON_DOMAIN_ONLINE (rid r) dom_id) k
     in if ret \<noteq> 0 then (r, emit (MON_DOMAIN_FREE (rid r) dom_id) k1)
        else
          (let k3 = emit (RESCTRL_ONLINE_MON_DOMAIN (rid r) dom_id)
                      (emit (LIST_ADD_TAIL_RCU RESCTRL_MON_DOMAIN (rid r) dom_id) k1)
           in if resctrl_online_mon_domain e (rid r) dom_id \<noteq> 0 then
                (r\<lparr>mon_domains := list_del_rcu pos (list_add_tail_rcu d3 pos (mon_domains r))\<rparr>,
                 emit (MON_DOMAIN_FREE (rid r) dom_id)
                   (emit SYNCHRONIZE_RCU
                     (emit (LIST_DEL_RCU RESCTRL_MON_DOMAIN (rid r) dom_id) k3)))
              else (r\<lparr>mon_domains := list_add_tail_rcu d3 pos (mon_domains r)\<rparr>, k3)))"
proof -
  have neg: "\<not> get_domain_id_from_scope e cpu (mon_scope r) < 0"
    using id by simp
  from arch_domain_mbm_alloc_result [OF al]
  have hid: "hdr_id d3 = get_domain_id_from_scope e cpu (mon_scope r)"
    by simp
  show ?thesis
    unfolding domain_add_cpu_mon_def Let_def
    by (simp only: neg if_False nf prod.case option.case az not_True_eq_False ci
        cpumask_set_cpu_def)
      (simp add: al mon_domain_free_def hid)
qed

text \<open>
  C5. A core joins a domain that is not in the list, and the domain structure itself has
  been allocated. For a control domain: when the quota array cannot be allocated,
  the domain is freed without ever being linked and the resource is returned as it was;
  when the online hook reports an error, the domain that had been linked is unlinked
  again, the grace period is waited out, the domain is freed, and the resource is as
  it was. Whatever the outcome, the resource afterwards is either unchanged or holds the
  completely built domain (which needs both allocations and the hook to succeed). For a
  monitor domain the same holds with the counter arrays in place of the quota array. In
  an identity-ordered list there was no entry for the identity, so there is none after a
  failure.
\<close>

theorem domain_add_cpu_rollback:
  "(0 \<le> get_domain_id_from_scope e cpu (ctrl_scope r) \<and>
    resctrl_find_domain (ctrl_domains r) (get_domain_id_from_scope e cpu (ctrl_scope r)) 0
      = (None, pos) \<longrightarrow>
      (kzalloc_ctrl_dom_ok e (rid r) \<and> \<not> kmalloc_ctrl_val_ok e (rid r) \<longrightarrow>
         domain_add_cpu_ctrl e cpu r k =
           Some (r, k\<lparr>trace := trace k @
                   [RDT_DOMAIN_RECONFIGURE_CDP (rid r),
                    CTRL_DOMAIN_FREE (rid r) (get_domain_id_from_scope e cpu (ctrl_scope r))]\<rparr>)) \<and>
      (kzalloc_ctrl_dom_ok e (rid r) \<and> kmalloc_ctrl_val_ok e (rid r) \<and>
       resctrl_online_ctrl_domain e (rid r) (get_domain_id_from_scope e cpu (ctrl_scope r)) \<noteq> 0 \<longrightarrow>
         (\<forall>r' k'. domain_add_cpu_ctrl e cpu r k = Some (r', k') \<longrightarrow>
            r' = r \<and>
            (\<exists>k2.
               call_msr_update (msr_update r)
                 \<lparr> res = r,
                   dom = \<lparr> hdr_id = get_domain_id_from_scope e cpu (ctrl_scope r),
                           hdr_type = RESCTRL_CTRL_DOMAIN, cpu_mask = {cpu}, plr = None,
                           ctrl_val = replicate (unat (num_closid r))
                                        (resctrl_get_default_ctrl r) \<rparr>,
                   low = 0, high = num_closid r \<rparr>
                 (rdt_domain_reconfigure_cdp r k) = Some k2 \<and>
               trace k' = trace k2 @
               [LIST_ADD_TAIL_RCU RESCTRL_CTRL_DOMAIN (rid r)
                  (get_domain_id_from_scope e cpu (ctrl_scope r)),
                RESCTRL_ONLINE_CTRL_DOMAIN (rid r) (get_domain_id_from_scope e cpu (ctrl_scope r)),
                LIST_DEL_RCU RESCTRL_CTRL_DOMAIN (rid r)
                  (get_domain_id_from_scope e cpu (ctrl_scope r)),
                SYNCHRONIZE_RCU,
                CTRL_DOMAIN_FREE (rid r) (get_domain_id_from_scope e cpu (ctrl_scope r))])) \<and>
         (msr_update r \<noteq> None \<longrightarrow> domain_add_cpu_ctrl e cpu r k \<noteq> None)) \<and>
      (\<forall>r' k'. domain_add_cpu_ctrl e cpu r k = Some (r', k') \<longrightarrow>
         r' = r \<or>
         (kzalloc_ctrl_dom_ok e (rid r) \<and> kmalloc_ctrl_val_ok e (rid r) \<and>
          resctrl_online_ctrl_domain e (rid r) (get_domain_id_from_scope e cpu (ctrl_scope r)) = 0 \<and>
          r' = r\<lparr>ctrl_domains :=
                   list_add_tail_rcu
                     \<lparr> hdr_id = get_domain_id_from_scope e cpu (ctrl_scope r),
                       hdr_type = RESCTRL_CTRL_DOMAIN, cpu_mask = {cpu}, plr = None,
                       ctrl_val = replicate (unat (num_closid r)) (resctrl_get_default_ctrl r) \<rparr>
                     pos (ctrl_domains r)\<rparr>)) \<and>
      (id_ordered (ctrl_domains r) \<longrightarrow>
         get_domain_id_from_scope e cpu (ctrl_scope r) \<notin> hdr_id ` set (ctrl_domains r))) \<and>
   (0 \<le> get_domain_id_from_scope e cpu (mon_scope r) \<and>
    resctrl_find_domain (mon_domains r) (get_domain_id_from_scope e cpu (mon_scope r)) 0
      = (None, posm) \<and>
    kzalloc_mon_dom_ok e (rid r) \<and>
    get_cpu_cacheinfo_level e cpu RESCTRL_L3_CACHE = Some c \<longrightarrow>
      ((resctrl_arch_is_mbm_total_enabled e \<and> \<not> kcalloc_mbm_total_ok e (rid r)) \<or>
       (resctrl_arch_is_mbm_local_enabled e \<and> \<not> kcalloc_mbm_local_ok e (rid r)) \<longrightarrow>
         domain_add_cpu_mon e cpu r k =
           (r, k\<lparr>trace := trace k @
                 [ARCH_MON_DOMAIN_ONLINE (rid r) (get_domain_id_from_scope e cpu (mon_scope r)),
                  MON_DOMAIN_FREE (rid r) (get_domain_id_from_scope e cpu (mon_scope r))]\<rparr>)) \<and>
      (\<not> ((resctrl_arch_is_mbm_total_enabled e \<and> \<not> kcalloc_mbm_total_ok e (rid r)) \<or>
           (resctrl_arch_is_mbm_local_enabled e \<and> \<not> kcalloc_mbm_local_ok e (rid r))) \<and>
       resctrl_online_mon_domain e (rid r) (get_domain_id_from_scope e cpu (mon_scope r)) \<noteq> 0 \<longrightarrow>
         domain_add_cpu_mon e cpu r k =
           (r, k\<lparr>trace := trace k @
                 [ARCH_MON_DOMAIN_ONLINE (rid r) (get_domain_id_from_scope e cpu (mon_scope r)),
                  LIST_ADD_TAIL_RCU RESCTRL_MON_DOMAIN (rid r)
                    (get_domain_id_from_scope e cpu (mon_scope r)),
                  RESCTRL_ONLINE_MON_DOMAIN (rid r) (get_domain_id_from_scope e cpu (mon_scope r)),
                  LIST_DEL_RCU RESCTRL_MON_DOMAIN (rid r)
                    (get_domain_id_from_scope e cpu (mon_scope r)),
                  SYNCHRONIZE_RCU,
                  MON_DOMAIN_FREE (rid r) (get_domain_id_from_scope e cpu (mon_scope r))]\<rparr>)) \<and>
      (id_ordered (mon_domains r) \<longrightarrow>
         get_domain_id_from_scope e cpu (mon_scope r) \<notin> hdr_id ` set (mon_domains r)))"
proof (intro conjI impI; (elim conjE)?)
  let ?I = "get_domain_id_from_scope e cpu (ctrl_scope r)"
  let ?d = "\<lparr> hdr_id = ?I, hdr_type = RESCTRL_CTRL_DOMAIN, cpu_mask = {cpu}, plr = None,
               ctrl_val = replicate (unat (num_closid r)) (resctrl_get_default_ctrl r) \<rparr>"
  let ?m = "\<lparr> res = r, dom = ?d, low = 0, high = num_closid r \<rparr>"
  {
    assume id: "0 \<le> ?I" and nf: "resctrl_find_domain (ctrl_domains r) ?I 0 = (None, pos)"
    from resctrl_find_domain_None0 [OF nf] have pos: "pos \<le> length (ctrl_domains r)" .
    {
      assume "kzalloc_ctrl_dom_ok e (rid r)" "\<not> kmalloc_ctrl_val_ok e (rid r)"
      then show "domain_add_cpu_ctrl e cpu r k =
           Some (r, k\<lparr>trace := trace k @
                   [RDT_DOMAIN_RECONFIGURE_CDP (rid r), CTRL_DOMAIN_FREE (rid r) ?I]\<rparr>)"
        by (rule domain_add_cpu_ctrl_nomem [OF id nf])
    }
    {
      assume az: "kzalloc_ctrl_dom_ok e (rid r)" and am: "kmalloc_ctrl_val_ok e (rid r)"
        and hk: "resctrl_online_ctrl_domain e (rid r) ?I \<noteq> 0"
      show "\<forall>r' k'. domain_add_cpu_ctrl e cpu r k = Some (r', k') \<longrightarrow>
            r' = r \<and>
            (\<exists>k2.
               call_msr_update (msr_update r) ?m (rdt_domain_reconfigure_cdp r k) = Some k2 \<and>
               trace k' = trace k2 @
               [LIST_ADD_TAIL_RCU RESCTRL_CTRL_DOMAIN (rid r) ?I,
                RESCTRL_ONLINE_CTRL_DOMAIN (rid r) ?I,
                LIST_DEL_RCU RESCTRL_CTRL_DOMAIN (rid r) ?I,
                SYNCHRONIZE_RCU,
                CTRL_DOMAIN_FREE (rid r) ?I])"
      proof (intro allI impI)
        fix r' k'
        assume res: "domain_add_cpu_ctrl e cpu r k = Some (r', k')"
        then obtain k2 where
          k2: "call_msr_update (msr_update r) ?m (rdt_domain_reconfigure_cdp r k) = Some k2"
          unfolding domain_add_cpu_ctrl_new [OF id nf az am]
          by (cases "call_msr_update (msr_update r) ?m (rdt_domain_reconfigure_cdp r k)") simp_all
        from res have rr: "r' = r" and tt: "trace k' = trace k2 @
               [LIST_ADD_TAIL_RCU RESCTRL_CTRL_DOMAIN (rid r) ?I,
                RESCTRL_ONLINE_CTRL_DOMAIN (rid r) ?I,
                LIST_DEL_RCU RESCTRL_CTRL_DOMAIN (rid r) ?I,
                SYNCHRONIZE_RCU,
                CTRL_DOMAIN_FREE (rid r) ?I]"
          unfolding domain_add_cpu_ctrl_new [OF id nf az am] k2
          using hk pos
          by (auto simp: Let_def list_del_add_same ctrl_domain_free_def emit_def)
        show "r' = r \<and>
            (\<exists>k2.
               call_msr_update (msr_update r) ?m (rdt_domain_reconfigure_cdp r k) = Some k2 \<and>
               trace k' = trace k2 @
               [LIST_ADD_TAIL_RCU RESCTRL_CTRL_DOMAIN (rid r) ?I,
                RESCTRL_ONLINE_CTRL_DOMAIN (rid r) ?I,
                LIST_DEL_RCU RESCTRL_CTRL_DOMAIN (rid r) ?I,
                SYNCHRONIZE_RCU,
                CTRL_DOMAIN_FREE (rid r) ?I])"
          using rr k2 tt by blast
      qed
      {
        assume "msr_update r \<noteq> None"
        then obtain f where f: "msr_update r = Some f"
          by auto
        have "unat (high ?m) \<le> length (ctrl_val (dom ?m))"
          by simp
        from call_msr_update_returns [OF this, of f "rdt_domain_reconfigure_cdp r k"]
        obtain k2 where "call_msr_update (Some f) ?m (rdt_domain_reconfigure_cdp r k) = Some k2"
          by blast
        then show "domain_add_cpu_ctrl e cpu r k \<noteq> None"
          unfolding domain_add_cpu_ctrl_new [OF id nf az am] f
          by (simp add: Let_def)
      }
    }
    show "\<forall>r' k'. domain_add_cpu_ctrl e cpu r k = Some (r', k') \<longrightarrow>
         r' = r \<or>
         (kzalloc_ctrl_dom_ok e (rid r) \<and> kmalloc_ctrl_val_ok e (rid r) \<and>
          resctrl_online_ctrl_domain e (rid r) ?I = 0 \<and>
          r' = r\<lparr>ctrl_domains := list_add_tail_rcu ?d pos (ctrl_domains r)\<rparr>)"
    proof (intro allI impI)
      fix r' k'
      assume res: "domain_add_cpu_ctrl e cpu r k = Some (r', k')"
      show "r' = r \<or>
         (kzalloc_ctrl_dom_ok e (rid r) \<and> kmalloc_ctrl_val_ok e (rid r) \<and>
          resctrl_online_ctrl_domain e (rid r) ?I = 0 \<and>
          r' = r\<lparr>ctrl_domains := list_add_tail_rcu ?d pos (ctrl_domains r)\<rparr>)"
      proof (cases "kzalloc_ctrl_dom_ok e (rid r)")
        case False
        with res domain_add_cpu_ctrl_no_dom [OF id nf, of k] show ?thesis
          by simp
      next
        case az: True
        show ?thesis
        proof (cases "kmalloc_ctrl_val_ok e (rid r)")
          case False
          with res domain_add_cpu_ctrl_nomem [OF id nf az, of k] show ?thesis
            by simp
        next
          case am: True
          from res obtain k2 where
            k2: "call_msr_update (msr_update r) ?m (rdt_domain_reconfigure_cdp r k) = Some k2"
            unfolding domain_add_cpu_ctrl_new [OF id nf az am]
            by (cases "call_msr_update (msr_update r) ?m (rdt_domain_reconfigure_cdp r k)")
              simp_all
          from res show ?thesis
            unfolding domain_add_cpu_ctrl_new [OF id nf az am] k2
            using az am pos
            by (cases "resctrl_online_ctrl_domain e (rid r) ?I = 0")
              (auto simp: Let_def list_del_add_same)
        qed
      qed
    qed
    {
      assume "id_ordered (ctrl_domains r)"
      then show "?I \<notin> hdr_id ` set (ctrl_domains r)"
        using nf by (rule resctrl_find_domain_None_absent)
    }
  }
  let ?J = "get_domain_id_from_scope e cpu (mon_scope r)"
  let ?dm = "\<lparr> hdr_id = ?J, hdr_type = RESCTRL_MON_DOMAIN, cpu_mask = {cpu}, ci_id = c,
                arch_mbm_total = None, arch_mbm_local = None \<rparr>"
  let ?fail = "(resctrl_arch_is_mbm_total_enabled e \<and> \<not> kcalloc_mbm_total_ok e (rid r)) \<or>
       (resctrl_arch_is_mbm_local_enabled e \<and> \<not> kcalloc_mbm_local_ok e (rid r))"
  {
    assume id: "0 \<le> ?J" and nf: "resctrl_find_domain (mon_domains r) ?J 0 = (None, posm)"
      and az: "kzalloc_mon_dom_ok e (rid r)"
      and ci: "get_cpu_cacheinfo_level e cpu RESCTRL_L3_CACHE = Some c"
    from resctrl_find_domain_None0 [OF nf] have pos: "posm \<le> length (mon_domains r)" .
    obtain ret d3 where al: "arch_domain_mbm_alloc e (rid r) (num_rmid r) ?dm = (ret, d3)"
      by (cases "arch_domain_mbm_alloc e (rid r) (num_rmid r) ?dm")
    from arch_domain_mbm_alloc_result [OF al]
    have ret: "ret = (if ?fail then - ENOMEM else 0)"
      by simp
    {
      assume "?fail"
      with ret have "ret \<noteq> 0"
        by (simp add: ENOMEM_def)
      then show "domain_add_cpu_mon e cpu r k =
           (r, k\<lparr>trace := trace k @
                 [ARCH_MON_DOMAIN_ONLINE (rid r) ?J, MON_DOMAIN_FREE (rid r) ?J]\<rparr>)"
        unfolding domain_add_cpu_mon_new [OF id nf az ci al]
        by (simp add: Let_def emit_def)
    }
    {
      assume "\<not> ?fail" and hk: "resctrl_online_mon_domain e (rid r) ?J \<noteq> 0"
      with ret have "ret = 0"
        by simp
      then show "domain_add_cpu_mon e cpu r k =
           (r, k\<lparr>trace := trace k @
                 [ARCH_MON_DOMAIN_ONLINE (rid r) ?J,
                  LIST_ADD_TAIL_RCU RESCTRL_MON_DOMAIN (rid r) ?J,
                  RESCTRL_ONLINE_MON_DOMAIN (rid r) ?J,
                  LIST_DEL_RCU RESCTRL_MON_DOMAIN (rid r) ?J,
                  SYNCHRONIZE_RCU,
                  MON_DOMAIN_FREE (rid r) ?J]\<rparr>)"
        unfolding domain_add_cpu_mon_new [OF id nf az ci al]
        using hk pos by (simp add: Let_def emit_def list_del_add_same)
    }
    {
      assume "id_ordered (mon_domains r)"
      then show "?J \<notin> hdr_id ` set (mon_domains r)"
        using nf by (rule resctrl_find_domain_None_absent)
    }
  }
qed

theorem domain_add_cpu_rollback_witness:
  "map_option fst (domain_add_cpu_ctrl env_hook_fails 0 l3_example kstate_empty)
     = Some l3_example \<and>
   map_option fst (domain_add_cpu_ctrl env_nomem 0 l3_example kstate_empty) = Some l3_example \<and>
   fst (domain_add_cpu_mon env_hook_fails 0 l3_example kstate_empty) = l3_example \<and>
   fst (domain_add_cpu_mon env_nomem 0 l3_example kstate_empty) = l3_example \<and>
   (0 :: int) \<notin> hdr_id ` set (ctrl_domains l3_example)"
proof -
  have sc: "ctrl_scope l3_example = RESCTRL_L3_CACHE" "mon_scope l3_example = RESCTRL_L3_CACHE"
    "rid l3_example = 0" "ctrl_domains l3_example = []" "mon_domains l3_example = []"
    "msr_update l3_example \<noteq> None"
    by (simp_all add: l3_example_def rdt_resources_all_init_def RDT_RESOURCE_L3_def
        rdt_hw_resource_zero_def)
  have gh: "get_domain_id_from_scope env_hook_fails 0 RESCTRL_L3_CACHE = 0"
    and gn: "get_domain_id_from_scope env_nomem 0 RESCTRL_L3_CACHE = 0"
    by (simp_all add: get_domain_id_from_scope_def env_hook_fails_def env_nomem_def
        env_example_def)
  have eh: "kzalloc_ctrl_dom_ok env_hook_fails 0" "kmalloc_ctrl_val_ok env_hook_fails 0"
    "resctrl_online_ctrl_domain env_hook_fails 0 0 \<noteq> 0"
    "kzalloc_mon_dom_ok env_hook_fails 0"
    "get_cpu_cacheinfo_level env_hook_fails 0 RESCTRL_L3_CACHE = Some 0"
    "\<not> ((resctrl_arch_is_mbm_total_enabled env_hook_fails \<and> \<not> kcalloc_mbm_total_ok env_hook_fails 0) \<or>
        (resctrl_arch_is_mbm_local_enabled env_hook_fails \<and> \<not> kcalloc_mbm_local_ok env_hook_fails 0))"
    "resctrl_online_mon_domain env_hook_fails 0 0 \<noteq> 0"
    by (simp_all add: env_hook_fails_def env_example_def)
  have en: "kzalloc_ctrl_dom_ok env_nomem 0" "\<not> kmalloc_ctrl_val_ok env_nomem 0"
    "kzalloc_mon_dom_ok env_nomem 0"
    "get_cpu_cacheinfo_level env_nomem 0 RESCTRL_L3_CACHE = Some 0"
    "(resctrl_arch_is_mbm_total_enabled env_nomem \<and> \<not> kcalloc_mbm_total_ok env_nomem 0) \<or>
     (resctrl_arch_is_mbm_local_enabled env_nomem \<and> \<not> kcalloc_mbm_local_ok env_nomem 0)"
    by (simp_all add: env_nomem_def env_example_def)
  have le: "(0 :: int) \<le> 0" and ord: "id_ordered ([] :: rdt_ctrl_domain list)"
    and nfc: "resctrl_find_domain ([] :: rdt_ctrl_domain list) 0 0 = (None, 0)"
    and nfm: "resctrl_find_domain ([] :: rdt_mon_domain list) 0 0 = (None, 0)"
    by (simp_all add: id_ordered_def)
  note th = domain_add_cpu_rollback [where cpu = 0 and r = l3_example and pos = 0
      and k = kstate_empty and posm = 0 and c = 0, unfolded sc]
  note h = th [where e = env_hook_fails, unfolded gh]
  note n = th [where e = env_nomem, unfolded gn]
  have a: "\<forall>r' k'. domain_add_cpu_ctrl env_hook_fails 0 l3_example kstate_empty = Some (r', k') \<longrightarrow>
       r' = l3_example"
    using h le nfc eh(1-3) by blast
  have b: "domain_add_cpu_ctrl env_hook_fails 0 l3_example kstate_empty \<noteq> None"
    using h le nfc eh(1-3) sc(6) by blast
  obtain x where "domain_add_cpu_ctrl env_nomem 0 l3_example kstate_empty = Some (l3_example, x)"
    using n le nfc en(1-2) by blast
  then have c: "map_option fst (domain_add_cpu_ctrl env_nomem 0 l3_example kstate_empty)
                  = Some l3_example"
    by simp
  obtain y where "domain_add_cpu_mon env_hook_fails 0 l3_example kstate_empty = (l3_example, y)"
    using h le nfm eh(4-7) by blast
  then have d: "fst (domain_add_cpu_mon env_hook_fails 0 l3_example kstate_empty) = l3_example"
    by simp
  obtain z where "domain_add_cpu_mon env_nomem 0 l3_example kstate_empty = (l3_example, z)"
    using n le nfm en(3-5) by blast
  then have e: "fst (domain_add_cpu_mon env_nomem 0 l3_example kstate_empty) = l3_example"
    by simp
  have f: "(0 :: int) \<notin> hdr_id ` set (ctrl_domains l3_example)"
    unfolding sc using h le nfc ord by blast
  from b obtain r' k' where
    res: "domain_add_cpu_ctrl env_hook_fails 0 l3_example kstate_empty = Some (r', k')"
    by auto
  with a have "r' = l3_example"
    by blast
  with res have ab: "map_option fst (domain_add_cpu_ctrl env_hook_fails 0 l3_example kstate_empty)
                       = Some l3_example"
    by simp
  from ab c d e f show ?thesis
    by (intro conjI)
qed

subsection \<open>Domains and their member cores\<close>


lemma list_del_rcu_update: "list_del_rcu i (ds[i := d]) = list_del_rcu i ds"
  by (simp add: list_del_rcu_def)





lemma domain_remove_cpu_ctrl_found:
  assumes id: "0 \<le> get_domain_id_from_scope e cpu (ctrl_scope r)"
    and f: "resctrl_find_domain (ctrl_domains r) (get_domain_id_from_scope e cpu (ctrl_scope r)) 0
              = (Some i, p)"
    and ty: "hdr_type (ctrl_domains r ! i) = RESCTRL_CTRL_DOMAIN"
  shows "domain_remove_cpu_ctrl e cpu r k =
    (if cpu_mask (ctrl_domains r ! i) - {cpu} = {} then
       (r\<lparr>ctrl_domains := list_del_rcu i (ctrl_domains r)\<rparr>,
        k\<lparr>trace := trace k @
             [RESCTRL_OFFLINE_CTRL_DOMAIN (rid r) (get_domain_id_from_scope e cpu (ctrl_scope r)),
              LIST_DEL_RCU RESCTRL_CTRL_DOMAIN (rid r)
                (get_domain_id_from_scope e cpu (ctrl_scope r)),
              SYNCHRONIZE_RCU] @
             (case plr (ctrl_domains r ! i) of None \<Rightarrow> [] | Some q \<Rightarrow> [PLR_CLEAR_D q]) @
             [CTRL_DOMAIN_FREE (rid r) (get_domain_id_from_scope e cpu (ctrl_scope r))]\<rparr>)
     else
       (r\<lparr>ctrl_domains := (ctrl_domains r)
            [i := (ctrl_domains r ! i)\<lparr>cpu_mask := cpu_mask (ctrl_domains r ! i) - {cpu}\<rparr>]\<rparr>,
        k))"
proof -
  have neg: "\<not> get_domain_id_from_scope e cpu (ctrl_scope r) < 0"
    using id by simp
  from resctrl_find_domain_Some0 [OF f]
  have hid: "hdr_id (ctrl_domains r ! i) = get_domain_id_from_scope e cpu (ctrl_scope r)"
    by simp
  show ?thesis
    unfolding domain_remove_cpu_ctrl_def Let_def
    by (simp only: neg if_False f fst_conv option.case)
      (simp add: WARN_ON_ONCE_def ty cpumask_clear_cpu_def cpumask_empty_def
        list_del_rcu_update ctrl_domain_free_def emit_def hid split: option.splits)
qed

lemma domain_remove_cpu_mon_found:
  assumes id: "0 \<le> get_domain_id_from_scope e cpu (mon_scope r)"
    and f: "resctrl_find_domain (mon_domains r) (get_domain_id_from_scope e cpu (mon_scope r)) 0
              = (Some i, p)"
    and ty: "hdr_type (mon_domains r ! i) = RESCTRL_MON_DOMAIN"
  shows "domain_remove_cpu_mon e cpu r k =
    (if cpu_mask (mon_domains r ! i) - {cpu} = {} then
       (r\<lparr>mon_domains := list_del_rcu i (mon_domains r)\<rparr>,
        k\<lparr>trace := trace k @
             [RESCTRL_OFFLINE_MON_DOMAIN (rid r) (get_domain_id_from_scope e cpu (mon_scope r)),
              LIST_DEL_RCU RESCTRL_MON_DOMAIN (rid r)
                (get_domain_id_from_scope e cpu (mon_scope r)),
              SYNCHRONIZE_RCU,
              MON_DOMAIN_FREE (rid r) (get_domain_id_from_scope e cpu (mon_scope r))]\<rparr>)
     else
       (r\<lparr>mon_domains := (mon_domains r)
            [i := (mon_domains r ! i)\<lparr>cpu_mask := cpu_mask (mon_domains r ! i) - {cpu}\<rparr>]\<rparr>,
        k))"
proof -
  have neg: "\<not> get_domain_id_from_scope e cpu (mon_scope r) < 0"
    using id by simp
  from resctrl_find_domain_Some0 [OF f]
  have hid: "hdr_id (mon_domains r ! i) = get_domain_id_from_scope e cpu (mon_scope r)"
    by simp
  show ?thesis
    unfolding domain_remove_cpu_mon_def Let_def
    by (simp only: neg if_False f fst_conv option.case)
      (simp add: WARN_ON_ONCE_def ty cpumask_clear_cpu_def cpumask_empty_def
        list_del_rcu_update mon_domain_free_def emit_def hid)
qed







lemma domain_add_cpu_mon_found:
  assumes id: "0 \<le> get_domain_id_from_scope e cpu (mon_scope r)"
    and f: "resctrl_find_domain (mon_domains r) (get_domain_id_from_scope e cpu (mon_scope r)) 0
              = (Some i, p)"
  shows "domain_add_cpu_mon e cpu r k =
    (if hdr_type (mon_domains r ! i) \<noteq> RESCTRL_MON_DOMAIN
     then (r, pr_warn_once WARN_ADD_MON_TYPE k)
     else (r\<lparr>mon_domains := (mon_domains r)
              [i := (mon_domains r ! i)
                 \<lparr>cpu_mask := insert cpu (cpu_mask (mon_domains r ! i))\<rparr>]\<rparr>, k))"
proof -
  have neg: "\<not> get_domain_id_from_scope e cpu (mon_scope r) < 0"
    using id by simp
  show ?thesis
    unfolding domain_add_cpu_mon_def Let_def
    by (simp only: neg if_False f prod.case option.case)
      (simp add: WARN_ON_ONCE_def cpumask_set_cpu_def)
qed




subsection \<open>What the registry adds to the trace\<close>

lemma extends_with_iff:
  "extends_with P k k' \<longleftrightarrow> (\<exists>evs. trace k' = trace k @ evs \<and> list_all P evs)"
proof
  assume "extends_with P k k'"
  then have "trace k' = trace k @ drop (length (trace k)) (trace k')"
    and "list_all P (drop (length (trace k)) (trace k'))"
    by (simp_all add: extends_with_def) (metis append_take_drop_id)
  then show "\<exists>evs. trace k' = trace k @ evs \<and> list_all P evs"
    by blast
next
  assume "\<exists>evs. trace k' = trace k @ evs \<and> list_all P evs"
  then show "extends_with P k k'"
    by (auto simp: extends_with_def)
qed

lemma extends_with_refl: "extends_with P k k"
  by (simp add: extends_with_def)

lemma extends_with_trans:
  assumes "extends_with P k k1" and "extends_with P k1 k2"
  shows "extends_with P k k2"
proof -
  from assms obtain e1 e2 where "trace k1 = trace k @ e1" "list_all P e1"
    "trace k2 = trace k1 @ e2" "list_all P e2"
    unfolding extends_with_iff by blast
  then have "trace k2 = trace k @ (e1 @ e2) \<and> list_all P (e1 @ e2)"
    by simp
  then show ?thesis
    unfolding extends_with_iff by blast
qed

lemma extends_with_trace:
  "trace k' = trace k @ evs \<Longrightarrow> list_all P evs \<Longrightarrow> extends_with P k k'"
  unfolding extends_with_iff by blast

lemma extends_with_emit: "P ev \<Longrightarrow> extends_with P k (emit ev k)"
  by (simp add: extends_with_def emit_def)

lemma extends_with_emit_after:
  "extends_with P k k1 \<Longrightarrow> P ev \<Longrightarrow> extends_with P k (emit ev k1)"
  by (rule extends_with_trans [OF _ extends_with_emit])

lemma extends_pr_warn_once: "extends_with domain_event k (pr_warn_once site k)"
  by (simp add: pr_warn_once_def extends_with_def emit_def)

lemma extends_pr_warn: "extends_with domain_event k (pr_warn site k)"
  by (simp add: pr_warn_def extends_with_emit)

lemma extends_wrmsrq: "extends_with domain_event k (wrmsrq msr val k)"
  by (simp add: wrmsrq_def extends_with_emit)

lemma extends_delay_bw_map: "extends_with domain_event k (snd (delay_bw_map bw r k))"
  by (simp add: delay_bw_map_def extends_with_refl extends_pr_warn_once)

lemma extends_cat_wrmsr_loop:
  "cat_wrmsr_loop r d is k = Some k' \<Longrightarrow> extends_with domain_event k k'"
proof (induction "is" arbitrary: k)
  case Nil
  then show ?case by (simp add: extends_with_refl)
next
  case (Cons i "is")
  then have "cat_wrmsr_loop r d is (wrmsrq (msr_base r + of_nat i) (ucast (ctrl_val d ! i)) k)
               = Some k'"
    by (simp split: if_splits)
  from extends_with_trans [OF extends_wrmsrq Cons.IH [OF this]] show ?case .
qed

lemma extends_mba_wrmsr_amd_loop:
  "mba_wrmsr_amd_loop r d is k = Some k' \<Longrightarrow> extends_with domain_event k k'"
proof (induction "is" arbitrary: k)
  case Nil
  then show ?case by (simp add: extends_with_refl)
next
  case (Cons i "is")
  then have "mba_wrmsr_amd_loop r d is (wrmsrq (msr_base r + of_nat i) (ucast (ctrl_val d ! i)) k)
               = Some k'"
    by (simp split: if_splits)
  from extends_with_trans [OF extends_wrmsrq Cons.IH [OF this]] show ?case .
qed

lemma extends_mba_wrmsr_intel_loop:
  "mba_wrmsr_intel_loop r d is k = Some k' \<Longrightarrow> extends_with domain_event k k'"
proof (induction "is" arbitrary: k)
  case Nil
  then show ?case by (simp add: extends_with_refl)
next
  case (Cons i "is")
  obtain delay k1 where dm: "delay_bw_map (ucast (ctrl_val d ! i)) r k = (delay, k1)"
    by (cases "delay_bw_map (ucast (ctrl_val d ! i)) r k")
  with Cons.prems
  have rec: "mba_wrmsr_intel_loop r d is (wrmsrq (msr_base r + of_nat i) (ucast delay) k1) = Some k'"
    by (simp split: if_splits)
  from extends_delay_bw_map [of k "ucast (ctrl_val d ! i)" r] dm
  have "extends_with domain_event k k1"
    by simp
  from extends_with_trans [OF extends_with_trans [OF this extends_wrmsrq] Cons.IH [OF rec]]
  show ?case .
qed

lemma extends_call_msr_update:
  "call_msr_update f m k = Some k' \<Longrightarrow> extends_with domain_event k k'"
proof (cases f)
  case None
  assume "call_msr_update f m k = Some k'"
  with None show ?thesis
    by (simp add: call_msr_update_def)
next
  case (Some g)
  assume c: "call_msr_update f m k = Some k'"
  show ?thesis
  proof (cases g)
    case CAT_WRMSR
    with c Some show ?thesis
      by (simp add: call_msr_update_def cat_wrmsr_def extends_cat_wrmsr_loop)
  next
    case MBA_WRMSR_INTEL
    with c Some show ?thesis
      by (simp add: call_msr_update_def mba_wrmsr_intel_def extends_mba_wrmsr_intel_loop)
  next
    case MBA_WRMSR_AMD
    with c Some show ?thesis
      by (simp add: call_msr_update_def mba_wrmsr_amd_def extends_mba_wrmsr_amd_loop)
  qed
qed

lemma extends_domain_add_cpu_ctrl:
  assumes res: "domain_add_cpu_ctrl e cpu r k = Some (r', k')"
  shows "extends_with domain_event k k'"
proof (cases "0 \<le> get_domain_id_from_scope e cpu (ctrl_scope r)")
  case False
  with res have "k' = pr_warn_once WARN_ADD_CTRL_ID k"
    by (simp add: domain_add_cpu_ctrl_def)
  then show ?thesis
    by (simp add: extends_pr_warn_once)
next
  case id: True
  let ?I = "get_domain_id_from_scope e cpu (ctrl_scope r)"
  show ?thesis
  proof (cases "resctrl_find_domain (ctrl_domains r) ?I 0")
    case (Pair a p)
    show ?thesis
    proof (cases a)
      case (Some i)
      with Pair have f: "resctrl_find_domain (ctrl_domains r) ?I 0 = (Some i, p)"
        by simp
      from res have "k' = pr_warn_once WARN_ADD_CTRL_TYPE k \<or>
          k' = emit (RDT_DOMAIN_RECONFIGURE_CDP (rid r)) k \<or> k' = k"
        unfolding domain_add_cpu_ctrl_found [OF id f]
        by (auto split: if_splits)
      then show ?thesis
        by (auto simp: extends_pr_warn_once extends_with_emit extends_with_refl)
    next
      case None
      with Pair have nf: "resctrl_find_domain (ctrl_domains r) ?I 0 = (None, p)"
        by simp
      show ?thesis
      proof (cases "kzalloc_ctrl_dom_ok e (rid r)")
        case False
        with res domain_add_cpu_ctrl_no_dom [OF id nf, of k] show ?thesis
          by (simp add: extends_with_refl)
      next
        case az: True
        show ?thesis
        proof (cases "kmalloc_ctrl_val_ok e (rid r)")
          case False
          from res have "trace k' = trace k @
                 [RDT_DOMAIN_RECONFIGURE_CDP (rid r), CTRL_DOMAIN_FREE (rid r) ?I]"
            unfolding domain_add_cpu_ctrl_nomem [OF id nf az False] by auto
          then show ?thesis
            by (rule extends_with_trace) simp
        next
          case am: True
          let ?m = "\<lparr> res = r,
              dom = \<lparr> hdr_id = ?I, hdr_type = RESCTRL_CTRL_DOMAIN, cpu_mask = {cpu}, plr = None,
                      ctrl_val = replicate (unat (num_closid r)) (resctrl_get_default_ctrl r) \<rparr>,
              low = 0, high = num_closid r \<rparr>"
          from res obtain k2 where
            k2: "call_msr_update (msr_update r) ?m (rdt_domain_reconfigure_cdp r k) = Some k2"
            unfolding domain_add_cpu_ctrl_new [OF id nf az am]
            by (cases "call_msr_update (msr_update r) ?m (rdt_domain_reconfigure_cdp r k)")
              simp_all
          have "extends_with domain_event k (rdt_domain_reconfigure_cdp r k)"
            by (simp add: rdt_domain_reconfigure_cdp_def extends_with_emit)
          from extends_with_trans [OF this extends_call_msr_update [OF k2]]
          have e2: "extends_with domain_event k k2" .
          from res have "\<exists>evs. trace k' = trace k2 @ evs \<and> list_all domain_event evs"
            unfolding domain_add_cpu_ctrl_new [OF id nf az am] k2
            by (cases "resctrl_online_ctrl_domain e (rid r) ?I = 0")
              (auto simp: Let_def emit_def ctrl_domain_free_def)
          then have "extends_with domain_event k2 k'"
            unfolding extends_with_iff .
          from extends_with_trans [OF e2 this] show ?thesis .
        qed
      qed
    qed
  qed
qed

lemma extends_domain_add_cpu_mon:
  "extends_with domain_event k (snd (domain_add_cpu_mon e cpu r k))"
proof (cases "0 \<le> get_domain_id_from_scope e cpu (mon_scope r)")
  case False
  then have "snd (domain_add_cpu_mon e cpu r k) = pr_warn_once WARN_ADD_MON_ID k"
    by (simp add: domain_add_cpu_mon_def)
  then show ?thesis
    by (simp add: extends_pr_warn_once)
next
  case id: True
  let ?J = "get_domain_id_from_scope e cpu (mon_scope r)"
  have neg: "\<not> ?J < 0"
    using id by simp
  show ?thesis
  proof (cases "resctrl_find_domain (mon_domains r) ?J 0")
    case (Pair a p)
    show ?thesis
    proof (cases a)
      case (Some i)
      with Pair have f: "resctrl_find_domain (mon_domains r) ?J 0 = (Some i, p)"
        by simp
      show ?thesis
        unfolding domain_add_cpu_mon_found [OF id f]
        by (simp add: extends_pr_warn_once extends_with_refl)
    next
      case None
      with Pair have nf: "resctrl_find_domain (mon_domains r) ?J 0 = (None, p)"
        by simp
      show ?thesis
      proof (cases "kzalloc_mon_dom_ok e (rid r)")
        case False
        then have "domain_add_cpu_mon e cpu r k = (r, k)"
          unfolding domain_add_cpu_mon_def Let_def
          by (simp only: neg if_False nf prod.case option.case not_False_eq_True if_True)
        then show ?thesis
          by (simp add: extends_with_refl)
      next
        case az: True
        show ?thesis
        proof (cases "get_cpu_cacheinfo_level e cpu RESCTRL_L3_CACHE")
          case None
          have "snd (domain_add_cpu_mon e cpu r k) =
                  emit (MON_DOMAIN_FREE (rid r) ?J) (pr_warn_once WARN_ADD_MON_L3 k)"
            unfolding domain_add_cpu_mon_def Let_def
            by (simp only: neg if_False nf prod.case option.case az not_True_eq_False None
                snd_conv mon_domain_free_def)
              simp
          then show ?thesis
            by (simp add: extends_with_emit_after [OF extends_pr_warn_once])
        next
          case (Some c)
          obtain ret d3 where al: "arch_domain_mbm_alloc e (rid r) (num_rmid r)
               \<lparr> hdr_id = ?J, hdr_type = RESCTRL_MON_DOMAIN, cpu_mask = {cpu}, ci_id = c,
                 arch_mbm_total = None, arch_mbm_local = None \<rparr> = (ret, d3)"
            by (cases "arch_domain_mbm_alloc e (rid r) (num_rmid r)
               \<lparr> hdr_id = ?J, hdr_type = RESCTRL_MON_DOMAIN, cpu_mask = {cpu}, ci_id = c,
                 arch_mbm_total = None, arch_mbm_local = None \<rparr>")
          have "\<exists>evs. trace (snd (domain_add_cpu_mon e cpu r k)) = trace k @ evs \<and>
                  list_all domain_event evs"
            unfolding domain_add_cpu_mon_new [OF id nf az Some al]
            by (cases "ret = 0"; cases "resctrl_online_mon_domain e (rid r) ?J = 0")
              (simp_all add: Let_def emit_def)
          then show ?thesis
            unfolding extends_with_iff .
        qed
      qed
    qed
  qed
qed

lemma extends_domain_remove_cpu_ctrl:
  "extends_with domain_event k (snd (domain_remove_cpu_ctrl e cpu r k))"
proof (cases "0 \<le> get_domain_id_from_scope e cpu (ctrl_scope r)")
  case False
  then show ?thesis
    by (simp add: domain_remove_cpu_ctrl_def extends_pr_warn_once)
next
  case id: True
  let ?I = "get_domain_id_from_scope e cpu (ctrl_scope r)"
  show ?thesis
  proof (cases "resctrl_find_domain (ctrl_domains r) ?I 0")
    case (Pair a p)
    show ?thesis
    proof (cases a)
      case None
      with Pair id show ?thesis
        by (simp add: domain_remove_cpu_ctrl_def extends_pr_warn)
    next
      case (Some i)
      with Pair have f: "resctrl_find_domain (ctrl_domains r) ?I 0 = (Some i, p)"
        by simp
      show ?thesis
      proof (cases "hdr_type (ctrl_domains r ! i) = RESCTRL_CTRL_DOMAIN")
        case False
        with f id show ?thesis
          by (simp add: domain_remove_cpu_ctrl_def WARN_ON_ONCE_def extends_pr_warn_once)
      next
        case True
        have "\<exists>evs. trace (snd (domain_remove_cpu_ctrl e cpu r k)) = trace k @ evs \<and>
                list_all domain_event evs"
          unfolding domain_remove_cpu_ctrl_found [OF id f True]
          by (simp split: option.splits)
        then show ?thesis
          unfolding extends_with_iff .
      qed
    qed
  qed
qed

lemma extends_domain_remove_cpu_mon:
  "extends_with domain_event k (snd (domain_remove_cpu_mon e cpu r k))"
proof (cases "0 \<le> get_domain_id_from_scope e cpu (mon_scope r)")
  case False
  then show ?thesis
    by (simp add: domain_remove_cpu_mon_def extends_pr_warn_once)
next
  case id: True
  let ?J = "get_domain_id_from_scope e cpu (mon_scope r)"
  show ?thesis
  proof (cases "resctrl_find_domain (mon_domains r) ?J 0")
    case (Pair a p)
    show ?thesis
    proof (cases a)
      case None
      with Pair id show ?thesis
        by (simp add: domain_remove_cpu_mon_def extends_pr_warn)
    next
      case (Some i)
      with Pair have f: "resctrl_find_domain (mon_domains r) ?J 0 = (Some i, p)"
        by simp
      show ?thesis
      proof (cases "hdr_type (mon_domains r ! i) = RESCTRL_MON_DOMAIN")
        case False
        with f id show ?thesis
          by (simp add: domain_remove_cpu_mon_def WARN_ON_ONCE_def extends_pr_warn_once)
      next
        case True
        have "\<exists>evs. trace (snd (domain_remove_cpu_mon e cpu r k)) = trace k @ evs \<and>
                list_all domain_event evs"
          unfolding domain_remove_cpu_mon_found [OF id f True]
          by simp
        then show ?thesis
          unfolding extends_with_iff .
      qed
    qed
  qed
qed

subsection \<open>Hotplug handlers\<close>

lemma extends_domain_add_cpu:
  assumes "domain_add_cpu e cpu r k = Some (r', k')"
  shows "extends_with domain_event k k'"
proof -
  from assms obtain r1 k1 where
    c: "(if alloc_capable r then domain_add_cpu_ctrl e cpu r k else Some (r, k)) = Some (r1, k1)"
    and m: "(r', k') = (if mon_capable r1 then domain_add_cpu_mon e cpu r1 k1 else (r1, k1))"
    by (auto simp: domain_add_cpu_def split: option.splits)
  from c have e1: "extends_with domain_event k k1"
    by (cases "alloc_capable r") (auto simp: extends_with_refl dest: extends_domain_add_cpu_ctrl)
  from m have "k' = snd (if mon_capable r1 then domain_add_cpu_mon e cpu r1 k1 else (r1, k1))"
    by (metis snd_conv)
  then have "k' = (if mon_capable r1 then snd (domain_add_cpu_mon e cpu r1 k1) else k1)"
    by simp
  then have "extends_with domain_event k1 k'"
    by (simp add: extends_with_refl extends_domain_add_cpu_mon)
  from extends_with_trans [OF e1 this] show ?thesis .
qed

lemma extends_domain_remove_cpu:
  "extends_with domain_event k (snd (domain_remove_cpu e cpu r k))"
proof -
  obtain r1 k1 where
    c: "(if alloc_capable r then domain_remove_cpu_ctrl e cpu r k else (r, k)) = (r1, k1)"
    by (cases "if alloc_capable r then domain_remove_cpu_ctrl e cpu r k else (r, k)")
  then have "k1 = (if alloc_capable r then snd (domain_remove_cpu_ctrl e cpu r k) else k)"
    by (cases "alloc_capable r") auto
  then have e1: "extends_with domain_event k k1"
    by (simp add: extends_with_refl extends_domain_remove_cpu_ctrl)
  have "snd (domain_remove_cpu e cpu r k) =
      (if mon_capable r1 then snd (domain_remove_cpu_mon e cpu r1 k1) else k1)"
    by (simp add: domain_remove_cpu_def c)
  then have "extends_with domain_event k1 (snd (domain_remove_cpu e cpu r k))"
    by (simp add: extends_with_refl extends_domain_remove_cpu_mon)
  from extends_with_trans [OF e1 this] show ?thesis .
qed

lemma domain_add_cpu_ctrl_returns:
  assumes upd: "msr_update r \<noteq> None"
  shows "domain_add_cpu_ctrl e cpu r k \<noteq> None"
proof (cases "0 \<le> get_domain_id_from_scope e cpu (ctrl_scope r)")
  case False
  then show ?thesis
    by (simp add: domain_add_cpu_ctrl_def)
next
  case id: True
  let ?I = "get_domain_id_from_scope e cpu (ctrl_scope r)"
  show ?thesis
  proof (cases "resctrl_find_domain (ctrl_domains r) ?I 0")
    case (Pair a p)
    show ?thesis
    proof (cases a)
      case (Some i)
      with Pair have f: "resctrl_find_domain (ctrl_domains r) ?I 0 = (Some i, p)"
        by simp
      show ?thesis
        unfolding domain_add_cpu_ctrl_found [OF id f] by simp
    next
      case None
      with Pair have nf: "resctrl_find_domain (ctrl_domains r) ?I 0 = (None, p)"
        by simp
      show ?thesis
      proof (cases "kzalloc_ctrl_dom_ok e (rid r)")
        case False
        with domain_add_cpu_ctrl_no_dom [OF id nf, of k] show ?thesis
          by simp
      next
        case az: True
        show ?thesis
        proof (cases "kmalloc_ctrl_val_ok e (rid r)")
          case False
          show ?thesis
            unfolding domain_add_cpu_ctrl_nomem [OF id nf az False] by simp
        next
          case am: True
          let ?m = "\<lparr> res = r,
              dom = \<lparr> hdr_id = ?I, hdr_type = RESCTRL_CTRL_DOMAIN, cpu_mask = {cpu}, plr = None,
                      ctrl_val = replicate (unat (num_closid r)) (resctrl_get_default_ctrl r) \<rparr>,
              low = 0, high = num_closid r \<rparr>"
          from upd obtain f where f: "msr_update r = Some f"
            by auto
          have "unat (high ?m) \<le> length (ctrl_val (dom ?m))"
            by simp
          from call_msr_update_returns [OF this, of f "rdt_domain_reconfigure_cdp r k"]
          obtain k2 where "call_msr_update (Some f) ?m (rdt_domain_reconfigure_cdp r k) = Some k2"
            by blast
          then show ?thesis
            unfolding domain_add_cpu_ctrl_new [OF id nf az am] f
            by (simp add: Let_def)
        qed
      qed
    qed
  qed
qed

lemma domain_add_cpu_returns:
  "alloc_capable r \<longrightarrow> msr_update r \<noteq> None \<Longrightarrow> domain_add_cpu e cpu r k \<noteq> None"
  using domain_add_cpu_ctrl_returns [of r e cpu k]
  by (auto simp: domain_add_cpu_def split: option.splits)

lemma online_cpu_resources_returns:
  "\<forall>r \<in> set rs. alloc_capable r \<longrightarrow> msr_update r \<noteq> None \<Longrightarrow>
   online_cpu_resources e cpu rs k \<noteq> None"
proof (induction rs arbitrary: k)
  case Nil
  then show ?case by simp
next
  case (Cons r rs)
  from Cons.prems have h: "alloc_capable r \<longrightarrow> msr_update r \<noteq> None"
    and t: "\<forall>r \<in> set rs. alloc_capable r \<longrightarrow> msr_update r \<noteq> None"
    by simp_all
  from domain_add_cpu_returns [OF h, of e cpu k]
  obtain r1 k1 where
    a: "(if alloc_capable r \<or> mon_capable r then domain_add_cpu e cpu r k else Some (r, k))
          = Some (r1, k1)"
    by (cases "alloc_capable r \<or> mon_capable r") auto
  from Cons.IH [OF t, of k1] obtain rs1 k2 where "online_cpu_resources e cpu rs k1 = Some (rs1, k2)"
    by auto
  with a show ?case
    by simp
qed

lemma clear_closid_rmid_effect:
  assumes "clear_closid_rmid e cpu st k = (st', k')"
  shows "trace k' = trace k @
           [WRMSR MSR_IA32_PQR_ASSOC RESCTRL_RESERVED_RMID RESCTRL_RESERVED_CLOSID]"
    and "pqr_state st' (this_cpu e) =
           \<lparr> cur_rmid = RESCTRL_RESERVED_RMID, cur_closid = RESCTRL_RESERVED_CLOSID,
             default_rmid = RESCTRL_RESERVED_RMID, default_closid = RESCTRL_RESERVED_CLOSID \<rparr>"
    and "\<forall>c. c \<noteq> this_cpu e \<longrightarrow> pqr_state st' c = pqr_state st c"
    and "rdt_resources_all st' = rdt_resources_all st"
proof -
  from assms have st': "st' = st\<lparr>pqr_state := (pqr_state st)(this_cpu e :=
        (pqr_state st (this_cpu e))
          \<lparr> default_closid := RESCTRL_RESERVED_CLOSID, default_rmid := RESCTRL_RESERVED_RMID,
            cur_closid := RESCTRL_RESERVED_CLOSID, cur_rmid := RESCTRL_RESERVED_RMID \<rparr>)\<rparr>"
    and k': "k' = emit (WRMSR MSR_IA32_PQR_ASSOC RESCTRL_RESERVED_RMID RESCTRL_RESERVED_CLOSID) k"
    by (simp_all add: clear_closid_rmid_def Let_def)
  show "trace k' = trace k @
           [WRMSR MSR_IA32_PQR_ASSOC RESCTRL_RESERVED_RMID RESCTRL_RESERVED_CLOSID]"
    by (simp add: k' emit_def)
  show "pqr_state st' (this_cpu e) =
           \<lparr> cur_rmid = RESCTRL_RESERVED_RMID, cur_closid = RESCTRL_RESERVED_CLOSID,
             default_rmid = RESCTRL_RESERVED_RMID, default_closid = RESCTRL_RESERVED_CLOSID \<rparr>"
    unfolding st' by (cases "pqr_state st (this_cpu e)") simp
  show "\<forall>c. c \<noteq> this_cpu e \<longrightarrow> pqr_state st' c = pqr_state st c"
    unfolding st' by simp
  show "rdt_resources_all st' = rdt_resources_all st"
    unfolding st' by simp
qed

lemma resctrl_arch_online_cpu_returns:
  assumes "\<forall>r \<in> set (rdt_resources_all st). alloc_capable r \<longrightarrow> msr_update r \<noteq> None"
  shows "resctrl_arch_online_cpu e cpu st k \<noteq> None"
proof -
  from online_cpu_resources_returns [OF assms, of e cpu "emit MUTEX_LOCK k"]
  obtain rs k1 where
    "online_cpu_resources e cpu (rdt_resources_all st) (emit MUTEX_LOCK k) = Some (rs, k1)"
    by auto
  then show ?thesis
    by (simp add: resctrl_arch_online_cpu_def split: prod.splits)
qed

subsection \<open>A core joins: what the lists hold afterwards\<close>

lemma member_of_update:
  assumes "i < length ds" and "hdr_id (ds ! i) = I"
  shows "member_of cpu I (ds[i := (ds ! i)\<lparr>cpu_mask := insert cpu (cpu_mask (ds ! i))\<rparr>])"
proof -
  let ?d = "(ds ! i)\<lparr>cpu_mask := insert cpu (cpu_mask (ds ! i))\<rparr>"
  from assms(1) have "?d \<in> set (ds[i := ?d])"
    by (rule set_update_memI)
  moreover from assms(2) have "hdr_id ?d = I \<and> cpu \<in> cpu_mask ?d"
    by simp
  ultimately show ?thesis
    unfolding member_of_def list_ex_iff by blast
qed

lemma member_of_add:
  "hdr_id d = I \<Longrightarrow> cpu \<in> cpu_mask d \<Longrightarrow> member_of cpu I (list_add_tail_rcu d pos ds)"
  by (auto simp: member_of_def list_ex_iff list_add_tail_rcu_def)

lemma domain_add_cpu_ctrl_joins:
  assumes res: "domain_add_cpu_ctrl e cpu r k = Some (r', k')"
    and ok: "ctrl_join_succeeds e cpu r"
  shows "r' = r\<lparr>ctrl_domains := ctrl_domains r'\<rparr>"
    and "member_of cpu (get_domain_id_from_scope e cpu (ctrl_scope r)) (ctrl_domains r')"
    and "fst (resctrl_find_domain (ctrl_domains r)
                (get_domain_id_from_scope e cpu (ctrl_scope r)) 0) = None \<Longrightarrow>
         \<exists>pre. list_all domain_event pre \<and>
           trace k' = trace k @ pre @
             [LIST_ADD_TAIL_RCU RESCTRL_CTRL_DOMAIN (rid r)
                (get_domain_id_from_scope e cpu (ctrl_scope r)),
              RESCTRL_ONLINE_CTRL_DOMAIN (rid r)
                (get_domain_id_from_scope e cpu (ctrl_scope r))]"
proof -
  let ?I = "get_domain_id_from_scope e cpu (ctrl_scope r)"
  let ?ds = "ctrl_domains r"
  from ok have id: "0 \<le> ?I"
    by (simp add: ctrl_join_succeeds_def)
  have "r' = r\<lparr>ctrl_domains := ctrl_domains r'\<rparr> \<and> member_of cpu ?I (ctrl_domains r') \<and>
    (fst (resctrl_find_domain ?ds ?I 0) = None \<longrightarrow>
       (\<exists>pre. list_all domain_event pre \<and>
          trace k' = trace k @ pre @
            [LIST_ADD_TAIL_RCU RESCTRL_CTRL_DOMAIN (rid r) ?I,
             RESCTRL_ONLINE_CTRL_DOMAIN (rid r) ?I]))"
  proof (cases "resctrl_find_domain ?ds ?I 0")
    case (Pair a p)
    show ?thesis
    proof (cases a)
      case (Some i)
      with Pair have f: "resctrl_find_domain ?ds ?I 0 = (Some i, p)"
        by simp
      from ok f have ty: "hdr_type (?ds ! i) = RESCTRL_CTRL_DOMAIN"
        by (simp add: ctrl_join_succeeds_def)
      from res ty have r': "r' = r\<lparr>ctrl_domains := ?ds
                   [i := (?ds ! i)\<lparr>cpu_mask := insert cpu (cpu_mask (?ds ! i))\<rparr>]\<rparr>"
        unfolding domain_add_cpu_ctrl_found [OF id f] by simp
      from resctrl_find_domain_Some0 [OF f]
      have "member_of cpu ?I (?ds[i := (?ds ! i)\<lparr>cpu_mask := insert cpu (cpu_mask (?ds ! i))\<rparr>])"
        by (intro member_of_update) simp_all
      with r' f show ?thesis
        by simp
    next
      case None
      with Pair have nf: "resctrl_find_domain ?ds ?I 0 = (None, p)"
        by simp
      from ok nf have az: "kzalloc_ctrl_dom_ok e (rid r)"
        and am: "kmalloc_ctrl_val_ok e (rid r)"
        and hook: "resctrl_online_ctrl_domain e (rid r) ?I = 0"
        by (simp_all add: ctrl_join_succeeds_def)
      let ?d = "\<lparr> hdr_id = ?I, hdr_type = RESCTRL_CTRL_DOMAIN, cpu_mask = {cpu}, plr = None,
                   ctrl_val = replicate (unat (num_closid r)) (resctrl_get_default_ctrl r) \<rparr>"
      let ?m = "\<lparr> res = r, dom = ?d, low = 0, high = num_closid r \<rparr>"
      from res obtain k2 where
        k2: "call_msr_update (msr_update r) ?m (rdt_domain_reconfigure_cdp r k) = Some k2"
        unfolding domain_add_cpu_ctrl_new [OF id nf az am]
        by (cases "call_msr_update (msr_update r) ?m (rdt_domain_reconfigure_cdp r k)")
          simp_all
      from res hook have r': "r' = r\<lparr>ctrl_domains := list_add_tail_rcu ?d p ?ds\<rparr>"
        and k': "k' = emit (RESCTRL_ONLINE_CTRL_DOMAIN (rid r) ?I)
                     (emit (LIST_ADD_TAIL_RCU RESCTRL_CTRL_DOMAIN (rid r) ?I) k2)"
        unfolding domain_add_cpu_ctrl_new [OF id nf az am] k2
        by (simp_all add: Let_def)
      have "extends_with domain_event k (rdt_domain_reconfigure_cdp r k)"
        by (simp add: rdt_domain_reconfigure_cdp_def extends_with_emit)
      from extends_with_trans [OF this extends_call_msr_update [OF k2]]
      obtain pre where pre: "trace k2 = trace k @ pre" "list_all domain_event pre"
        unfolding extends_with_iff by blast
      have m: "member_of cpu ?I (list_add_tail_rcu ?d p ?ds)"
        by (rule member_of_add) simp_all
      from pre have "list_all domain_event pre \<and>
          trace k' = trace k @ pre @
            [LIST_ADD_TAIL_RCU RESCTRL_CTRL_DOMAIN (rid r) ?I,
             RESCTRL_ONLINE_CTRL_DOMAIN (rid r) ?I]"
        by (simp add: k' emit_def)
      then have "\<exists>pre. list_all domain_event pre \<and>
          trace k' = trace k @ pre @
            [LIST_ADD_TAIL_RCU RESCTRL_CTRL_DOMAIN (rid r) ?I,
             RESCTRL_ONLINE_CTRL_DOMAIN (rid r) ?I]"
        by blast
      with r' m show ?thesis
        by simp
    qed
  qed
  then show "r' = r\<lparr>ctrl_domains := ctrl_domains r'\<rparr>"
    and "member_of cpu ?I (ctrl_domains r')"
    and "fst (resctrl_find_domain ?ds ?I 0) = None \<Longrightarrow>
         \<exists>pre. list_all domain_event pre \<and>
           trace k' = trace k @ pre @
             [LIST_ADD_TAIL_RCU RESCTRL_CTRL_DOMAIN (rid r) ?I,
              RESCTRL_ONLINE_CTRL_DOMAIN (rid r) ?I]"
    by blast+
qed

lemma domain_add_cpu_ctrl_fails:
  assumes res: "domain_add_cpu_ctrl e cpu r k = Some (r', k')"
    and nok: "\<not> ctrl_join_succeeds e cpu r"
  shows "r' = r"
proof (cases "0 \<le> get_domain_id_from_scope e cpu (ctrl_scope r)")
  case False
  with res show ?thesis
    by (simp add: domain_add_cpu_ctrl_def)
next
  case id: True
  let ?I = "get_domain_id_from_scope e cpu (ctrl_scope r)"
  let ?ds = "ctrl_domains r"
  show ?thesis
  proof (cases "resctrl_find_domain ?ds ?I 0")
    case (Pair a p)
    show ?thesis
    proof (cases a)
      case (Some i)
      with Pair have f: "resctrl_find_domain ?ds ?I 0 = (Some i, p)"
        by simp
      from nok id f have ty: "hdr_type (?ds ! i) \<noteq> RESCTRL_CTRL_DOMAIN"
        by (simp add: ctrl_join_succeeds_def)
      from res ty show ?thesis
        unfolding domain_add_cpu_ctrl_found [OF id f] by simp
    next
      case None
      with Pair have nf: "resctrl_find_domain ?ds ?I 0 = (None, p)"
        by simp
      from resctrl_find_domain_None0 [OF nf] have pos: "p \<le> length ?ds" .
      from nok id nf have fail: "\<not> kzalloc_ctrl_dom_ok e (rid r) \<or>
          \<not> kmalloc_ctrl_val_ok e (rid r) \<or> resctrl_online_ctrl_domain e (rid r) ?I \<noteq> 0"
        by (simp add: ctrl_join_succeeds_def)
      show ?thesis
      proof (cases "kzalloc_ctrl_dom_ok e (rid r)")
        case False
        with res domain_add_cpu_ctrl_no_dom [OF id nf, of k] show ?thesis
          by simp
      next
        case az: True
        show ?thesis
        proof (cases "kmalloc_ctrl_val_ok e (rid r)")
          case False
          with res domain_add_cpu_ctrl_nomem [OF id nf az, of k] show ?thesis
            by simp
        next
          case am: True
          with az fail have hook: "resctrl_online_ctrl_domain e (rid r) ?I \<noteq> 0"
            by simp
          let ?d = "\<lparr> hdr_id = ?I, hdr_type = RESCTRL_CTRL_DOMAIN, cpu_mask = {cpu}, plr = None,
                   ctrl_val = replicate (unat (num_closid r)) (resctrl_get_default_ctrl r) \<rparr>"
          let ?m = "\<lparr> res = r, dom = ?d, low = 0, high = num_closid r \<rparr>"
          from res obtain k2 where
            k2: "call_msr_update (msr_update r) ?m (rdt_domain_reconfigure_cdp r k) = Some k2"
            unfolding domain_add_cpu_ctrl_new [OF id nf az am]
            by (cases "call_msr_update (msr_update r) ?m (rdt_domain_reconfigure_cdp r k)")
              simp_all
          from res hook show ?thesis
            unfolding domain_add_cpu_ctrl_new [OF id nf az am] k2
            using pos by (auto simp: Let_def list_del_add_same)
        qed
      qed
    qed
  qed
qed

lemma domain_add_cpu_ctrl_frame:
  assumes "domain_add_cpu_ctrl e cpu r k = Some (r', k')"
  shows "r' = r\<lparr>ctrl_domains := ctrl_domains r'\<rparr>"
proof (cases "ctrl_join_succeeds e cpu r")
  case True
  from domain_add_cpu_ctrl_joins(1) [OF assms True] show ?thesis .
next
  case False
  from domain_add_cpu_ctrl_fails [OF assms False] show ?thesis
    by simp
qed

lemma domain_add_cpu_mon_joins:
  assumes ok: "mon_join_succeeds e cpu r"
  shows "fst (domain_add_cpu_mon e cpu r k) =
           r\<lparr>mon_domains := mon_domains (fst (domain_add_cpu_mon e cpu r k))\<rparr>"
    and "member_of cpu (get_domain_id_from_scope e cpu (mon_scope r))
           (mon_domains (fst (domain_add_cpu_mon e cpu r k)))"
    and "fst (resctrl_find_domain (mon_domains r)
                (get_domain_id_from_scope e cpu (mon_scope r)) 0) = None \<Longrightarrow>
         trace (snd (domain_add_cpu_mon e cpu r k)) = trace k @
           [ARCH_MON_DOMAIN_ONLINE (rid r) (get_domain_id_from_scope e cpu (mon_scope r)),
            LIST_ADD_TAIL_RCU RESCTRL_MON_DOMAIN (rid r)
              (get_domain_id_from_scope e cpu (mon_scope r)),
            RESCTRL_ONLINE_MON_DOMAIN (rid r) (get_domain_id_from_scope e cpu (mon_scope r))]"
proof -
  let ?J = "get_domain_id_from_scope e cpu (mon_scope r)"
  let ?ds = "mon_domains r"
  let ?res = "domain_add_cpu_mon e cpu r k"
  from ok have id: "0 \<le> ?J"
    by (simp add: mon_join_succeeds_def)
  have "fst ?res = r\<lparr>mon_domains := mon_domains (fst ?res)\<rparr> \<and>
    member_of cpu ?J (mon_domains (fst ?res)) \<and>
    (fst (resctrl_find_domain ?ds ?J 0) = None \<longrightarrow>
       trace (snd ?res) = trace k @
           [ARCH_MON_DOMAIN_ONLINE (rid r) ?J,
            LIST_ADD_TAIL_RCU RESCTRL_MON_DOMAIN (rid r) ?J,
            RESCTRL_ONLINE_MON_DOMAIN (rid r) ?J])"
  proof (cases "resctrl_find_domain ?ds ?J 0")
    case (Pair a p)
    show ?thesis
    proof (cases a)
      case (Some i)
      with Pair have f: "resctrl_find_domain ?ds ?J 0 = (Some i, p)"
        by simp
      from ok f have ty: "hdr_type (?ds ! i) = RESCTRL_MON_DOMAIN"
        by (simp add: mon_join_succeeds_def)
      from ty have r': "fst ?res = r\<lparr>mon_domains := ?ds
                   [i := (?ds ! i)\<lparr>cpu_mask := insert cpu (cpu_mask (?ds ! i))\<rparr>]\<rparr>"
        unfolding domain_add_cpu_mon_found [OF id f] by simp
      from resctrl_find_domain_Some0 [OF f]
      have "member_of cpu ?J (?ds[i := (?ds ! i)\<lparr>cpu_mask := insert cpu (cpu_mask (?ds ! i))\<rparr>])"
        by (intro member_of_update) simp_all
      with r' f show ?thesis
        by simp
    next
      case None
      with Pair have nf: "resctrl_find_domain ?ds ?J 0 = (None, p)"
        by simp
      from ok nf have az: "kzalloc_mon_dom_ok e (rid r)"
        and ci: "get_cpu_cacheinfo_level e cpu RESCTRL_L3_CACHE \<noteq> None"
        and tot: "resctrl_arch_is_mbm_total_enabled e \<longrightarrow> kcalloc_mbm_total_ok e (rid r)"
        and loc: "resctrl_arch_is_mbm_local_enabled e \<longrightarrow> kcalloc_mbm_local_ok e (rid r)"
        and hook: "resctrl_online_mon_domain e (rid r) ?J = 0"
        by (simp_all add: mon_join_succeeds_def)
      from ci obtain c where c: "get_cpu_cacheinfo_level e cpu RESCTRL_L3_CACHE = Some c"
        by auto
      obtain ret d3 where al: "arch_domain_mbm_alloc e (rid r) (num_rmid r)
               \<lparr> hdr_id = ?J, hdr_type = RESCTRL_MON_DOMAIN, cpu_mask = {cpu}, ci_id = c,
                 arch_mbm_total = None, arch_mbm_local = None \<rparr> = (ret, d3)"
        by (cases "arch_domain_mbm_alloc e (rid r) (num_rmid r)
               \<lparr> hdr_id = ?J, hdr_type = RESCTRL_MON_DOMAIN, cpu_mask = {cpu}, ci_id = c,
                 arch_mbm_total = None, arch_mbm_local = None \<rparr>")
      from arch_domain_mbm_alloc_result [OF al] tot loc
      have d3: "cpu_mask d3 = {cpu}" "hdr_id d3 = ?J" and ret: "ret = 0"
        by auto
      from ret hook have r': "fst ?res = r\<lparr>mon_domains := list_add_tail_rcu d3 p ?ds\<rparr>"
        and k': "snd ?res = emit (RESCTRL_ONLINE_MON_DOMAIN (rid r) ?J)
                      (emit (LIST_ADD_TAIL_RCU RESCTRL_MON_DOMAIN (rid r) ?J)
                        (emit (ARCH_MON_DOMAIN_ONLINE (rid r) ?J) k))"
        unfolding domain_add_cpu_mon_new [OF id nf az c al]
        by (simp_all add: Let_def)
      have m: "member_of cpu ?J (list_add_tail_rcu d3 p ?ds)"
        by (rule member_of_add) (simp_all add: d3)
      have "trace (snd ?res) = trace k @
           [ARCH_MON_DOMAIN_ONLINE (rid r) ?J,
            LIST_ADD_TAIL_RCU RESCTRL_MON_DOMAIN (rid r) ?J,
            RESCTRL_ONLINE_MON_DOMAIN (rid r) ?J]"
        unfolding k' by (simp add: emit_def)
      with r' m show ?thesis
        by simp
    qed
  qed
  then show "fst ?res = r\<lparr>mon_domains := mon_domains (fst ?res)\<rparr>"
    and "member_of cpu ?J (mon_domains (fst ?res))"
    and "fst (resctrl_find_domain ?ds ?J 0) = None \<Longrightarrow>
       trace (snd ?res) = trace k @
           [ARCH_MON_DOMAIN_ONLINE (rid r) ?J,
            LIST_ADD_TAIL_RCU RESCTRL_MON_DOMAIN (rid r) ?J,
            RESCTRL_ONLINE_MON_DOMAIN (rid r) ?J]"
    by blast+
qed

lemma domain_add_cpu_mon_fails:
  assumes nok: "\<not> mon_join_succeeds e cpu r"
  shows "fst (domain_add_cpu_mon e cpu r k) = r"
proof (cases "0 \<le> get_domain_id_from_scope e cpu (mon_scope r)")
  case False
  then show ?thesis
    by (simp add: domain_add_cpu_mon_def)
next
  case id: True
  let ?J = "get_domain_id_from_scope e cpu (mon_scope r)"
  let ?ds = "mon_domains r"
  have neg: "\<not> ?J < 0"
    using id by simp
  show ?thesis
  proof (cases "resctrl_find_domain ?ds ?J 0")
    case (Pair a p)
    show ?thesis
    proof (cases a)
      case (Some i)
      with Pair have f: "resctrl_find_domain ?ds ?J 0 = (Some i, p)"
        by simp
      from nok id f have ty: "hdr_type (?ds ! i) \<noteq> RESCTRL_MON_DOMAIN"
        by (simp add: mon_join_succeeds_def)
      from ty show ?thesis
        unfolding domain_add_cpu_mon_found [OF id f] by simp
    next
      case None
      with Pair have nf: "resctrl_find_domain ?ds ?J 0 = (None, p)"
        by simp
      from resctrl_find_domain_None0 [OF nf] have pos: "p \<le> length ?ds" .
      show ?thesis
      proof (cases "kzalloc_mon_dom_ok e (rid r)")
        case False
        then have "domain_add_cpu_mon e cpu r k = (r, k)"
          unfolding domain_add_cpu_mon_def Let_def
          by (simp only: neg if_False nf prod.case option.case not_False_eq_True if_True)
        then show ?thesis
          by simp
      next
        case az: True
        show ?thesis
        proof (cases "get_cpu_cacheinfo_level e cpu RESCTRL_L3_CACHE")
          case None
          show ?thesis
            unfolding domain_add_cpu_mon_def Let_def
            by (simp only: neg if_False nf prod.case option.case az not_True_eq_False None fst_conv)
        next
          case (Some c)
          obtain ret d3 where al: "arch_domain_mbm_alloc e (rid r) (num_rmid r)
               \<lparr> hdr_id = ?J, hdr_type = RESCTRL_MON_DOMAIN, cpu_mask = {cpu}, ci_id = c,
                 arch_mbm_total = None, arch_mbm_local = None \<rparr> = (ret, d3)"
            by (cases "arch_domain_mbm_alloc e (rid r) (num_rmid r)
               \<lparr> hdr_id = ?J, hdr_type = RESCTRL_MON_DOMAIN, cpu_mask = {cpu}, ci_id = c,
                 arch_mbm_total = None, arch_mbm_local = None \<rparr>")
          from nok id nf az Some
          have fail: "(resctrl_arch_is_mbm_total_enabled e \<and> \<not> kcalloc_mbm_total_ok e (rid r)) \<or>
              (resctrl_arch_is_mbm_local_enabled e \<and> \<not> kcalloc_mbm_local_ok e (rid r)) \<or>
              resctrl_online_mon_domain e (rid r) ?J \<noteq> 0"
            by (auto simp: mon_join_succeeds_def)
          from arch_domain_mbm_alloc_result [OF al] fail
          have "ret \<noteq> 0 \<or> resctrl_online_mon_domain e (rid r) ?J \<noteq> 0"
            by (auto simp: ENOMEM_def)
          then show ?thesis
            unfolding domain_add_cpu_mon_new [OF id nf az Some al]
            using pos by (auto simp: Let_def list_del_add_same)
        qed
      qed
    qed
  qed
qed

lemma domain_add_cpu_mon_frame:
  "fst (domain_add_cpu_mon e cpu r k) =
     r\<lparr>mon_domains := mon_domains (fst (domain_add_cpu_mon e cpu r k))\<rparr>"
proof (cases "mon_join_succeeds e cpu r")
  case True
  from domain_add_cpu_mon_joins(1) [OF True] show ?thesis .
next
  case False
  from domain_add_cpu_mon_fails [OF False, of k] show ?thesis
    by simp
qed

subsection \<open>One pass of a hotplug handler over a table entry\<close>

lemma ctrl_joined_mono:
  "ctrl_joined e cpu r ds' evs \<Longrightarrow> set evs \<subseteq> set evs' \<Longrightarrow> ctrl_joined e cpu r ds' evs'"
  by (auto simp: ctrl_joined_def Let_def)

lemma mon_joined_mono:
  "mon_joined e cpu r ds' evs \<Longrightarrow> set evs \<subseteq> set evs' \<Longrightarrow> mon_joined e cpu r ds' evs'"
  by (auto simp: mon_joined_def Let_def)

lemma ctrl_left_mono:
  "ctrl_left e cpu r ds' evs \<Longrightarrow> set evs \<subseteq> set evs' \<Longrightarrow> ctrl_left e cpu r ds' evs'"
  by (auto simp: ctrl_left_def Let_def split: prod.splits option.splits if_splits)

lemma mon_left_mono:
  "mon_left e cpu r ds' evs \<Longrightarrow> set evs \<subseteq> set evs' \<Longrightarrow> mon_left e cpu r ds' evs'"
  by (auto simp: mon_left_def Let_def split: prod.splits option.splits if_splits)

lemma mon_join_succeeds_ctrl_domains:
  "mon_join_succeeds e cpu (r\<lparr>ctrl_domains := x\<rparr>) = mon_join_succeeds e cpu r"
  by (simp add: mon_join_succeeds_def cong: prod.case_cong option.case_cong)

lemma mon_joined_ctrl_domains:
  "mon_joined e cpu (r\<lparr>ctrl_domains := x\<rparr>) ds' evs = mon_joined e cpu r ds' evs"
  by (simp add: mon_joined_def mon_join_succeeds_ctrl_domains)

lemma mon_left_ctrl_domains:
  "mon_left e cpu (r\<lparr>ctrl_domains := x\<rparr>) ds' evs = mon_left e cpu r ds' evs"
  by (simp add: mon_left_def cong: prod.case_cong option.case_cong if_cong)

lemma domain_add_cpu_ctrl_step:
  assumes st: "(if alloc_capable r then domain_add_cpu_ctrl e cpu r k else Some (r, k))
                 = Some (r1, k1)"
  shows "\<exists>seg. trace k1 = trace k @ seg \<and> list_all domain_event seg \<and>
           (\<not> alloc_capable r \<longrightarrow> seg = []) \<and>
           r1 = r\<lparr>ctrl_domains := ctrl_domains r1\<rparr> \<and>
           ctrl_joined e cpu r (ctrl_domains r1) seg"
proof (cases "alloc_capable r")
  case False
  with st have "r1 = r" "k1 = k"
    by simp_all
  with False have "trace k1 = trace k @ [] \<and> list_all domain_event [] \<and>
           (\<not> alloc_capable r \<longrightarrow> [] = ([] :: event list)) \<and>
           r1 = r\<lparr>ctrl_domains := ctrl_domains r1\<rparr> \<and>
           ctrl_joined e cpu r (ctrl_domains r1) []"
    by (simp add: ctrl_joined_def)
  then show ?thesis
    by blast
next
  case cap: True
  let ?I = "get_domain_id_from_scope e cpu (ctrl_scope r)"
  from st cap have res: "domain_add_cpu_ctrl e cpu r k = Some (r1, k1)"
    by simp
  from extends_domain_add_cpu_ctrl [OF res]
  obtain seg where seg: "trace k1 = trace k @ seg" "list_all domain_event seg"
    unfolding extends_with_iff by blast
  note fr = domain_add_cpu_ctrl_frame [OF res]
  have "ctrl_joined e cpu r (ctrl_domains r1) seg"
  proof (cases "ctrl_join_succeeds e cpu r")
    case False
    from domain_add_cpu_ctrl_fails [OF res False] False show ?thesis
      by (simp add: ctrl_joined_def)
  next
    case ok: True
    note m = domain_add_cpu_ctrl_joins(2) [OF res ok]
    have "fst (resctrl_find_domain (ctrl_domains r) ?I 0) = None \<longrightarrow>
        LIST_ADD_TAIL_RCU RESCTRL_CTRL_DOMAIN (rid r) ?I \<in> set seg \<and>
        RESCTRL_ONLINE_CTRL_DOMAIN (rid r) ?I \<in> set seg"
    proof
      assume "fst (resctrl_find_domain (ctrl_domains r) ?I 0) = None"
      from domain_add_cpu_ctrl_joins(3) [OF res ok this]
      obtain pre where "trace k1 = trace k @ pre @
             [LIST_ADD_TAIL_RCU RESCTRL_CTRL_DOMAIN (rid r) ?I,
              RESCTRL_ONLINE_CTRL_DOMAIN (rid r) ?I]"
        by blast
      with seg(1) have "seg = pre @
             [LIST_ADD_TAIL_RCU RESCTRL_CTRL_DOMAIN (rid r) ?I,
              RESCTRL_ONLINE_CTRL_DOMAIN (rid r) ?I]"
        by simp
      then show "LIST_ADD_TAIL_RCU RESCTRL_CTRL_DOMAIN (rid r) ?I \<in> set seg \<and>
        RESCTRL_ONLINE_CTRL_DOMAIN (rid r) ?I \<in> set seg"
        by simp
    qed
    with m cap ok show ?thesis
      by (simp add: ctrl_joined_def Let_def)
  qed
  with seg fr cap show ?thesis
    by blast
qed

lemma domain_add_cpu_mon_step:
  assumes st: "(if mon_capable r then domain_add_cpu_mon e cpu r k else (r, k)) = (r1, k1)"
  shows "\<exists>seg. trace k1 = trace k @ seg \<and> list_all domain_event seg \<and>
           (\<not> mon_capable r \<longrightarrow> seg = []) \<and>
           r1 = r\<lparr>mon_domains := mon_domains r1\<rparr> \<and>
           mon_joined e cpu r (mon_domains r1) seg"
proof (cases "mon_capable r")
  case False
  with st have "r1 = r" "k1 = k"
    by simp_all
  with False have "trace k1 = trace k @ [] \<and> list_all domain_event [] \<and>
           (\<not> mon_capable r \<longrightarrow> [] = ([] :: event list)) \<and>
           r1 = r\<lparr>mon_domains := mon_domains r1\<rparr> \<and>
           mon_joined e cpu r (mon_domains r1) []"
    by (simp add: mon_joined_def)
  then show ?thesis
    by blast
next
  case cap: True
  let ?J = "get_domain_id_from_scope e cpu (mon_scope r)"
  from st cap have res: "domain_add_cpu_mon e cpu r k = (r1, k1)"
    by simp
  then have r1: "r1 = fst (domain_add_cpu_mon e cpu r k)"
    and k1: "k1 = snd (domain_add_cpu_mon e cpu r k)"
    by simp_all
  from extends_domain_add_cpu_mon [of k e cpu r]
  obtain seg where seg: "trace k1 = trace k @ seg" "list_all domain_event seg"
    unfolding extends_with_iff k1 by blast
  from domain_add_cpu_mon_frame [of e cpu r k]
  have fr: "r1 = r\<lparr>mon_domains := mon_domains r1\<rparr>"
    unfolding r1 .
  have "mon_joined e cpu r (mon_domains r1) seg"
  proof (cases "mon_join_succeeds e cpu r")
    case False
    from domain_add_cpu_mon_fails [OF False, of k] False show ?thesis
      by (simp add: mon_joined_def r1)
  next
    case ok: True
    from domain_add_cpu_mon_joins(2) [OF ok, of k]
    have m: "member_of cpu ?J (mon_domains r1)"
      unfolding r1 .
    have "fst (resctrl_find_domain (mon_domains r) ?J 0) = None \<longrightarrow>
        LIST_ADD_TAIL_RCU RESCTRL_MON_DOMAIN (rid r) ?J \<in> set seg \<and>
        RESCTRL_ONLINE_MON_DOMAIN (rid r) ?J \<in> set seg"
    proof
      assume "fst (resctrl_find_domain (mon_domains r) ?J 0) = None"
      from domain_add_cpu_mon_joins(3) [OF ok this, of k]
      have "trace k1 = trace k @
           [ARCH_MON_DOMAIN_ONLINE (rid r) ?J,
            LIST_ADD_TAIL_RCU RESCTRL_MON_DOMAIN (rid r) ?J,
            RESCTRL_ONLINE_MON_DOMAIN (rid r) ?J]"
        unfolding k1 .
      with seg(1) have "seg =
           [ARCH_MON_DOMAIN_ONLINE (rid r) ?J,
            LIST_ADD_TAIL_RCU RESCTRL_MON_DOMAIN (rid r) ?J,
            RESCTRL_ONLINE_MON_DOMAIN (rid r) ?J]"
        by simp
      then show "LIST_ADD_TAIL_RCU RESCTRL_MON_DOMAIN (rid r) ?J \<in> set seg \<and>
        RESCTRL_ONLINE_MON_DOMAIN (rid r) ?J \<in> set seg"
        by simp
    qed
    with m cap ok show ?thesis
      by (simp add: mon_joined_def Let_def)
  qed
  with seg fr cap show ?thesis
    by blast
qed

lemma domain_add_cpu_post:
  assumes res: "domain_add_cpu e cpu r k = Some (r', k')"
  shows "\<exists>seg. trace k' = trace k @ seg \<and> list_all domain_event seg \<and>
           online_post e cpu r r' seg"
proof -
  from res obtain r1 k1 where
    c: "(if alloc_capable r then domain_add_cpu_ctrl e cpu r k else Some (r, k)) = Some (r1, k1)"
    and m: "(if mon_capable r1 then domain_add_cpu_mon e cpu r1 k1 else (r1, k1)) = (r', k')"
    by (auto simp: domain_add_cpu_def split: option.splits)
  from domain_add_cpu_ctrl_step [OF c] obtain s1 where
    s1: "trace k1 = trace k @ s1" "list_all domain_event s1" "\<not> alloc_capable r \<longrightarrow> s1 = []"
    and f1: "r1 = r\<lparr>ctrl_domains := ctrl_domains r1\<rparr>"
    and j1: "ctrl_joined e cpu r (ctrl_domains r1) s1"
    by blast
  from domain_add_cpu_mon_step [OF m] obtain s2 where
    s2: "trace k' = trace k1 @ s2" "list_all domain_event s2" "\<not> mon_capable r1 \<longrightarrow> s2 = []"
    and f2: "r' = r1\<lparr>mon_domains := mon_domains r'\<rparr>"
    and j2: "mon_joined e cpu r1 (mon_domains r') s2"
    by blast
  from arg_cong [OF f1, of mon_capable] have mc: "mon_capable r1 = mon_capable r"
    by simp
  from arg_cong [OF f2, of ctrl_domains] have cd: "ctrl_domains r' = ctrl_domains r1"
    by simp
  from j2 have j2': "mon_joined e cpu r (mon_domains r') s2"
    by (subst (asm) f1) (simp only: mon_joined_ctrl_domains)
  have fr: "r' = r\<lparr>ctrl_domains := ctrl_domains r', mon_domains := mon_domains r'\<rparr>"
    by (subst f2, subst f1) (simp add: cd)
  have t: "trace k' = trace k @ (s1 @ s2)"
    using s1(1) s2(1) by simp
  have l: "list_all domain_event (s1 @ s2)"
    using s1(2) s2(2) by simp
  have a: "ctrl_joined e cpu r (ctrl_domains r') (s1 @ s2)"
    unfolding cd by (rule ctrl_joined_mono [OF j1]) simp
  have b: "mon_joined e cpu r (mon_domains r') (s1 @ s2)"
    by (rule mon_joined_mono [OF j2']) simp
  have n: "\<not> alloc_capable r \<and> \<not> mon_capable r \<longrightarrow> s1 @ s2 = []"
    using s1(3) s2(3) mc by simp
  from fr a b n have "online_post e cpu r r' (s1 @ s2)"
    unfolding online_post_def by (intro conjI)
  with t l show ?thesis
    by blast
qed

subsection \<open>The same for a core that leaves\<close>

lemma domain_remove_cpu_ctrl_step:
  assumes st: "(if alloc_capable r then domain_remove_cpu_ctrl e cpu r k else (r, k)) = (r1, k1)"
  shows "\<exists>seg. trace k1 = trace k @ seg \<and> list_all domain_event seg \<and>
           (\<not> alloc_capable r \<longrightarrow> seg = []) \<and>
           r1 = r\<lparr>ctrl_domains := ctrl_domains r1\<rparr> \<and>
           ctrl_left e cpu r (ctrl_domains r1) seg"
proof (cases "alloc_capable r")
  case False
  with st have "r1 = r" "k1 = k"
    by simp_all
  with False have "trace k1 = trace k @ [] \<and> list_all domain_event [] \<and>
           (\<not> alloc_capable r \<longrightarrow> [] = ([] :: event list)) \<and>
           r1 = r\<lparr>ctrl_domains := ctrl_domains r1\<rparr> \<and>
           ctrl_left e cpu r (ctrl_domains r1) []"
    by (simp add: ctrl_left_def)
  then show ?thesis
    by blast
next
  case cap: True
  let ?I = "get_domain_id_from_scope e cpu (ctrl_scope r)"
  let ?ds = "ctrl_domains r"
  from st cap have res: "domain_remove_cpu_ctrl e cpu r k = (r1, k1)"
    by simp
  then have k1: "k1 = snd (domain_remove_cpu_ctrl e cpu r k)"
    by simp
  from extends_domain_remove_cpu_ctrl [of k e cpu r]
  obtain seg where seg: "trace k1 = trace k @ seg" "list_all domain_event seg"
    unfolding extends_with_iff k1 by blast
  have "r1 = r\<lparr>ctrl_domains := ctrl_domains r1\<rparr> \<and> ctrl_left e cpu r (ctrl_domains r1) seg"
  proof (cases "0 \<le> ?I")
    case False
    with res have "r1 = r"
      by (simp add: domain_remove_cpu_ctrl_def)
    with False show ?thesis
      by (simp add: ctrl_left_def)
  next
    case id: True
    show ?thesis
    proof (cases "resctrl_find_domain ?ds ?I 0")
      case (Pair a p)
      show ?thesis
      proof (cases a)
        case None
        with Pair id res have "r1 = r"
          by (simp add: domain_remove_cpu_ctrl_def)
        with Pair None show ?thesis
          by (simp add: ctrl_left_def)
      next
        case (Some i)
        with Pair have f: "resctrl_find_domain ?ds ?I 0 = (Some i, p)"
          by simp
        show ?thesis
        proof (cases "hdr_type (?ds ! i) = RESCTRL_CTRL_DOMAIN")
          case False
          with f id res have "r1 = r"
            by (simp add: domain_remove_cpu_ctrl_def WARN_ON_ONCE_def)
          with f False show ?thesis
            by (simp add: ctrl_left_def)
        next
          case ty: True
          show ?thesis
          proof (cases "cpu_mask (?ds ! i) - {cpu} = {}")
            case False
            with res have "r1 = r\<lparr>ctrl_domains := ?ds
                [i := (?ds ! i)\<lparr>cpu_mask := cpu_mask (?ds ! i) - {cpu}\<rparr>]\<rparr>"
              unfolding domain_remove_cpu_ctrl_found [OF id f ty] by simp
            with f ty False cap id show ?thesis
              by (simp add: ctrl_left_def)
          next
            case last: True
            with res have r1: "r1 = r\<lparr>ctrl_domains := list_del_rcu i ?ds\<rparr>"
              and "trace k1 = trace k @
                 [RESCTRL_OFFLINE_CTRL_DOMAIN (rid r) ?I,
                  LIST_DEL_RCU RESCTRL_CTRL_DOMAIN (rid r) ?I,
                  SYNCHRONIZE_RCU] @
                 (case plr (?ds ! i) of None \<Rightarrow> [] | Some q \<Rightarrow> [PLR_CLEAR_D q]) @
                 [CTRL_DOMAIN_FREE (rid r) ?I]"
              unfolding domain_remove_cpu_ctrl_found [OF id f ty] by auto
            with seg(1) have "seg =
                 [RESCTRL_OFFLINE_CTRL_DOMAIN (rid r) ?I,
                  LIST_DEL_RCU RESCTRL_CTRL_DOMAIN (rid r) ?I,
                  SYNCHRONIZE_RCU] @
                 (case plr (?ds ! i) of None \<Rightarrow> [] | Some q \<Rightarrow> [PLR_CLEAR_D q]) @
                 [CTRL_DOMAIN_FREE (rid r) ?I]"
              by simp
            then have "RESCTRL_OFFLINE_CTRL_DOMAIN (rid r) ?I \<in> set seg \<and>
                LIST_DEL_RCU RESCTRL_CTRL_DOMAIN (rid r) ?I \<in> set seg \<and>
                CTRL_DOMAIN_FREE (rid r) ?I \<in> set seg"
              by simp
            with r1 f ty last cap id show ?thesis
              by (simp add: ctrl_left_def)
          qed
        qed
      qed
    qed
  qed
  with seg cap show ?thesis
    by blast
qed

lemma domain_remove_cpu_mon_step:
  assumes st: "(if mon_capable r then domain_remove_cpu_mon e cpu r k else (r, k)) = (r1, k1)"
  shows "\<exists>seg. trace k1 = trace k @ seg \<and> list_all domain_event seg \<and>
           (\<not> mon_capable r \<longrightarrow> seg = []) \<and>
           r1 = r\<lparr>mon_domains := mon_domains r1\<rparr> \<and>
           mon_left e cpu r (mon_domains r1) seg"
proof (cases "mon_capable r")
  case False
  with st have "r1 = r" "k1 = k"
    by simp_all
  with False have "trace k1 = trace k @ [] \<and> list_all domain_event [] \<and>
           (\<not> mon_capable r \<longrightarrow> [] = ([] :: event list)) \<and>
           r1 = r\<lparr>mon_domains := mon_domains r1\<rparr> \<and>
           mon_left e cpu r (mon_domains r1) []"
    by (simp add: mon_left_def)
  then show ?thesis
    by blast
next
  case cap: True
  let ?J = "get_domain_id_from_scope e cpu (mon_scope r)"
  let ?ds = "mon_domains r"
  from st cap have res: "domain_remove_cpu_mon e cpu r k = (r1, k1)"
    by simp
  then have k1: "k1 = snd (domain_remove_cpu_mon e cpu r k)"
    by simp
  from extends_domain_remove_cpu_mon [of k e cpu r]
  obtain seg where seg: "trace k1 = trace k @ seg" "list_all domain_event seg"
    unfolding extends_with_iff k1 by blast
  have "r1 = r\<lparr>mon_domains := mon_domains r1\<rparr> \<and> mon_left e cpu r (mon_domains r1) seg"
  proof (cases "0 \<le> ?J")
    case False
    with res have "r1 = r"
      by (simp add: domain_remove_cpu_mon_def)
    with False show ?thesis
      by (simp add: mon_left_def)
  next
    case id: True
    show ?thesis
    proof (cases "resctrl_find_domain ?ds ?J 0")
      case (Pair a p)
      show ?thesis
      proof (cases a)
        case None
        with Pair id res have "r1 = r"
          by (simp add: domain_remove_cpu_mon_def)
        with Pair None show ?thesis
          by (simp add: mon_left_def)
      next
        case (Some i)
        with Pair have f: "resctrl_find_domain ?ds ?J 0 = (Some i, p)"
          by simp
        show ?thesis
        proof (cases "hdr_type (?ds ! i) = RESCTRL_MON_DOMAIN")
          case False
          with f id res have "r1 = r"
            by (simp add: domain_remove_cpu_mon_def WARN_ON_ONCE_def)
          with f False show ?thesis
            by (simp add: mon_left_def)
        next
          case ty: True
          show ?thesis
          proof (cases "cpu_mask (?ds ! i) - {cpu} = {}")
            case False
            with res have "r1 = r\<lparr>mon_domains := ?ds
                [i := (?ds ! i)\<lparr>cpu_mask := cpu_mask (?ds ! i) - {cpu}\<rparr>]\<rparr>"
              unfolding domain_remove_cpu_mon_found [OF id f ty] by simp
            with f ty False cap id show ?thesis
              by (simp add: mon_left_def)
          next
            case last: True
            with res have r1: "r1 = r\<lparr>mon_domains := list_del_rcu i ?ds\<rparr>"
              and "trace k1 = trace k @
                 [RESCTRL_OFFLINE_MON_DOMAIN (rid r) ?J,
                  LIST_DEL_RCU RESCTRL_MON_DOMAIN (rid r) ?J,
                  SYNCHRONIZE_RCU,
                  MON_DOMAIN_FREE (rid r) ?J]"
              unfolding domain_remove_cpu_mon_found [OF id f ty] by auto
            with seg(1) have "seg =
                 [RESCTRL_OFFLINE_MON_DOMAIN (rid r) ?J,
                  LIST_DEL_RCU RESCTRL_MON_DOMAIN (rid r) ?J,
                  SYNCHRONIZE_RCU,
                  MON_DOMAIN_FREE (rid r) ?J]"
              by simp
            then have "RESCTRL_OFFLINE_MON_DOMAIN (rid r) ?J \<in> set seg \<and>
                LIST_DEL_RCU RESCTRL_MON_DOMAIN (rid r) ?J \<in> set seg \<and>
                MON_DOMAIN_FREE (rid r) ?J \<in> set seg"
              by simp
            with r1 f ty last cap id show ?thesis
              by (simp add: mon_left_def)
          qed
        qed
      qed
    qed
  qed
  with seg cap show ?thesis
    by blast
qed

lemma domain_remove_cpu_post:
  assumes res: "domain_remove_cpu e cpu r k = (r', k')"
  shows "\<exists>seg. trace k' = trace k @ seg \<and> list_all domain_event seg \<and>
           offline_post e cpu r r' seg"
proof -
  obtain r1 k1 where
    c: "(if alloc_capable r then domain_remove_cpu_ctrl e cpu r k else (r, k)) = (r1, k1)"
    by (cases "if alloc_capable r then domain_remove_cpu_ctrl e cpu r k else (r, k)")
  with res have
    m: "(if mon_capable r1 then domain_remove_cpu_mon e cpu r1 k1 else (r1, k1)) = (r', k')"
    by (simp add: domain_remove_cpu_def)
  from domain_remove_cpu_ctrl_step [OF c] obtain s1 where
    s1: "trace k1 = trace k @ s1" "list_all domain_event s1" "\<not> alloc_capable r \<longrightarrow> s1 = []"
    and f1: "r1 = r\<lparr>ctrl_domains := ctrl_domains r1\<rparr>"
    and j1: "ctrl_left e cpu r (ctrl_domains r1) s1"
    by blast
  from domain_remove_cpu_mon_step [OF m] obtain s2 where
    s2: "trace k' = trace k1 @ s2" "list_all domain_event s2" "\<not> mon_capable r1 \<longrightarrow> s2 = []"
    and f2: "r' = r1\<lparr>mon_domains := mon_domains r'\<rparr>"
    and j2: "mon_left e cpu r1 (mon_domains r') s2"
    by blast
  from arg_cong [OF f1, of mon_capable] have mc: "mon_capable r1 = mon_capable r"
    by simp
  from arg_cong [OF f2, of ctrl_domains] have cd: "ctrl_domains r' = ctrl_domains r1"
    by simp
  from j2 have j2': "mon_left e cpu r (mon_domains r') s2"
    by (subst (asm) f1) (simp only: mon_left_ctrl_domains)
  have fr: "r' = r\<lparr>ctrl_domains := ctrl_domains r', mon_domains := mon_domains r'\<rparr>"
    by (subst f2, subst f1) (simp add: cd)
  have t: "trace k' = trace k @ (s1 @ s2)"
    using s1(1) s2(1) by simp
  have l: "list_all domain_event (s1 @ s2)"
    using s1(2) s2(2) by simp
  have a: "ctrl_left e cpu r (ctrl_domains r') (s1 @ s2)"
    unfolding cd by (rule ctrl_left_mono [OF j1]) simp
  have b: "mon_left e cpu r (mon_domains r') (s1 @ s2)"
    by (rule mon_left_mono [OF j2']) simp
  have n: "\<not> alloc_capable r \<and> \<not> mon_capable r \<longrightarrow> s1 @ s2 = []"
    using s1(3) s2(3) mc by simp
  from fr a b n have "offline_post e cpu r r' (s1 @ s2)"
    unfolding offline_post_def by (intro conjI)
  with t l show ?thesis
    by blast
qed

subsection \<open>The passes of the hotplug handlers over the table\<close>

lemma online_post_skip:
  "\<not> alloc_capable r \<Longrightarrow> \<not> mon_capable r \<Longrightarrow> online_post e cpu r r []"
  by (simp add: online_post_def ctrl_joined_def mon_joined_def)

lemma offline_post_skip:
  "\<not> alloc_capable r \<Longrightarrow> \<not> mon_capable r \<Longrightarrow> offline_post e cpu r r []"
  by (simp add: offline_post_def ctrl_left_def mon_left_def)

lemma online_cpu_resources_post:
  "online_cpu_resources e cpu rs k = Some (rs', k') \<Longrightarrow>
   \<exists>segs. length segs = length rs \<and> length rs' = length rs \<and>
     trace k' = trace k @ concat segs \<and>
     (\<forall>i < length rs. list_all domain_event (segs ! i) \<and>
        online_post e cpu (rs ! i) (rs' ! i) (segs ! i))"
proof (induction rs arbitrary: k rs')
  case Nil
  then have "length ([] :: event list list) = length ([] :: rdt_hw_resource list) \<and>
     length rs' = length ([] :: rdt_hw_resource list) \<and> trace k' = trace k @ concat []"
    by auto
  then show ?case
    by (intro exI [of _ "[]"]) simp
next
  case (Cons r rs)
  from Cons.prems obtain r1 k1 rs1 where
    a: "(if alloc_capable r \<or> mon_capable r then domain_add_cpu e cpu r k else Some (r, k))
          = Some (r1, k1)"
    and b: "online_cpu_resources e cpu rs k1 = Some (rs1, k')"
    and rs': "rs' = r1 # rs1"
    by (auto split: option.splits)
  have "\<exists>seg. trace k1 = trace k @ seg \<and> list_all domain_event seg \<and> online_post e cpu r r1 seg"
  proof (cases "alloc_capable r \<or> mon_capable r")
    case True
    with a have "domain_add_cpu e cpu r k = Some (r1, k1)"
      by simp
    then show ?thesis
      by (rule domain_add_cpu_post)
  next
    case False
    with a have "r1 = r" "k1 = k"
      by simp_all
    with False have "trace k1 = trace k @ [] \<and> list_all domain_event [] \<and>
        online_post e cpu r r1 []"
      by (simp add: online_post_skip)
    then show ?thesis
      by blast
  qed
  then obtain seg where seg: "trace k1 = trace k @ seg" "list_all domain_event seg"
    "online_post e cpu r r1 seg"
    by blast
  from Cons.IH [OF b] obtain segs where
    segs: "length segs = length rs" "length rs1 = length rs" "trace k' = trace k1 @ concat segs"
    "\<forall>i < length rs. list_all domain_event (segs ! i) \<and>
        online_post e cpu (rs ! i) (rs1 ! i) (segs ! i)"
    by blast
  have all: "\<forall>i < length (r # rs). list_all domain_event ((seg # segs) ! i) \<and>
        online_post e cpu ((r # rs) ! i) (rs' ! i) ((seg # segs) ! i)"
  proof (intro allI impI)
    fix i
    assume "i < length (r # rs)"
    then show "list_all domain_event ((seg # segs) ! i) \<and>
        online_post e cpu ((r # rs) ! i) (rs' ! i) ((seg # segs) ! i)"
      using seg(2,3) segs(4) rs' by (cases i) simp_all
  qed
  have "length (seg # segs) = length (r # rs) \<and> length rs' = length (r # rs) \<and>
     trace k' = trace k @ concat (seg # segs)"
    using segs(1,2,3) seg(1) rs' by simp
  with all show ?case
    by blast
qed

lemma offline_cpu_resources_post:
  "offline_cpu_resources e cpu rs k = (rs', k') \<Longrightarrow>
   \<exists>segs. length segs = length rs \<and> length rs' = length rs \<and>
     trace k' = trace k @ concat segs \<and>
     (\<forall>i < length rs. list_all domain_event (segs ! i) \<and>
        offline_post e cpu (rs ! i) (rs' ! i) (segs ! i))"
proof (induction rs arbitrary: k rs')
  case Nil
  then have "length ([] :: event list list) = length ([] :: rdt_hw_resource list) \<and>
     length rs' = length ([] :: rdt_hw_resource list) \<and> trace k' = trace k @ concat []"
    by auto
  then show ?case
    by (intro exI [of _ "[]"]) simp
next
  case (Cons r rs)
  obtain r1 k1 where
    a: "(if alloc_capable r \<or> mon_capable r then domain_remove_cpu e cpu r k else (r, k))
          = (r1, k1)"
    by (cases "if alloc_capable r \<or> mon_capable r then domain_remove_cpu e cpu r k else (r, k)")
  obtain rs1 k2 where b: "offline_cpu_resources e cpu rs k1 = (rs1, k2)"
    by (cases "offline_cpu_resources e cpu rs k1")
  from Cons.prems a b have rs': "rs' = r1 # rs1" and k2: "k2 = k'"
    by simp_all
  have "\<exists>seg. trace k1 = trace k @ seg \<and> list_all domain_event seg \<and> offline_post e cpu r r1 seg"
  proof (cases "alloc_capable r \<or> mon_capable r")
    case True
    with a have "domain_remove_cpu e cpu r k = (r1, k1)"
      by simp
    then show ?thesis
      by (rule domain_remove_cpu_post)
  next
    case False
    with a have "r1 = r" "k1 = k"
      by simp_all
    with False have "trace k1 = trace k @ [] \<and> list_all domain_event [] \<and>
        offline_post e cpu r r1 []"
      by (simp add: offline_post_skip)
    then show ?thesis
      by blast
  qed
  then obtain seg where seg: "trace k1 = trace k @ seg" "list_all domain_event seg"
    "offline_post e cpu r r1 seg"
    by blast
  from Cons.IH [OF b [unfolded k2]] obtain segs where
    segs: "length segs = length rs" "length rs1 = length rs" "trace k' = trace k1 @ concat segs"
    "\<forall>i < length rs. list_all domain_event (segs ! i) \<and>
        offline_post e cpu (rs ! i) (rs1 ! i) (segs ! i)"
    by blast
  have all: "\<forall>i < length (r # rs). list_all domain_event ((seg # segs) ! i) \<and>
        offline_post e cpu ((r # rs) ! i) (rs' ! i) ((seg # segs) ! i)"
  proof (intro allI impI)
    fix i
    assume "i < length (r # rs)"
    then show "list_all domain_event ((seg # segs) ! i) \<and>
        offline_post e cpu ((r # rs) ! i) (rs' ! i) ((seg # segs) ! i)"
      using seg(2,3) segs(4) rs' by (cases i) simp_all
  qed
  have "length (seg # segs) = length (r # rs) \<and> length rs' = length (r # rs) \<and>
     trace k' = trace k @ concat (seg # segs)"
    using segs(1,2,3) seg(1) rs' by simp
  with all show ?case
    by blast
qed

lemma resctrl_arch_online_cpu_post:
  assumes res: "resctrl_arch_online_cpu e cpu st k = Some (ret, st', k')"
  shows "ret = 0 \<and>
      (\<exists>segs. length segs = length (rdt_resources_all st) \<and>
          trace k' = trace k @ MUTEX_LOCK # concat segs @
            [MUTEX_UNLOCK,
             WRMSR MSR_IA32_PQR_ASSOC RESCTRL_RESERVED_RMID RESCTRL_RESERVED_CLOSID,
             RESCTRL_ONLINE_CPU cpu] \<and>
          (\<forall>i < length (rdt_resources_all st).
              list_all domain_event (segs ! i) \<and>
              online_post e cpu (rdt_resources_all st ! i) (rdt_resources_all st' ! i)
                (segs ! i))) \<and>
      length (rdt_resources_all st') = length (rdt_resources_all st) \<and>
      pqr_state st' (this_cpu e) =
        \<lparr> cur_rmid = RESCTRL_RESERVED_RMID, cur_closid = RESCTRL_RESERVED_CLOSID,
          default_rmid = RESCTRL_RESERVED_RMID, default_closid = RESCTRL_RESERVED_CLOSID \<rparr> \<and>
      (\<forall>c. c \<noteq> this_cpu e \<longrightarrow> pqr_state st' c = pqr_state st c)"
proof -
  from res obtain rs k1 where
    loop: "online_cpu_resources e cpu (rdt_resources_all st) (emit MUTEX_LOCK k) = Some (rs, k1)"
    by (cases "online_cpu_resources e cpu (rdt_resources_all st) (emit MUTEX_LOCK k)")
      (auto simp: resctrl_arch_online_cpu_def)
  obtain st2 k2 where
    clr: "clear_closid_rmid e cpu (st\<lparr>rdt_resources_all := rs\<rparr>) (emit MUTEX_UNLOCK k1) = (st2, k2)"
    by (cases "clear_closid_rmid e cpu (st\<lparr>rdt_resources_all := rs\<rparr>) (emit MUTEX_UNLOCK k1)")
  from res have ret: "ret = 0" and st': "st' = st2" and k': "k' = emit (RESCTRL_ONLINE_CPU cpu) k2"
    by (simp_all add: resctrl_arch_online_cpu_def loop clr)
  from clear_closid_rmid_effect(4) [OF clr] have rs: "rdt_resources_all st' = rs"
    by (simp add: st')
  from online_cpu_resources_post [OF loop] obtain segs where
    segs: "length segs = length (rdt_resources_all st)"
    "length rs = length (rdt_resources_all st)"
    "trace k1 = trace (emit MUTEX_LOCK k) @ concat segs"
    "\<forall>i < length (rdt_resources_all st). list_all domain_event (segs ! i) \<and>
        online_post e cpu (rdt_resources_all st ! i) (rs ! i) (segs ! i)"
    by blast
  from clear_closid_rmid_effect(1) [OF clr] segs(3)
  have t2: "trace k' = trace k @ MUTEX_LOCK # concat segs @
            [MUTEX_UNLOCK,
             WRMSR MSR_IA32_PQR_ASSOC RESCTRL_RESERVED_RMID RESCTRL_RESERVED_CLOSID,
             RESCTRL_ONLINE_CPU cpu]"
    by (simp add: k' emit_def)
  have ex: "\<exists>segs. length segs = length (rdt_resources_all st) \<and>
          trace k' = trace k @ MUTEX_LOCK # concat segs @
            [MUTEX_UNLOCK,
             WRMSR MSR_IA32_PQR_ASSOC RESCTRL_RESERVED_RMID RESCTRL_RESERVED_CLOSID,
             RESCTRL_ONLINE_CPU cpu] \<and>
          (\<forall>i < length (rdt_resources_all st).
              list_all domain_event (segs ! i) \<and>
              online_post e cpu (rdt_resources_all st ! i) (rdt_resources_all st' ! i)
                (segs ! i))"
    using segs(1,4) t2 unfolding rs by blast
  from segs(2) have len: "length (rdt_resources_all st') = length (rdt_resources_all st)"
    unfolding rs .
  from clear_closid_rmid_effect(2,3) [OF clr]
  have p: "pqr_state st' (this_cpu e) =
        \<lparr> cur_rmid = RESCTRL_RESERVED_RMID, cur_closid = RESCTRL_RESERVED_CLOSID,
          default_rmid = RESCTRL_RESERVED_RMID, default_closid = RESCTRL_RESERVED_CLOSID \<rparr>"
    and q: "\<forall>c. c \<noteq> this_cpu e \<longrightarrow> pqr_state st' c = pqr_state st c"
    by (simp_all add: st')
  from ret ex len p q show ?thesis
    by (intro conjI)
qed

lemma resctrl_arch_offline_cpu_post:
  "\<exists>st' k' segs.
       resctrl_arch_offline_cpu e cpu st k = (0, st', k') \<and>
       length segs = length (rdt_resources_all st) \<and>
       trace k' = trace k @ RESCTRL_OFFLINE_CPU cpu # MUTEX_LOCK # concat segs @
         [MUTEX_UNLOCK,
          WRMSR MSR_IA32_PQR_ASSOC RESCTRL_RESERVED_RMID RESCTRL_RESERVED_CLOSID] \<and>
       (\<forall>i < length (rdt_resources_all st).
           list_all domain_event (segs ! i) \<and>
           offline_post e cpu (rdt_resources_all st ! i) (rdt_resources_all st' ! i)
             (segs ! i)) \<and>
       length (rdt_resources_all st') = length (rdt_resources_all st) \<and>
       pqr_state st' (this_cpu e) =
         \<lparr> cur_rmid = RESCTRL_RESERVED_RMID, cur_closid = RESCTRL_RESERVED_CLOSID,
           default_rmid = RESCTRL_RESERVED_RMID, default_closid = RESCTRL_RESERVED_CLOSID \<rparr> \<and>
       (\<forall>c. c \<noteq> this_cpu e \<longrightarrow> pqr_state st' c = pqr_state st c)"
proof -
  let ?k0 = "emit MUTEX_LOCK (emit (RESCTRL_OFFLINE_CPU cpu) k)"
  obtain rs k1 where loop: "offline_cpu_resources e cpu (rdt_resources_all st) ?k0 = (rs, k1)"
    by (cases "offline_cpu_resources e cpu (rdt_resources_all st) ?k0")
  obtain st2 k2 where
    clr: "clear_closid_rmid e cpu (st\<lparr>rdt_resources_all := rs\<rparr>) (emit MUTEX_UNLOCK k1) = (st2, k2)"
    by (cases "clear_closid_rmid e cpu (st\<lparr>rdt_resources_all := rs\<rparr>) (emit MUTEX_UNLOCK k1)")
  have res: "resctrl_arch_offline_cpu e cpu st k = (0, st2, k2)"
    by (simp add: resctrl_arch_offline_cpu_def loop clr)
  from clear_closid_rmid_effect(4) [OF clr] have rs: "rdt_resources_all st2 = rs"
    by simp
  from offline_cpu_resources_post [OF loop] obtain segs where
    segs: "length segs = length (rdt_resources_all st)"
    "length rs = length (rdt_resources_all st)"
    "trace k1 = trace ?k0 @ concat segs"
    "\<forall>i < length (rdt_resources_all st). list_all domain_event (segs ! i) \<and>
        offline_post e cpu (rdt_resources_all st ! i) (rs ! i) (segs ! i)"
    by blast
  from clear_closid_rmid_effect(1) [OF clr] segs(3)
  have t2: "trace k2 = trace k @ RESCTRL_OFFLINE_CPU cpu # MUTEX_LOCK # concat segs @
         [MUTEX_UNLOCK,
          WRMSR MSR_IA32_PQR_ASSOC RESCTRL_RESERVED_RMID RESCTRL_RESERVED_CLOSID]"
    by (simp add: emit_def)
  from segs(2) have len: "length (rdt_resources_all st2) = length (rdt_resources_all st)"
    unfolding rs .
  from segs(4) have post: "\<forall>i < length (rdt_resources_all st).
           list_all domain_event (segs ! i) \<and>
           offline_post e cpu (rdt_resources_all st ! i) (rdt_resources_all st2 ! i) (segs ! i)"
    unfolding rs .
  from clear_closid_rmid_effect(2,3) [OF clr]
  have p: "pqr_state st2 (this_cpu e) =
        \<lparr> cur_rmid = RESCTRL_RESERVED_RMID, cur_closid = RESCTRL_RESERVED_CLOSID,
          default_rmid = RESCTRL_RESERVED_RMID, default_closid = RESCTRL_RESERVED_CLOSID \<rparr>"
    and q: "\<forall>c. c \<noteq> this_cpu e \<longrightarrow> pqr_state st2 c = pqr_state st c"
    by simp_all
  from res segs(1) t2 post len p q show ?thesis
    by blast
qed

subsection \<open>The handlers on the example machine\<close>

lemma domain_add_cpu_ctrl_new_cat:
  assumes id: "0 \<le> get_domain_id_from_scope e cpu (ctrl_scope r)"
    and nf: "resctrl_find_domain (ctrl_domains r) (get_domain_id_from_scope e cpu (ctrl_scope r)) 0
               = (None, pos)"
    and az: "kzalloc_ctrl_dom_ok e (rid r)"
    and am: "kmalloc_ctrl_val_ok e (rid r)"
    and upd: "msr_update r = Some CAT_WRMSR"
    and hook: "resctrl_online_ctrl_domain e (rid r) (get_domain_id_from_scope e cpu (ctrl_scope r)) = 0"
  shows "domain_add_cpu_ctrl e cpu r k =
      Some (r\<lparr>ctrl_domains :=
               list_add_tail_rcu
                 \<lparr> hdr_id = get_domain_id_from_scope e cpu (ctrl_scope r),
                   hdr_type = RESCTRL_CTRL_DOMAIN, cpu_mask = {cpu}, plr = None,
                   ctrl_val = replicate (unat (num_closid r)) (resctrl_get_default_ctrl r) \<rparr>
                 pos (ctrl_domains r)\<rparr>,
            k\<lparr>trace := trace k @
                 RDT_DOMAIN_RECONFIGURE_CDP (rid r) #
                 map (\<lambda>i. WRMSRQ (msr_base r + of_nat i) (ucast (resctrl_get_default_ctrl r)))
                   [0..<unat (num_closid r)] @
                 [LIST_ADD_TAIL_RCU RESCTRL_CTRL_DOMAIN (rid r)
                    (get_domain_id_from_scope e cpu (ctrl_scope r)),
                  RESCTRL_ONLINE_CTRL_DOMAIN (rid r)
                    (get_domain_id_from_scope e cpu (ctrl_scope r))]\<rparr>)"
proof -
  let ?d = "\<lparr> hdr_id = get_domain_id_from_scope e cpu (ctrl_scope r),
                hdr_type = RESCTRL_CTRL_DOMAIN, cpu_mask = {cpu}, plr = None,
                ctrl_val = replicate (unat (num_closid r)) (resctrl_get_default_ctrl r) \<rparr>"
  let ?m = "\<lparr> res = r, dom = ?d, low = 0, high = num_closid r \<rparr>"
  have c: "call_msr_update (Some CAT_WRMSR) ?m (rdt_domain_reconfigure_cdp r k) =
      Some ((rdt_domain_reconfigure_cdp r k)
        \<lparr>trace := trace (rdt_domain_reconfigure_cdp r k) @
           map (\<lambda>i. WRMSRQ (msr_base r + of_nat i) (ucast (resctrl_get_default_ctrl r)))
             [0..<unat (num_closid r)]\<rparr>)"
    using cat_wrmsr_defaults [of ?m "resctrl_get_default_ctrl r" "rdt_domain_reconfigure_cdp r k"]
    by simp
  show ?thesis
    unfolding domain_add_cpu_ctrl_new [OF id nf az am] upd c
    by (simp add: hook Let_def rdt_domain_reconfigure_cdp_def emit_def)
qed

lemma l3_example_fields:
  "ctrl_scope l3_example = RESCTRL_L3_CACHE" "rid l3_example = 0"
  "ctrl_domains l3_example = []" "msr_update l3_example = Some CAT_WRMSR"
  "num_closid l3_example = 4" "msr_base l3_example = 0xc90"
  "schema_fmt l3_example = RESCTRL_SCHEMA_BITMAP" "cbm_len (cache l3_example) = 20"
  "alloc_capable l3_example" "\<not> mon_capable l3_example"
  by (simp_all add: l3_example_def rdt_resources_all_init_def RDT_RESOURCE_L3_def
      rdt_hw_resource_zero_def MSR_IA32_L3_CBM_BASE_def)

lemma l3_one_core_fields:
  "ctrl_scope l3_one_core = RESCTRL_L3_CACHE" "rid l3_one_core = 0"
  "ctrl_domains l3_one_core =
     [\<lparr> hdr_id = 0, hdr_type = RESCTRL_CTRL_DOMAIN, cpu_mask = {0}, plr = None,
        ctrl_val = [0xFFFFF, 0xFFFFF, 0xFFFFF, 0xFFFFF] \<rparr>]"
  "alloc_capable l3_one_core" "\<not> mon_capable l3_one_core"
  "l3_one_core\<lparr>ctrl_domains := []\<rparr> = l3_example"
  by (simp_all add: l3_one_core_def l3_example_fields)

lemma env_example_l3_id: "get_domain_id_from_scope env_example 0 RESCTRL_L3_CACHE = 0"
  by (simp add: get_domain_id_from_scope_def env_example_def)

lemma domain_add_cpu_ctrl_l3_example:
  "domain_add_cpu_ctrl env_example 0 l3_example k =
     Some (l3_one_core,
           k\<lparr>trace := trace k @
                [RDT_DOMAIN_RECONFIGURE_CDP 0,
                 WRMSRQ 0xc90 0xFFFFF, WRMSRQ 0xc91 0xFFFFF,
                 WRMSRQ 0xc92 0xFFFFF, WRMSRQ 0xc93 0xFFFFF,
                 LIST_ADD_TAIL_RCU RESCTRL_CTRL_DOMAIN 0 0,
                 RESCTRL_ONLINE_CTRL_DOMAIN 0 0]\<rparr>)"
proof -
  note sc = l3_example_fields
  have gid: "get_domain_id_from_scope env_example 0 (ctrl_scope l3_example) = 0"
    unfolding sc by (rule env_example_l3_id)
  have id: "0 \<le> get_domain_id_from_scope env_example 0 (ctrl_scope l3_example)"
    by (simp add: gid)
  have nf: "resctrl_find_domain (ctrl_domains l3_example)
              (get_domain_id_from_scope env_example 0 (ctrl_scope l3_example)) 0 = (None, 0)"
    by (simp add: sc)
  have az: "kzalloc_ctrl_dom_ok env_example (rid l3_example)"
    and am: "kmalloc_ctrl_val_ok env_example (rid l3_example)"
    by (simp_all add: env_example_def)
  have hook: "resctrl_online_ctrl_domain env_example (rid l3_example)
                (get_domain_id_from_scope env_example 0 (ctrl_scope l3_example)) = 0"
    by (simp add: env_example_def)
  have dflt: "resctrl_get_default_ctrl l3_example = 0xFFFFF"
    by (simp add: resctrl_get_default_ctrl_def sc mask_eq_exp_minus_1)
  have "[0..<(4 :: nat)] = [0, 1, 2, 3]"
    by code_simp
  then have u: "[0..<unat (4 :: u32)] = [0, 1, 2, 3]"
    by simp
  have u4: "unat (4 :: u32) = 4"
    by simp
  have "\<And>x :: u32. replicate (4 :: nat) x = [x, x, x, x]"
    by (simp add: numeral_eq_Suc)
  then have rp: "\<And>x :: u32. replicate (unat (4 :: u32)) x = [x, x, x, x]"
    unfolding u4 .
  show ?thesis
    unfolding domain_add_cpu_ctrl_new_cat [OF id nf az am sc(4) hook] gid sc dflt u rp
    by (simp add: list_add_tail_rcu_def l3_one_core_def env_example_l3_id)
qed

lemma domain_remove_cpu_ctrl_l3_one_core:
  "domain_remove_cpu_ctrl env_example 0 l3_one_core k =
     (l3_example,
      k\<lparr>trace := trace k @
           [RESCTRL_OFFLINE_CTRL_DOMAIN 0 0, LIST_DEL_RCU RESCTRL_CTRL_DOMAIN 0 0,
            SYNCHRONIZE_RCU, CTRL_DOMAIN_FREE 0 0]\<rparr>)"
proof -
  note sc = l3_one_core_fields
  have gid: "get_domain_id_from_scope env_example 0 (ctrl_scope l3_one_core) = 0"
    unfolding sc by (rule env_example_l3_id)
  have id: "0 \<le> get_domain_id_from_scope env_example 0 (ctrl_scope l3_one_core)"
    by (simp add: gid)
  have f: "resctrl_find_domain (ctrl_domains l3_one_core)
             (get_domain_id_from_scope env_example 0 (ctrl_scope l3_one_core)) 0 = (Some 0, 0)"
    unfolding sc by (simp add: env_example_l3_id)
  have ty: "hdr_type (ctrl_domains l3_one_core ! 0) = RESCTRL_CTRL_DOMAIN"
    unfolding sc by simp
  show ?thesis
    unfolding domain_remove_cpu_ctrl_found [OF id f ty]
    unfolding sc(1,2,3)
    by (simp add: list_del_rcu_def sc(6) env_example_l3_id)
qed

lemma rdt_state_example_table:
  "rdt_resources_all rdt_state_example =
     [l3_example,
      (rdt_resources_all_init ! RDT_RESOURCE_L2)\<lparr>rid := RDT_RESOURCE_L2\<rparr>,
      (rdt_resources_all_init ! RDT_RESOURCE_MBA)\<lparr>rid := RDT_RESOURCE_MBA\<rparr>,
      (rdt_resources_all_init ! RDT_RESOURCE_SMBA)\<lparr>rid := RDT_RESOURCE_SMBA\<rparr>]"
proof -
  have "[0..<(4 :: nat)] = [0, 1, 2, 3]"
    by code_simp
  then show ?thesis
    by (simp add: rdt_state_example_def rdt_state_boot_def resctrl_arch_late_init_rids_def
        RDT_NUM_RESOURCES_def rdt_resources_all_init_def RDT_RESOURCE_L3_def RDT_RESOURCE_L2_def
        RDT_RESOURCE_MBA_def RDT_RESOURCE_SMBA_def)
qed

lemma rdt_state_example_rids:
  "map rid (rdt_resources_all rdt_state_example)
     = [0..<length (rdt_resources_all rdt_state_example)]"
proof -
  have "[0..<(4 :: nat)] = [0, 1, 2, 3]"
    by code_simp
  then show ?thesis
    unfolding rdt_state_example_table
    by (simp add: l3_example_fields RDT_RESOURCE_L2_def RDT_RESOURCE_MBA_def RDT_RESOURCE_SMBA_def)
qed

lemma rdt_state_one_core_table:
  "rdt_resources_all rdt_state_one_core =
     [l3_one_core,
      (rdt_resources_all_init ! RDT_RESOURCE_L2)\<lparr>rid := RDT_RESOURCE_L2\<rparr>,
      (rdt_resources_all_init ! RDT_RESOURCE_MBA)\<lparr>rid := RDT_RESOURCE_MBA\<rparr>,
      (rdt_resources_all_init ! RDT_RESOURCE_SMBA)\<lparr>rid := RDT_RESOURCE_SMBA\<rparr>]"
  by (simp add: rdt_state_one_core_def rdt_state_example_table RDT_RESOURCE_L3_def)

lemma rdt_state_one_core_rids:
  "map rid (rdt_resources_all rdt_state_one_core)
     = [0..<length (rdt_resources_all rdt_state_one_core)]"
proof -
  have "[0..<(4 :: nat)] = [0, 1, 2, 3]"
    by code_simp
  then show ?thesis
    unfolding rdt_state_one_core_table
    by (simp add: l3_one_core_fields RDT_RESOURCE_L2_def RDT_RESOURCE_MBA_def RDT_RESOURCE_SMBA_def)
qed

lemma not_capable_init:
  "\<not> alloc_capable ((rdt_resources_all_init ! RDT_RESOURCE_L2)\<lparr>rid := RDT_RESOURCE_L2\<rparr>)"
  "\<not> mon_capable ((rdt_resources_all_init ! RDT_RESOURCE_L2)\<lparr>rid := RDT_RESOURCE_L2\<rparr>)"
  "\<not> alloc_capable ((rdt_resources_all_init ! RDT_RESOURCE_MBA)\<lparr>rid := RDT_RESOURCE_MBA\<rparr>)"
  "\<not> mon_capable ((rdt_resources_all_init ! RDT_RESOURCE_MBA)\<lparr>rid := RDT_RESOURCE_MBA\<rparr>)"
  "\<not> alloc_capable ((rdt_resources_all_init ! RDT_RESOURCE_SMBA)\<lparr>rid := RDT_RESOURCE_SMBA\<rparr>)"
  "\<not> mon_capable ((rdt_resources_all_init ! RDT_RESOURCE_SMBA)\<lparr>rid := RDT_RESOURCE_SMBA\<rparr>)"
  by (simp_all add: rdt_resources_all_init_def RDT_RESOURCE_L2_def RDT_RESOURCE_MBA_def
      RDT_RESOURCE_SMBA_def rdt_hw_resource_zero_def)

lemma online_cpu_resources_example:
  "online_cpu_resources env_example 0 (rdt_resources_all rdt_state_example) k =
     Some (rdt_resources_all rdt_state_one_core,
           k\<lparr>trace := trace k @
                [RDT_DOMAIN_RECONFIGURE_CDP 0,
                 WRMSRQ 0xc90 0xFFFFF, WRMSRQ 0xc91 0xFFFFF,
                 WRMSRQ 0xc92 0xFFFFF, WRMSRQ 0xc93 0xFFFFF,
                 LIST_ADD_TAIL_RCU RESCTRL_CTRL_DOMAIN 0 0,
                 RESCTRL_ONLINE_CTRL_DOMAIN 0 0]\<rparr>)"
  unfolding rdt_state_example_table rdt_state_one_core_table
  by (simp add: not_capable_init l3_example_fields l3_one_core_fields domain_add_cpu_def
      domain_add_cpu_ctrl_l3_example)

lemma offline_cpu_resources_example:
  "offline_cpu_resources env_example 0 (rdt_resources_all rdt_state_one_core) k =
     (rdt_resources_all rdt_state_example,
      k\<lparr>trace := trace k @
           [RESCTRL_OFFLINE_CTRL_DOMAIN 0 0, LIST_DEL_RCU RESCTRL_CTRL_DOMAIN 0 0,
            SYNCHRONIZE_RCU, CTRL_DOMAIN_FREE 0 0]\<rparr>)"
  unfolding rdt_state_example_table rdt_state_one_core_table
  by (simp add: not_capable_init l3_example_fields l3_one_core_fields domain_remove_cpu_def
      domain_remove_cpu_ctrl_l3_one_core)

lemma pqr_state_example:
  "pqr_state rdt_state_example =
     (\<lambda>cpu. \<lparr> cur_rmid = 0, cur_closid = 0, default_rmid = 0, default_closid = 0 \<rparr>)"
  "pqr_state rdt_state_one_core =
     (\<lambda>cpu. \<lparr> cur_rmid = 0, cur_closid = 0, default_rmid = 0, default_closid = 0 \<rparr>)"
  by (simp_all add: rdt_state_one_core_def rdt_state_example_def rdt_state_boot_def)

lemma clear_closid_rmid_reserved:
  assumes "pqr_state st (this_cpu e) =
      \<lparr> cur_rmid = RESCTRL_RESERVED_RMID, cur_closid = RESCTRL_RESERVED_CLOSID,
        default_rmid = RESCTRL_RESERVED_RMID, default_closid = RESCTRL_RESERVED_CLOSID \<rparr>"
  shows "clear_closid_rmid e cpu st k =
     (st, emit (WRMSR MSR_IA32_PQR_ASSOC RESCTRL_RESERVED_RMID RESCTRL_RESERVED_CLOSID) k)"
proof -
  have "(pqr_state st)(this_cpu e :=
      \<lparr> cur_rmid = RESCTRL_RESERVED_RMID, cur_closid = RESCTRL_RESERVED_CLOSID,
        default_rmid = RESCTRL_RESERVED_RMID, default_closid = RESCTRL_RESERVED_CLOSID \<rparr>)
      = pqr_state st"
    using assms by (auto simp: fun_eq_iff)
  then show ?thesis
    unfolding clear_closid_rmid_def Let_def assms by simp
qed

lemma clear_closid_rmid_example:
  "clear_closid_rmid env_example cpu rdt_state_example k =
     (rdt_state_example, k\<lparr>trace := trace k @ [WRMSR 0xc8f 0 0]\<rparr>)"
  "clear_closid_rmid env_example cpu rdt_state_one_core k =
     (rdt_state_one_core, k\<lparr>trace := trace k @ [WRMSR 0xc8f 0 0]\<rparr>)"
  by (simp_all add: clear_closid_rmid_reserved pqr_state_example emit_def
      RESCTRL_RESERVED_CLOSID_def RESCTRL_RESERVED_RMID_def MSR_IA32_PQR_ASSOC_def)

lemma rdt_state_example_one_core:
  "rdt_state_example\<lparr>rdt_resources_all := rdt_resources_all rdt_state_one_core\<rparr>
     = rdt_state_one_core"
  "rdt_state_one_core\<lparr>rdt_resources_all := rdt_resources_all rdt_state_example\<rparr>
     = rdt_state_example"
  by (simp_all add: rdt_state_one_core_def)

lemma resctrl_arch_online_cpu_example:
  "resctrl_arch_online_cpu env_example 0 rdt_state_example kstate_empty =
     Some (0, rdt_state_one_core,
           \<lparr> trace = [MUTEX_LOCK,
                      RDT_DOMAIN_RECONFIGURE_CDP 0,
                      WRMSRQ 0xc90 0xFFFFF, WRMSRQ 0xc91 0xFFFFF,
                      WRMSRQ 0xc92 0xFFFFF, WRMSRQ 0xc93 0xFFFFF,
                      LIST_ADD_TAIL_RCU RESCTRL_CTRL_DOMAIN 0 0,
                      RESCTRL_ONLINE_CTRL_DOMAIN 0 0,
                      MUTEX_UNLOCK,
                      WRMSR 0xc8f 0 0,
                      RESCTRL_ONLINE_CPU 0],
             warned = {} \<rparr>)"
  unfolding resctrl_arch_online_cpu_def online_cpu_resources_example
  by (simp add: rdt_state_example_one_core clear_closid_rmid_example emit_def kstate_empty_def)

lemma resctrl_arch_offline_cpu_example:
  "resctrl_arch_offline_cpu env_example 0 rdt_state_one_core kstate_empty =
     (0, rdt_state_example,
      \<lparr> trace = [RESCTRL_OFFLINE_CPU 0,
                 MUTEX_LOCK,
                 RESCTRL_OFFLINE_CTRL_DOMAIN 0 0, LIST_DEL_RCU RESCTRL_CTRL_DOMAIN 0 0,
                 SYNCHRONIZE_RCU, CTRL_DOMAIN_FREE 0 0,
                 MUTEX_UNLOCK,
                 WRMSR 0xc8f 0 0],
        warned = {} \<rparr>)"
  unfolding resctrl_arch_offline_cpu_def offline_cpu_resources_example
  by (simp add: rdt_state_example_one_core clear_closid_rmid_example emit_def kstate_empty_def)

subsection \<open>The order of a hotplug transition\<close>

text \<open>
  C6. The table is numbered as late initialisation leaves it. When
  \<open>resctrl_arch_online_cpu\<close> returns, it returns 0 and its effects are, in this order:
  the writer lock is taken; the entries of the table are passed in table order, each
  pass adding events of the domain registry only; the lock is released; the tracking
  state of the core the handler runs on is set to the reserved class and group and the
  association register is written with them; the per-core online hook of the file-system
  layer is called. Under the lock the domain additions have taken place: for every
  allocation-capable entry whose core can join, the core is afterwards a member of its
  control domain in the list of the entry, and linking a domain that was not in the list
  and the online hook for it are events of the pass over that entry; the same for the
  monitor domains of every monitoring-capable entry; an entry that is not capable is
  left as it is and adds no event. The handler does return when every
  allocation-capable entry has a register-programming strategy.
  \<open>resctrl_arch_offline_cpu\<close> always returns 0, and its effects are: the per-core
  offline hook first; then the writer lock, the passes over the entries in table order
  and the release of the lock; then the same reset of the tracking state and of the
  association register. Under the lock the domain removals have taken place: in the list
  of every allocation-capable entry that holds the control domain of the core, the core
  is out of the member set, and a domain whose last member it was is out of the list,
  with the offline hook, the unlinking and the freeing among the events of the pass; the
  same for the monitor domains. No other core's tracking state changes.
\<close>

theorem hotplug_order:
  assumes "map rid (rdt_resources_all st) = [0..<length (rdt_resources_all st)]"
  shows
  "(\<forall>ret st' k'. resctrl_arch_online_cpu e cpu st k = Some (ret, st', k') \<longrightarrow>
      ret = 0 \<and>
      (\<exists>segs. length segs = length (rdt_resources_all st) \<and>
          trace k' = trace k @ MUTEX_LOCK # concat segs @
            [MUTEX_UNLOCK,
             WRMSR MSR_IA32_PQR_ASSOC RESCTRL_RESERVED_RMID RESCTRL_RESERVED_CLOSID,
             RESCTRL_ONLINE_CPU cpu] \<and>
          (\<forall>i < length (rdt_resources_all st).
              list_all domain_event (segs ! i) \<and>
              online_post e cpu (rdt_resources_all st ! i) (rdt_resources_all st' ! i)
                (segs ! i))) \<and>
      length (rdt_resources_all st') = length (rdt_resources_all st) \<and>
      pqr_state st' (this_cpu e) =
        \<lparr> cur_rmid = RESCTRL_RESERVED_RMID, cur_closid = RESCTRL_RESERVED_CLOSID,
          default_rmid = RESCTRL_RESERVED_RMID, default_closid = RESCTRL_RESERVED_CLOSID \<rparr> \<and>
      (\<forall>c. c \<noteq> this_cpu e \<longrightarrow> pqr_state st' c = pqr_state st c)) \<and>
   ((\<forall>r \<in> set (rdt_resources_all st). alloc_capable r \<longrightarrow> msr_update r \<noteq> None) \<longrightarrow>
      resctrl_arch_online_cpu e cpu st k \<noteq> None) \<and>
   (\<exists>st' k' segs.
       resctrl_arch_offline_cpu e cpu st k = (0, st', k') \<and>
       length segs = length (rdt_resources_all st) \<and>
       trace k' = trace k @ RESCTRL_OFFLINE_CPU cpu # MUTEX_LOCK # concat segs @
         [MUTEX_UNLOCK,
          WRMSR MSR_IA32_PQR_ASSOC RESCTRL_RESERVED_RMID RESCTRL_RESERVED_CLOSID] \<and>
       (\<forall>i < length (rdt_resources_all st).
           list_all domain_event (segs ! i) \<and>
           offline_post e cpu (rdt_resources_all st ! i) (rdt_resources_all st' ! i)
             (segs ! i)) \<and>
       length (rdt_resources_all st') = length (rdt_resources_all st) \<and>
       pqr_state st' (this_cpu e) =
         \<lparr> cur_rmid = RESCTRL_RESERVED_RMID, cur_closid = RESCTRL_RESERVED_CLOSID,
           default_rmid = RESCTRL_RESERVED_RMID, default_closid = RESCTRL_RESERVED_CLOSID \<rparr> \<and>
       (\<forall>c. c \<noteq> this_cpu e \<longrightarrow> pqr_state st' c = pqr_state st c))"
proof -
  have on: "\<forall>ret st' k'. resctrl_arch_online_cpu e cpu st k = Some (ret, st', k') \<longrightarrow>
      ret = 0 \<and>
      (\<exists>segs. length segs = length (rdt_resources_all st) \<and>
          trace k' = trace k @ MUTEX_LOCK # concat segs @
            [MUTEX_UNLOCK,
             WRMSR MSR_IA32_PQR_ASSOC RESCTRL_RESERVED_RMID RESCTRL_RESERVED_CLOSID,
             RESCTRL_ONLINE_CPU cpu] \<and>
          (\<forall>i < length (rdt_resources_all st).
              list_all domain_event (segs ! i) \<and>
              online_post e cpu (rdt_resources_all st ! i) (rdt_resources_all st' ! i)
                (segs ! i))) \<and>
      length (rdt_resources_all st') = length (rdt_resources_all st) \<and>
      pqr_state st' (this_cpu e) =
        \<lparr> cur_rmid = RESCTRL_RESERVED_RMID, cur_closid = RESCTRL_RESERVED_CLOSID,
          default_rmid = RESCTRL_RESERVED_RMID, default_closid = RESCTRL_RESERVED_CLOSID \<rparr> \<and>
      (\<forall>c. c \<noteq> this_cpu e \<longrightarrow> pqr_state st' c = pqr_state st c)"
    by (intro allI impI) (rule resctrl_arch_online_cpu_post)
  have ret: "(\<forall>r \<in> set (rdt_resources_all st). alloc_capable r \<longrightarrow> msr_update r \<noteq> None) \<longrightarrow>
      resctrl_arch_online_cpu e cpu st k \<noteq> None"
    by (rule impI) (rule resctrl_arch_online_cpu_returns)
  show ?thesis
    by (rule conjI [OF on conjI [OF ret resctrl_arch_offline_cpu_post]])
qed

theorem hotplug_order_witness:
  "resctrl_arch_online_cpu env_example 0 rdt_state_example kstate_empty =
     Some (0, rdt_state_one_core,
           \<lparr> trace = [MUTEX_LOCK,
                      RDT_DOMAIN_RECONFIGURE_CDP 0,
                      WRMSRQ 0xc90 0xFFFFF, WRMSRQ 0xc91 0xFFFFF,
                      WRMSRQ 0xc92 0xFFFFF, WRMSRQ 0xc93 0xFFFFF,
                      LIST_ADD_TAIL_RCU RESCTRL_CTRL_DOMAIN 0 0,
                      RESCTRL_ONLINE_CTRL_DOMAIN 0 0,
                      MUTEX_UNLOCK,
                      WRMSR 0xc8f 0 0,
                      RESCTRL_ONLINE_CPU 0],
             warned = {} \<rparr>) \<and>
   member_of 0 0 (ctrl_domains (rdt_resources_all rdt_state_one_core ! RDT_RESOURCE_L3)) \<and>
   resctrl_arch_offline_cpu env_example 0 rdt_state_one_core kstate_empty =
     (0, rdt_state_example,
      \<lparr> trace = [RESCTRL_OFFLINE_CPU 0,
                 MUTEX_LOCK,
                 RESCTRL_OFFLINE_CTRL_DOMAIN 0 0, LIST_DEL_RCU RESCTRL_CTRL_DOMAIN 0 0,
                 SYNCHRONIZE_RCU, CTRL_DOMAIN_FREE 0 0,
                 MUTEX_UNLOCK,
                 WRMSR 0xc8f 0 0],
        warned = {} \<rparr>) \<and>
   ctrl_domains (rdt_resources_all rdt_state_example ! RDT_RESOURCE_L3) = []"
proof -
  note on = resctrl_arch_online_cpu_example
  note off = resctrl_arch_offline_cpu_example
  note th1 = hotplug_order [OF rdt_state_example_rids, of env_example 0 kstate_empty]
  note th2 = hotplug_order [OF rdt_state_one_core_rids, of env_example 0 kstate_empty]
  have i0: "RDT_RESOURCE_L3 < length (rdt_resources_all rdt_state_example)"
    "RDT_RESOURCE_L3 < length (rdt_resources_all rdt_state_one_core)"
    by (simp_all add: rdt_state_example_table rdt_state_one_core_table RDT_RESOURCE_L3_def)
  have e0: "rdt_resources_all rdt_state_example ! RDT_RESOURCE_L3 = l3_example"
    and o0: "rdt_resources_all rdt_state_one_core ! RDT_RESOURCE_L3 = l3_one_core"
    by (simp_all add: rdt_state_example_table rdt_state_one_core_table RDT_RESOURCE_L3_def)
  from th1 on obtain segs where
    "\<forall>i < length (rdt_resources_all rdt_state_example).
        list_all domain_event (segs ! i) \<and>
        online_post env_example 0 (rdt_resources_all rdt_state_example ! i)
          (rdt_resources_all rdt_state_one_core ! i) (segs ! i)"
    by blast
  with i0(1) have "online_post env_example 0 (rdt_resources_all rdt_state_example ! RDT_RESOURCE_L3)
          (rdt_resources_all rdt_state_one_core ! RDT_RESOURCE_L3) (segs ! RDT_RESOURCE_L3)"
    by blast
  then have cj: "ctrl_joined env_example 0 l3_example (ctrl_domains l3_one_core)
      (segs ! RDT_RESOURCE_L3)"
    unfolding e0 o0 by (simp add: online_post_def)
  have ok: "ctrl_join_succeeds env_example 0 l3_example"
    by (simp add: ctrl_join_succeeds_def l3_example_fields env_example_l3_id)
      (simp add: env_example_def)
  from cj ok have m: "member_of 0 0 (ctrl_domains l3_one_core)"
    by (simp add: ctrl_joined_def Let_def l3_example_fields env_example_l3_id)
  from th2 obtain st' k' segs' where
    r: "resctrl_arch_offline_cpu env_example 0 rdt_state_one_core kstate_empty = (0, st', k')"
    and p: "\<forall>i < length (rdt_resources_all rdt_state_one_core).
           list_all domain_event (segs' ! i) \<and>
           offline_post env_example 0 (rdt_resources_all rdt_state_one_core ! i)
             (rdt_resources_all st' ! i) (segs' ! i)"
    by blast
  from r off have st': "st' = rdt_state_example"
    by simp
  from p i0(2) have "offline_post env_example 0 (rdt_resources_all rdt_state_one_core ! RDT_RESOURCE_L3)
             (rdt_resources_all st' ! RDT_RESOURCE_L3) (segs' ! RDT_RESOURCE_L3)"
    by blast
  then have cl: "ctrl_left env_example 0 l3_one_core
      (ctrl_domains (rdt_resources_all rdt_state_example ! RDT_RESOURCE_L3))
      (segs' ! RDT_RESOURCE_L3)"
    unfolding o0 st' by (simp add: offline_post_def)
  then have d: "ctrl_domains (rdt_resources_all rdt_state_example ! RDT_RESOURCE_L3) = []"
    by (simp add: ctrl_left_def Let_def l3_one_core_fields env_example_l3_id list_del_rcu_def)
  from on m [folded o0] off d show ?thesis
    by (intro conjI)
qed

subsection \<open>Domains and their member cores: the claim\<close>







end
